theory Spec2Isabelle
  imports Complex_Main "HOL-Library.Multiset" "HOL-Library.Log_Nat"
begin

section \<open>Data model of Borders.ts\<close>

text \<open>
  The types of \<^verbatim>\<open>@/app/quadratic-core-types\<close> are declarations that are not part of the
  source file. Of a line kind the file only reads whether it is \<^verbatim>\<open>'clear'\<close>, so every
  other kind is carried by its name. Cell indices (\<^verbatim>\<open>bigint\<close>, and \<^verbatim>\<open>number\<close> after
  \<^verbatim>\<open>Number(...)\<close>) are integers; pixel coordinates (\<^verbatim>\<open>number\<close>) are idealised as
  rationals. The zoom scale, the two zoom constants and the alpha of a container are
  binary64 numbers, with the arithmetic of the section on numbers below.
\<close>

datatype CellBorderLine = Clear | Line string

type_synonym Rgba = "nat \<times> nat \<times> nat \<times> nat"

record BorderStyle =
  color :: Rgba
  line :: CellBorderLine

record BorderStyleTimestamp = BorderStyle +
  timestamp :: int

record BorderStyleCell =
  top_edge :: "BorderStyleTimestamp option"
  bottom_edge :: "BorderStyleTimestamp option"
  left_edge :: "BorderStyleTimestamp option"
  right_edge :: "BorderStyleTimestamp option"

text \<open>The fields \<^verbatim>\<open>x\<close>, \<^verbatim>\<open>y\<close>, \<^verbatim>\<open>width\<close> and \<^verbatim>\<open>height\<close> of an explicit segment.\<close>

record JsBorder = BorderStyle +
  b_x :: int
  b_y :: int

record JsBorderHorizontal = JsBorder +
  width :: int

record JsBorderVertical = JsBorder +
  height :: int

text \<open>
  \<^verbatim>\<open>Record<string, BorderStyleCell>\<close>: the entries in the order in which \<^verbatim>\<open>for ... in\<close>
  visits them, each key being the decimal string of an integer and written as that integer
  (so \<^verbatim>\<open>Number(BigInt(x))\<close> and \<^verbatim>\<open>(n).toString()\<close> are the identity).
\<close>

type_synonym overrides = "(int \<times> BorderStyleCell) list"

record JsBordersSheet =
  b_all :: "BorderStyleCell option"
  b_columns :: "overrides option"
  b_rows :: "overrides option"
  b_horizontal :: "JsBorderHorizontal list option"
  b_vertical :: "JsBorderVertical list option"

text \<open>A pixi \<^verbatim>\<open>Rectangle\<close>.\<close>

record Rectangle =
  rect_x :: rat
  rect_y :: rat
  rect_width :: rat
  rect_height :: rat

definition rect_left :: "Rectangle \<Rightarrow> rat" where
  "rect_left r = rect_x r"

definition rect_right :: "Rectangle \<Rightarrow> rat" where
  "rect_right r = rect_x r + rect_width r"

definition rect_top :: "Rectangle \<Rightarrow> rat" where
  "rect_top r = rect_y r"

definition rect_bottom :: "Rectangle \<Rightarrow> rat" where
  "rect_bottom r = rect_y r + rect_height r"

datatype Orientation = Horizontal | Vertical

text \<open>
  A drawable primitive: the options one call of \<^verbatim>\<open>drawCellBorder\<close> receives (its
  \<^verbatim>\<open>position\<close>, and the \<^verbatim>\<open>type\<close> and \<^verbatim>\<open>color\<close> given under the key \<^verbatim>\<open>horizontal\<close> or
  \<^verbatim>\<open>vertical\<close>). A \<^verbatim>\<open>BorderCull\<close> is a sprite with its culling rectangle; the
  \<^verbatim>\<open>visible\<close> flag of the sprite is kept with it.
\<close>

record Primitive =
  position :: Rectangle
  orientation :: Orientation
  style :: BorderStyle

record BorderCull =
  sprite :: Primitive
  rectangle :: Rectangle
  visible :: bool

section \<open>Numbers\<close>

text \<open>
  A JavaScript \<^verbatim>\<open>number\<close> is an IEEE 754 binary64 value: \<^verbatim>\<open>NaN\<close>, one of the two
  infinities, or a finite value, which is carried as the rational it denotes. The sign of a
  zero is not kept: \<^verbatim>\<open>update\<close> compares, adds, subtracts, and divides by the constant
  \<^verbatim>\<open>FADE_SCALE\<close> only, none of which tells the two zeros apart.

  \<open>binade x\<close> is the exponent \<open>e\<close> with \<open>2 powi e \<le> x < 2 powi (e + 1)\<close> for a positive \<open>x\<close>,
  computed from the bit lengths of numerator and denominator. \<open>roundEven\<close> rounds to the
  nearest integer, a tie to the even one. \<open>toDouble\<close> rounds a rational to the nearest
  multiple of the spacing of binary64 values in its binade (53 significant bits, the
  spacing of the subnormal values below \<open>2 powi (- 1022)\<close>), and \<open>toNumber\<close> overflows to an
  infinity, as round-to-nearest does, when the rounded value reaches \<open>2 powi 1024\<close>. A
  decimal literal of the source denotes \<open>toNumber\<close> of its decimal value.
\<close>

datatype number = NaN | Infinity | NegInfinity | Finite rat

definition binade :: "rat \<Rightarrow> int" where
  "binade x =
     (case quotient_of x of
        (a, b) \<Rightarrow> let d = bitlen a - bitlen b in if 2 powi d \<le> x then d else d - 1)"

definition roundEven :: "rat \<Rightarrow> int" where
  "roundEven y =
     (let f = \<lfloor>y\<rfloor>; r = y - of_int f in
      if r < 1 / 2 then f else if 1 / 2 < r then f + 1 else if even f then f else f + 1)"

definition toDouble :: "rat \<Rightarrow> rat" where
  "toDouble x =
     (if x = 0 then 0
      else
        let k = max (binade \<bar>x\<bar>) (- 1022) - 52 in
        sgn x * (of_int (roundEven (\<bar>x\<bar> / 2 powi k)) * 2 powi k))"

definition toNumber :: "rat \<Rightarrow> number" where
  "toNumber x =
     (let v = toDouble x in
      if 2 powi 1024 \<le> \<bar>v\<bar> then (if v < 0 then NegInfinity else Infinity) else Finite v)"

text \<open>The operators \<^verbatim>\<open><\<close>, unary and binary \<^verbatim>\<open>-\<close>, \<^verbatim>\<open>+\<close> and \<^verbatim>\<open>/\<close> on numbers.\<close>

fun num_less :: "number \<Rightarrow> number \<Rightarrow> bool" where
  "num_less NaN y = False"
| "num_less x NaN = False"
| "num_less (Finite a) (Finite b) = (a < b)"
| "num_less (Finite a) Infinity = True"
| "num_less (Finite a) NegInfinity = False"
| "num_less Infinity y = False"
| "num_less NegInfinity NegInfinity = False"
| "num_less NegInfinity y = True"

fun num_neg :: "number \<Rightarrow> number" where
  "num_neg NaN = NaN"
| "num_neg Infinity = NegInfinity"
| "num_neg NegInfinity = Infinity"
| "num_neg (Finite a) = Finite (- a)"

fun num_add :: "number \<Rightarrow> number \<Rightarrow> number" where
  "num_add NaN y = NaN"
| "num_add x NaN = NaN"
| "num_add (Finite a) (Finite b) = toNumber (a + b)"
| "num_add Infinity NegInfinity = NaN"
| "num_add NegInfinity Infinity = NaN"
| "num_add Infinity y = Infinity"
| "num_add NegInfinity y = NegInfinity"
| "num_add (Finite a) y = y"

definition num_sub :: "number \<Rightarrow> number \<Rightarrow> number" where
  "num_sub x y = num_add x (num_neg y)"

fun num_div :: "number \<Rightarrow> number \<Rightarrow> number" where
  "num_div NaN y = NaN"
| "num_div x NaN = NaN"
| "num_div (Finite a) (Finite b) =
     (if b = 0 then (if a = 0 then NaN else if a < 0 then NegInfinity else Infinity)
      else toNumber (a / b))"
| "num_div (Finite a) y = Finite 0"
| "num_div Infinity (Finite b) = (if b < 0 then NegInfinity else Infinity)"
| "num_div NegInfinity (Finite b) = (if b < 0 then Infinity else NegInfinity)"
| "num_div x y = NaN"

section \<open>The environment and the state\<close>

text \<open>The owning sheet's coordinate service (\<^verbatim>\<open>Sheet\<close>).\<close>

record Sheet =
  getColumnX :: "int \<Rightarrow> rat"
  getRowY :: "int \<Rightarrow> rat"
  getCellOffsets :: "int \<Rightarrow> int \<Rightarrow> rat \<times> rat"

datatype error = Error string

type_synonym segments = "(int \<times> int) list"

text \<open>
  What the file reads and does not own. The helpers of \<^verbatim>\<open>./bordersUtil\<close> and
  \<^verbatim>\<open>../../helpers/intersects\<close>, and pixi's \<^verbatim>\<open>Rectangle.intersects\<close>, are not part of the
  source file and are taken as parameters: \<^verbatim>\<open>divideLine\<close> returns the extended \<^verbatim>\<open>lines\<close>
  array together with its result. \<^verbatim>\<open>sheets.getById\<close>, the placements of
  \<^verbatim>\<open>sheets.sheet.offsets\<close> (reduced to their \<^verbatim>\<open>index\<close>), and the viewport's scale and
  visible bounds are read-only during a call.
\<close>

record env =
  ext_divideLine ::
    "segments \<Rightarrow> int option \<Rightarrow> int \<Rightarrow> int \<Rightarrow> int \<Rightarrow> int \<Rightarrow> segments \<times> int option"
  ext_findPerpendicularVerticalLines ::
    "int \<Rightarrow> int \<Rightarrow> overrides option \<Rightarrow> JsBorderVertical list"
  ext_findPerpendicularHorizontalLines ::
    "int \<Rightarrow> int \<Rightarrow> overrides option \<Rightarrow> JsBorderHorizontal list"
  ext_lineLineOneDimension :: "int \<Rightarrow> int \<Rightarrow> int \<Rightarrow> int \<Rightarrow> bool"
  ext_intersects :: "Rectangle \<Rightarrow> Rectangle \<Rightarrow> bool"
  getById :: "string \<Rightarrow> Sheet option"
  getXPlacement :: "rat \<Rightarrow> int"
  getYPlacement :: "rat \<Rightarrow> int"
  scale_x :: number
  getVisibleBounds :: Rectangle

text \<open>
  The fields of the class \<^verbatim>\<open>Borders\<close>, with the children of the two containers, the
  \<^verbatim>\<open>visible\<close> and \<^verbatim>\<open>alpha\<close> of \<^verbatim>\<open>sheetLines\<close>, and \<^verbatim>\<open>pixiApp.viewport.dirty\<close>, which
  \<^verbatim>\<open>drawSheetBorders\<close> writes.
\<close>

record Borders =
  sheetId :: string
  cellLines :: "Primitive list"
  spriteLines :: "BorderCull list"
  sheetLines :: "Primitive list"
  sheetLines_visible :: bool
  sheetLines_alpha :: number
  borders :: "JsBordersSheet option"
  dirty :: bool
  viewport_dirty :: bool

section \<open>Errors and loops\<close>

definition bindE :: "error + 'a \<Rightarrow> ('a \<Rightarrow> error + 'b) \<Rightarrow> error + 'b" where
  "bindE r f = (case r of Inl e \<Rightarrow> Inl e | Inr a \<Rightarrow> f a)"

text \<open>
  A function that may throw returns the error or the state it leaves; the state in which
  a throwing call leaves the object is not kept. A loop whose body may throw ends with the
  first error.
\<close>

fun forEachE :: "('a \<Rightarrow> 's \<Rightarrow> error + 's) \<Rightarrow> 'a list \<Rightarrow> 's \<Rightarrow> error + 's" where
  "forEachE f [] st = Inr st"
| "forEachE f (a # as) st = bindE (f a st) (forEachE f as)"

section \<open>The owning sheet\<close>

definition sheetError :: error where
  "sheetError = Error ''Expected sheet to be defined in CellsBorders.sheet''"

text \<open>The getter \<^verbatim>\<open>sheet\<close>: it throws when the registry has no sheet of the owned id.\<close>

definition sheet :: "env \<Rightarrow> Borders \<Rightarrow> error + Sheet" where
  "sheet ev st =
     (case getById ev (sheetId st) of
        None \<Rightarrow> Inl sheetError
      | Some s \<Rightarrow> Inr s)"

text \<open>
  Modelled from the spec: \<^verbatim>\<open>drawCellBorder\<close> of \<^verbatim>\<open>../drawBorders\<close> is not part of the
  source file. Section 4.3 step 5 has one drawable primitive emitted for each call, and
  section 3 gives a primitive its logical rectangle for culling; a new sprite is visible.
\<close>

definition drawCellBorder :: "Rectangle \<Rightarrow> Orientation \<Rightarrow> BorderStyle \<Rightarrow> BorderCull list" where
  "drawCellBorder pos ori sty =
     [\<lparr>sprite = \<lparr>position = pos, orientation = ori, style = sty\<rparr>,
       rectangle = pos, visible = True\<rparr>]"

text \<open>\<^verbatim>\<open>getSpriteSheet\<close> and \<^verbatim>\<open>getSprite\<close> add the new sprites to their container.\<close>

definition getSpriteSheet :: "BorderCull list \<Rightarrow> Borders \<Rightarrow> Borders" where
  "getSpriteSheet cs st = st\<lparr>sheetLines := sheetLines st @ map sprite cs\<rparr>"

definition getSprite :: "BorderCull list \<Rightarrow> Borders \<Rightarrow> Borders" where
  "getSprite cs st = st\<lparr>cellLines := cellLines st @ map sprite cs\<rparr>"

definition styleOf :: "BorderStyleTimestamp \<Rightarrow> BorderStyle" where
  "styleOf b = \<lparr>color = color b, line = line b\<rparr>"

section \<open>Resolving one screen line\<close>

text \<open>
  \<^verbatim>\<open>while (overlaps.length) { const overlap = overlaps.pop(); ... }\<close>: the last element
  of the array is removed and handed to \<^verbatim>\<open>divideLine\<close> with the span and the current
  cursor. The two line functions differ only in the fields read, given here as \<open>pos\<close> and
  \<open>len\<close>.
\<close>

function overlapLoop ::
  "(segments \<Rightarrow> int option \<Rightarrow> int \<Rightarrow> int \<Rightarrow> int \<Rightarrow> int \<Rightarrow> segments \<times> int option) \<Rightarrow>
   ('a \<Rightarrow> int) \<Rightarrow> ('a \<Rightarrow> int) \<Rightarrow> int \<Rightarrow> int \<Rightarrow> 'a list \<Rightarrow> segments \<Rightarrow> int option \<Rightarrow>
   segments \<times> int option" where
  "overlapLoop dl pos len start stop overlaps lines current =
     (if overlaps = [] then (lines, current)
      else
        (case dl lines current start stop (pos (last overlaps)) (len (last overlaps)) of
           (lines', current') \<Rightarrow>
             overlapLoop dl pos len start stop (butlast overlaps) lines' current'))"
  by pat_completeness auto
termination
  by (relation "measure (\<lambda>(dl, pos, len, start, stop, overlaps, lines, current). length overlaps)")
     auto

declare overlapLoop.simps [simp del]

text \<open>The obstructions of a vertical line, as collected before the sort.\<close>

definition verticalOverlaps ::
  "env \<Rightarrow> JsBordersSheet option \<Rightarrow> int \<Rightarrow> int \<Rightarrow> int \<Rightarrow> overrides option \<Rightarrow>
   JsBorderVertical list" where
  "verticalOverlaps ev b rowStart rowEnd column rows =
     (case Option.bind b b_vertical of
        Some vs \<Rightarrow>
          filter (\<lambda>v. b_x v = column \<and>
                      ext_lineLineOneDimension ev (b_y v) (b_y v + height v) rowStart rowEnd) vs
      | None \<Rightarrow> [])
     @ ext_findPerpendicularVerticalLines ev rowStart rowEnd rows"

definition horizontalOverlaps ::
  "env \<Rightarrow> JsBordersSheet option \<Rightarrow> int \<Rightarrow> int \<Rightarrow> int \<Rightarrow> overrides option \<Rightarrow>
   JsBorderHorizontal list" where
  "horizontalOverlaps ev b columnStart columnEnd row columns =
     (case Option.bind b b_horizontal of
        Some hs \<Rightarrow>
          filter (\<lambda>h. b_y h = row \<and>
                      ext_lineLineOneDimension ev (b_x h) (b_x h + width h) columnStart columnEnd) hs
      | None \<Rightarrow> [])
     @ ext_findPerpendicularHorizontalLines ev columnStart columnEnd columns"

text \<open>The last step of both line functions: what is pushed after the loop.\<close>

definition remainder :: "int \<Rightarrow> int \<Rightarrow> segments \<times> int option \<Rightarrow> segments" where
  "remainder start stop r =
     (case r of
        (lines, None) \<Rightarrow> lines @ [(start, stop)]
      | (lines, Some current) \<Rightarrow> if current < stop then lines @ [(current, stop)] else lines)"

text \<open>
  The array \<^verbatim>\<open>lines\<close> of \<^verbatim>\<open>drawScreenVerticalLine\<close> when its \<^verbatim>\<open>forEach\<close> starts. The sort
  is stable, as \<^verbatim>\<open>Array.prototype.sort\<close> is.
\<close>

definition verticalLines ::
  "env \<Rightarrow> JsBordersSheet option \<Rightarrow> int \<Rightarrow> int \<Rightarrow> int \<Rightarrow> overrides option \<Rightarrow> segments" where
  "verticalLines ev b rowStart rowEnd column rows =
     (if Option.bind b b_vertical \<noteq> None \<or> rows \<noteq> None then
        remainder rowStart rowEnd
          (overlapLoop (ext_divideLine ev) b_y height rowStart rowEnd
             (sort_key b_y (verticalOverlaps ev b rowStart rowEnd column rows)) [] None)
      else [(rowStart, rowEnd)])"

definition horizontalLines ::
  "env \<Rightarrow> JsBordersSheet option \<Rightarrow> int \<Rightarrow> int \<Rightarrow> int \<Rightarrow> overrides option \<Rightarrow> segments" where
  "horizontalLines ev b columnStart columnEnd row columns =
     (if Option.bind b b_horizontal \<noteq> None \<or> columns \<noteq> None then
        remainder columnStart columnEnd
          (overlapLoop (ext_divideLine ev) b_x width columnStart columnEnd
             (sort_key b_x (horizontalOverlaps ev b columnStart columnEnd row columns)) [] None)
      else [(columnStart, columnEnd)])"

text \<open>The body of \<^verbatim>\<open>lines.forEach\<close> in each of the two line functions.\<close>

definition verticalSegment ::
  "env \<Rightarrow> rat \<Rightarrow> BorderStyleTimestamp \<Rightarrow> int \<times> int \<Rightarrow> Borders \<Rightarrow> error + Borders" where
  "verticalSegment ev x border seg st =
     (case seg of (start, stop) \<Rightarrow>
        bindE (sheet ev st) (\<lambda>sh.
          let yStart = getRowY sh start in
          bindE (sheet ev st) (\<lambda>sh'.
            let yEnd = getRowY sh' stop in
            Inr (getSpriteSheet
                   (drawCellBorder
                      \<lparr>rect_x = x, rect_y = yStart, rect_width = 0, rect_height = yEnd - yStart\<rparr>
                      Vertical (styleOf border)) st))))"

definition horizontalSegment ::
  "env \<Rightarrow> rat \<Rightarrow> BorderStyleTimestamp \<Rightarrow> int \<times> int \<Rightarrow> Borders \<Rightarrow> error + Borders" where
  "horizontalSegment ev y border seg st =
     (case seg of (start, stop) \<Rightarrow>
        bindE (sheet ev st) (\<lambda>sh.
          let xStart = getColumnX sh start in
          bindE (sheet ev st) (\<lambda>sh'.
            let xEnd = getColumnX sh' stop in
            Inr (getSpriteSheet
                   (drawCellBorder
                      \<lparr>rect_x = xStart, rect_y = y, rect_width = xEnd - xStart, rect_height = 0\<rparr>
                      Horizontal (styleOf border)) st))))"

definition drawScreenVerticalLine ::
  "env \<Rightarrow> int \<Rightarrow> int \<Rightarrow> int \<Rightarrow> BorderStyleTimestamp \<Rightarrow> overrides option \<Rightarrow> Borders \<Rightarrow>
   error + Borders" where
  "drawScreenVerticalLine ev rowStart rowEnd column border rows st =
     (let lines = verticalLines ev (borders st) rowStart rowEnd column rows in
      bindE (sheet ev st) (\<lambda>sh.
        let x = getColumnX sh column in
        forEachE (verticalSegment ev x border) lines st))"

definition drawScreenHorizontalLine ::
  "env \<Rightarrow> int \<Rightarrow> int \<Rightarrow> int \<Rightarrow> BorderStyleTimestamp \<Rightarrow> overrides option \<Rightarrow> Borders \<Rightarrow>
   error + Borders" where
  "drawScreenHorizontalLine ev columnStart columnEnd row border columns st =
     (let lines = horizontalLines ev (borders st) columnStart columnEnd row columns in
      bindE (sheet ev st) (\<lambda>sh.
        let y = getRowY sh row in
        forEachE (horizontalSegment ev y border) lines st))"

text \<open>
  What one pass of \<^verbatim>\<open>lines.forEach\<close> hands to \<^verbatim>\<open>drawCellBorder\<close> for the pair \<open>seg\<close>, in
  each of the two line functions: the rectangle on the line at \<open>column\<close> (at \<open>row\<close>) from
  the start to the end of the pair, with the kind and the colour of the border.
\<close>

definition verticalPrimitive ::
  "Sheet \<Rightarrow> int \<Rightarrow> BorderStyleTimestamp \<Rightarrow> int \<times> int \<Rightarrow> Primitive" where
  "verticalPrimitive sh column border seg =
     \<lparr>position =
        \<lparr>rect_x = getColumnX sh column, rect_y = getRowY sh (fst seg), rect_width = 0,
          rect_height = getRowY sh (snd seg) - getRowY sh (fst seg)\<rparr>,
      orientation = Vertical, style = styleOf border\<rparr>"

definition horizontalPrimitive ::
  "Sheet \<Rightarrow> int \<Rightarrow> BorderStyleTimestamp \<Rightarrow> int \<times> int \<Rightarrow> Primitive" where
  "horizontalPrimitive sh row border seg =
     \<lparr>position =
        \<lparr>rect_x = getColumnX sh (fst seg), rect_y = getRowY sh row,
          rect_width = getColumnX sh (snd seg) - getColumnX sh (fst seg), rect_height = 0\<rparr>,
      orientation = Horizontal, style = styleOf border\<rparr>"

section \<open>The explicit segments\<close>

text \<open>The bodies of the two loops over the explicit segments.\<close>

definition horizontalBorder :: "env \<Rightarrow> JsBorderHorizontal \<Rightarrow> Borders \<Rightarrow> error + Borders" where
  "horizontalBorder ev border st =
     (if line border = Clear then Inr st
      else
        bindE (sheet ev st) (\<lambda>sh.
          let start = getCellOffsets sh (b_x border) (b_y border) in
          bindE (sheet ev st) (\<lambda>sh'.
            let stop = getCellOffsets sh' (b_x border + width border) (b_y border);
                culls = drawCellBorder
                  \<lparr>rect_x = fst start, rect_y = snd start,
                    rect_width = fst stop - fst start, rect_height = snd stop - snd start\<rparr>
                  Horizontal \<lparr>color = color border, line = line border\<rparr>
            in Inr ((getSprite culls st)\<lparr>spriteLines := spriteLines st @ culls\<rparr>))))"

definition verticalBorder :: "env \<Rightarrow> JsBorderVertical \<Rightarrow> Borders \<Rightarrow> error + Borders" where
  "verticalBorder ev border st =
     (if line border = Clear then Inr st
      else
        bindE (sheet ev st) (\<lambda>sh.
          let start = getCellOffsets sh (b_x border) (b_y border) in
          bindE (sheet ev st) (\<lambda>sh'.
            let stop = getCellOffsets sh' (b_x border) (b_y border + height border);
                culls = drawCellBorder
                  \<lparr>rect_x = fst start, rect_y = snd start,
                    rect_width = fst stop - fst start, rect_height = snd stop - snd start\<rparr>
                  Vertical \<lparr>color = color border, line = line border\<rparr>
            in Inr ((getSprite culls st)\<lparr>spriteLines := spriteLines st @ culls\<rparr>))))"

definition drawHorizontal :: "env \<Rightarrow> Borders \<Rightarrow> error + Borders" where
  "drawHorizontal ev st =
     (case Option.bind (borders st) b_horizontal of
        None \<Rightarrow> Inr st
      | Some hs \<Rightarrow> forEachE (horizontalBorder ev) hs st)"

definition drawVertical :: "env \<Rightarrow> Borders \<Rightarrow> error + Borders" where
  "drawVertical ev st =
     (case Option.bind (borders st) b_vertical of
        None \<Rightarrow> Inr st
      | Some vs \<Rightarrow> forEachE (verticalBorder ev) vs st)"

section \<open>The sheet-wide default\<close>

text \<open>Of two declared edges the first wins only with a strictly greater timestamp.\<close>

definition pickLater ::
  "BorderStyleTimestamp option \<Rightarrow> BorderStyleTimestamp option \<Rightarrow> BorderStyleTimestamp option" where
  "pickLater a b =
     (case (a, b) of
        (Some a', Some b') \<Rightarrow> Some (if timestamp a' > timestamp b' then a' else b')
      | (Some a', None) \<Rightarrow> Some a'
      | (None, Some b') \<Rightarrow> Some b'
      | (None, None) \<Rightarrow> None)"

definition drawAll :: "env \<Rightarrow> Borders \<Rightarrow> error + Borders" where
  "drawAll ev st =
     (case borders st of
        None \<Rightarrow> Inr st
      | Some b \<Rightarrow>
         (case b_all b of
            None \<Rightarrow> Inr st
          | Some all \<Rightarrow>
             (let bounds = getVisibleBounds ev;
                  columnStart = getXPlacement ev (rect_left bounds);
                  columnEnd = getXPlacement ev (rect_right bounds);
                  rowStart = getYPlacement ev (rect_top bounds);
                  rowEnd = getYPlacement ev (rect_bottom bounds)
              in
              bindE
                (case pickLater (top_edge all) (bottom_edge all) of
                   None \<Rightarrow> Inr st
                 | Some horizontal \<Rightarrow>
                     forEachE (\<lambda>y. drawScreenHorizontalLine ev columnStart (columnEnd + 1) y
                                     horizontal (b_rows b))
                       [rowStart..rowEnd] st)
                (\<lambda>st1.
                   case pickLater (left_edge all) (right_edge all) of
                     None \<Rightarrow> Inr st1
                   | Some vertical \<Rightarrow>
                       forEachE (\<lambda>x. drawScreenVerticalLine ev rowStart (rowEnd + 1) x
                                       vertical (b_columns b))
                         [columnStart..columnEnd] st1))))"

section \<open>The column tier and the row tier\<close>

text \<open>
  The four blocks of the body of \<^verbatim>\<open>for (let x in borders.columns)\<close>, for the entry
  \<open>column\<close> at index \<open>xNumber\<close>, and the four of \<^verbatim>\<open>for (let y in borders.rows)\<close>.
\<close>

definition neighbour ::
  "overrides \<Rightarrow> int \<Rightarrow> (BorderStyleCell \<Rightarrow> BorderStyleTimestamp option) \<Rightarrow>
   BorderStyleTimestamp option" where
  "neighbour entries i edge = Option.bind (map_of entries i) edge"

definition columnLeft ::
  "env \<Rightarrow> JsBordersSheet \<Rightarrow> overrides \<Rightarrow> int \<Rightarrow> int \<Rightarrow> int \<Rightarrow> BorderStyleCell \<Rightarrow> Borders \<Rightarrow>
   error + Borders" where
  "columnLeft ev b cols rowStart rowEnd xNumber column st =
     (case left_edge column of
        None \<Rightarrow> Inr st
      | Some left' \<Rightarrow>
          if line left' \<noteq> Clear then
            (case neighbour cols (xNumber - 1) right_edge of
               None \<Rightarrow> drawScreenVerticalLine ev rowStart (rowEnd + 1) xNumber left' (b_rows b) st
             | Some right' \<Rightarrow>
                 if timestamp left' > timestamp right'
                 then drawScreenVerticalLine ev rowStart (rowEnd + 1) xNumber left' (b_rows b) st
                 else Inr st)
          else Inr st)"

definition columnRight ::
  "env \<Rightarrow> JsBordersSheet \<Rightarrow> overrides \<Rightarrow> int \<Rightarrow> int \<Rightarrow> int \<Rightarrow> BorderStyleCell \<Rightarrow> Borders \<Rightarrow>
   error + Borders" where
  "columnRight ev b cols rowStart rowEnd xNumber column st =
     (case right_edge column of
        None \<Rightarrow> Inr st
      | Some right' \<Rightarrow>
          if line right' \<noteq> Clear then
            (case neighbour cols (xNumber + 1) left_edge of
               None \<Rightarrow>
                 drawScreenVerticalLine ev rowStart (rowEnd + 1) (xNumber + 1) right' (b_rows b) st
             | Some left' \<Rightarrow>
                 if timestamp right' > timestamp left'
                 then drawScreenVerticalLine ev rowStart (rowEnd + 1) (xNumber + 1) right'
                        (b_rows b) st
                 else Inr st)
          else Inr st)"

definition columnTop ::
  "env \<Rightarrow> int \<Rightarrow> int \<Rightarrow> int \<Rightarrow> BorderStyleCell \<Rightarrow> Borders \<Rightarrow> error + Borders" where
  "columnTop ev rowStart rowEnd xNumber column st =
     (case top_edge column of
        None \<Rightarrow> Inr st
      | Some top' \<Rightarrow>
          if line top' \<noteq> Clear then
            forEachE (\<lambda>y. drawScreenHorizontalLine ev xNumber (xNumber + 1) y top' None)
              [rowStart..rowEnd + 1] st
          else Inr st)"

definition columnBottom ::
  "env \<Rightarrow> int \<Rightarrow> int \<Rightarrow> int \<Rightarrow> BorderStyleCell \<Rightarrow> Borders \<Rightarrow> error + Borders" where
  "columnBottom ev rowStart rowEnd xNumber column st =
     (case bottom_edge column of
        None \<Rightarrow> Inr st
      | Some bottom' \<Rightarrow>
          if line bottom' \<noteq> Clear then
            forEachE (\<lambda>y. drawScreenHorizontalLine ev xNumber (xNumber + 1) y bottom' None)
              [rowStart..rowEnd + 1] st
          else Inr st)"

definition drawColumn ::
  "env \<Rightarrow> JsBordersSheet \<Rightarrow> overrides \<Rightarrow> int \<Rightarrow> int \<Rightarrow> int \<Rightarrow> int \<Rightarrow> int \<Rightarrow> Borders \<Rightarrow>
   error + Borders" where
  "drawColumn ev b cols columnStart columnEnd rowStart rowEnd xNumber st =
     (if xNumber \<ge> columnStart \<and> xNumber \<le> columnEnd then
        (case map_of cols xNumber of
           None \<Rightarrow> Inr st
         | Some column \<Rightarrow>
             bindE (columnLeft ev b cols rowStart rowEnd xNumber column st) (\<lambda>st1.
             bindE (columnRight ev b cols rowStart rowEnd xNumber column st1) (\<lambda>st2.
             bindE (columnTop ev rowStart rowEnd xNumber column st2) (\<lambda>st3.
             columnBottom ev rowStart rowEnd xNumber column st3))))
      else Inr st)"

definition rowTop ::
  "env \<Rightarrow> JsBordersSheet \<Rightarrow> overrides \<Rightarrow> int \<Rightarrow> int \<Rightarrow> int \<Rightarrow> BorderStyleCell \<Rightarrow> Borders \<Rightarrow>
   error + Borders" where
  "rowTop ev b rws columnStart columnEnd yNumber row st =
     (case top_edge row of
        None \<Rightarrow> Inr st
      | Some top' \<Rightarrow>
          if line top' \<noteq> Clear then
            (case neighbour rws (yNumber - 1) bottom_edge of
               None \<Rightarrow>
                 drawScreenHorizontalLine ev columnStart (columnEnd + 1) yNumber top' (b_columns b) st
             | Some bottom' \<Rightarrow>
                 if timestamp top' > timestamp bottom'
                 then drawScreenHorizontalLine ev columnStart (columnEnd + 1) yNumber top'
                        (b_columns b) st
                 else Inr st)
          else Inr st)"

definition rowBottom ::
  "env \<Rightarrow> JsBordersSheet \<Rightarrow> overrides \<Rightarrow> int \<Rightarrow> int \<Rightarrow> int \<Rightarrow> BorderStyleCell \<Rightarrow> Borders \<Rightarrow>
   error + Borders" where
  "rowBottom ev b rws columnStart columnEnd yNumber row st =
     (case bottom_edge row of
        None \<Rightarrow> Inr st
      | Some bottom' \<Rightarrow>
          if line bottom' \<noteq> Clear then
            (case neighbour rws (yNumber + 1) top_edge of
               None \<Rightarrow>
                 drawScreenHorizontalLine ev columnStart (columnEnd + 1) (yNumber + 1) bottom'
                   (b_columns b) st
             | Some top' \<Rightarrow>
                 if timestamp bottom' > timestamp top'
                 then drawScreenHorizontalLine ev columnStart (columnEnd + 1) (yNumber + 1) bottom'
                        (b_columns b) st
                 else Inr st)
          else Inr st)"

definition rowLeft ::
  "env \<Rightarrow> int \<Rightarrow> int \<Rightarrow> int \<Rightarrow> BorderStyleCell \<Rightarrow> Borders \<Rightarrow> error + Borders" where
  "rowLeft ev columnStart columnEnd yNumber row st =
     (case left_edge row of
        None \<Rightarrow> Inr st
      | Some left' \<Rightarrow>
          if line left' \<noteq> Clear then
            forEachE (\<lambda>x. drawScreenVerticalLine ev yNumber (yNumber + 1) x left' None)
              [columnStart..columnEnd + 1] st
          else Inr st)"

definition rowRight ::
  "env \<Rightarrow> int \<Rightarrow> int \<Rightarrow> int \<Rightarrow> BorderStyleCell \<Rightarrow> Borders \<Rightarrow> error + Borders" where
  "rowRight ev columnStart columnEnd yNumber row st =
     (case right_edge row of
        None \<Rightarrow> Inr st
      | Some right' \<Rightarrow>
          if line right' \<noteq> Clear then
            forEachE (\<lambda>x. drawScreenVerticalLine ev yNumber (yNumber + 1) x right' None)
              [columnStart..columnEnd + 1] st
          else Inr st)"

definition drawRow ::
  "env \<Rightarrow> JsBordersSheet \<Rightarrow> overrides \<Rightarrow> int \<Rightarrow> int \<Rightarrow> int \<Rightarrow> int \<Rightarrow> int \<Rightarrow> Borders \<Rightarrow>
   error + Borders" where
  "drawRow ev b rws columnStart columnEnd rowStart rowEnd yNumber st =
     (if yNumber \<ge> rowStart \<and> yNumber \<le> rowEnd then
        (case map_of rws yNumber of
           None \<Rightarrow> Inr st
         | Some row \<Rightarrow>
             bindE (rowTop ev b rws columnStart columnEnd yNumber row st) (\<lambda>st1.
             bindE (rowBottom ev b rws columnStart columnEnd yNumber row st1) (\<lambda>st2.
             bindE (rowLeft ev columnStart columnEnd yNumber row st2) (\<lambda>st3.
             rowRight ev columnStart columnEnd yNumber row st3))))
      else Inr st)"

section \<open>The sheet borders\<close>

definition drawSheetBorders :: "env \<Rightarrow> Borders \<Rightarrow> error + Borders" where
  "drawSheetBorders ev st0 =
     (let st = st0\<lparr>cellLines := [], sheetLines := [], viewport_dirty := True\<rparr> in
      case borders st of
        None \<Rightarrow> Inr st
      | Some b \<Rightarrow>
          bindE (drawAll ev st) (\<lambda>st1.
          bindE (drawHorizontal ev st1) (\<lambda>st2.
          bindE (drawVertical ev st2) (\<lambda>st3.
            let bounds = getVisibleBounds ev;
                columnStart = getXPlacement ev (rect_left bounds);
                columnEnd = getXPlacement ev (rect_right bounds);
                rowStart = getYPlacement ev (rect_top bounds);
                rowEnd = getYPlacement ev (rect_bottom bounds)
            in
            bindE
              (case b_columns b of
                 None \<Rightarrow> Inr st3
               | Some cols \<Rightarrow>
                   forEachE (drawColumn ev b cols columnStart columnEnd rowStart rowEnd)
                     (map fst cols) st3)
              (\<lambda>st4.
                 case b_rows b of
                   None \<Rightarrow> Inr st4
                 | Some rws \<Rightarrow>
                     forEachE (drawRow ev b rws columnStart columnEnd rowStart rowEnd)
                       (map fst rws) st4)))))"

section \<open>The event handler and the render loop\<close>

definition drawSheetCells ::
  "env \<Rightarrow> string \<Rightarrow> JsBordersSheet option \<Rightarrow> Borders \<Rightarrow> error + Borders" where
  "drawSheetCells ev sheetId' borders' st =
     (if sheetId' = sheetId st then
        bindE (drawHorizontal ev (st\<lparr>borders := borders', cellLines := []\<rparr>)) (\<lambda>st1.
        bindE (drawVertical ev st1) (\<lambda>st2.
        Inr (st2\<lparr>dirty := True\<rparr>)))
      else Inr st)"

definition cull :: "env \<Rightarrow> Borders \<Rightarrow> Borders" where
  "cull ev st =
     st\<lparr>spriteLines :=
          map (\<lambda>s. s\<lparr>visible := ext_intersects ev (rectangle s) (getVisibleBounds ev)\<rparr>)
            (spriteLines st)\<rparr>"

text \<open>The constants \<^verbatim>\<open>0.15\<close> and \<^verbatim>\<open>0.1\<close>: the binary64 values nearest to 15/100 and 1/10.\<close>

definition SCALE_TO_SHOW_SHEET_BORDERS :: number where
  "SCALE_TO_SHOW_SHEET_BORDERS = toNumber (15 / 100)"

definition FADE_SCALE :: number where
  "FADE_SCALE = toNumber (1 / 10)"

definition update :: "env \<Rightarrow> Borders \<Rightarrow> error + Borders" where
  "update ev st =
     (let viewportDirty = viewport_dirty st in
      if \<not> dirty st \<and> \<not> viewportDirty then Inr st
      else
        bindE
          (if num_less (scale_x ev) SCALE_TO_SHOW_SHEET_BORDERS
           then Inr (st\<lparr>sheetLines_visible := False\<rparr>)
           else
             bindE (drawSheetBorders ev (st\<lparr>sheetLines_visible := True\<rparr>)) (\<lambda>st1.
               if num_less (scale_x ev) (num_add SCALE_TO_SHOW_SHEET_BORDERS FADE_SCALE)
               then Inr (st1\<lparr>sheetLines_alpha :=
                                num_div (num_sub (scale_x ev) SCALE_TO_SHOW_SHEET_BORDERS)
                                  FADE_SCALE\<rparr>)
               else Inr (st1\<lparr>sheetLines_alpha := Finite 1\<rparr>)))
          (\<lambda>st2. Inr (cull ev (st2\<lparr>dirty := False\<rparr>))))"

section \<open>The helpers outside the source file\<close>

text \<open>
  Modelled from the spec: \<^verbatim>\<open>intersects.lineLineOneDimension\<close> of
  \<^verbatim>\<open>../../helpers/intersects\<close> is not part of the source file. Section 4.1
  (\<^verbatim>\<open>intervals_overlap\<close>): true iff the two closed-open intervals share any length;
  touching at a single point is no overlap.
\<close>

definition lineLineOneDimension :: "int \<Rightarrow> int \<Rightarrow> int \<Rightarrow> int \<Rightarrow> bool" where
  "lineLineOneDimension a1 a2 b1 b2 = (max a1 b1 < min a2 b2)"

text \<open>
  Modelled from the spec: \<^verbatim>\<open>divideLine\<close> of \<^verbatim>\<open>./bordersUtil\<close> is not part of the source
  file. Section 4.1 (\<^verbatim>\<open>subtract_interval\<close>): one obstruction is consumed against the
  undrawn rest of the span, which starts at the cursor (at the start of the span while the
  cursor is undefined); an obstruction that lies before the cursor changes nothing; otherwise
  the part of the rest before the obstruction is appended and the cursor moves behind the
  obstruction, or to the end of the span when the obstruction reaches it. The last argument
  is the size of the obstruction, as the calls in \<^verbatim>\<open>Borders.ts\<close> pass it.
\<close>

definition divideLine ::
  "segments \<Rightarrow> int option \<Rightarrow> int \<Rightarrow> int \<Rightarrow> int \<Rightarrow> int \<Rightarrow> segments \<times> int option" where
  "divideLine lines current start stop overlap overlapSize =
     (let cursor = (case current of None \<Rightarrow> start | Some c \<Rightarrow> c) in
      if overlap + overlapSize \<le> cursor then (lines, current)
      else
        (if cursor < min overlap stop then lines @ [(cursor, min overlap stop)] else lines,
         Some (min (overlap + overlapSize) stop)))"

text \<open>
  Modelled from the spec: \<^verbatim>\<open>findPerpendicularVerticalLines\<close> and
  \<^verbatim>\<open>findPerpendicularHorizontalLines\<close> of \<^verbatim>\<open>./bordersUtil\<close> are not part of the source
  file. Section 4.2: every override of the map with an index in the span and a relevant edge
  (\<^verbatim>\<open>left\<close> or \<^verbatim>\<open>right\<close> for a vertical line, \<^verbatim>\<open>top\<close> or \<^verbatim>\<open>bottom\<close> for a horizontal
  one) gives an obstruction at that index of thickness 1; without a map there is none. Of an
  obstruction the callers read the position and the thickness only.
\<close>

definition firstEdge ::
  "BorderStyleTimestamp option \<Rightarrow> BorderStyleTimestamp option \<Rightarrow> BorderStyleTimestamp option" where
  "firstEdge a b = (case a of Some a' \<Rightarrow> Some a' | None \<Rightarrow> b)"

definition findPerpendicularVerticalLines ::
  "int \<Rightarrow> int \<Rightarrow> overrides option \<Rightarrow> JsBorderVertical list" where
  "findPerpendicularVerticalLines start stop entries =
     (case entries of
        None \<Rightarrow> []
      | Some es \<Rightarrow>
          concat (map (\<lambda>i.
            case Option.bind (map_of es i) (\<lambda>c. firstEdge (left_edge c) (right_edge c)) of
              None \<Rightarrow> []
            | Some e \<Rightarrow> [\<lparr>color = color e, line = line e, b_x = 0, b_y = i, height = 1\<rparr>])
            [start..stop - 1]))"

definition findPerpendicularHorizontalLines ::
  "int \<Rightarrow> int \<Rightarrow> overrides option \<Rightarrow> JsBorderHorizontal list" where
  "findPerpendicularHorizontalLines start stop entries =
     (case entries of
        None \<Rightarrow> []
      | Some es \<Rightarrow>
          concat (map (\<lambda>i.
            case Option.bind (map_of es i) (\<lambda>c. firstEdge (top_edge c) (bottom_edge c)) of
              None \<Rightarrow> []
            | Some e \<Rightarrow> [\<lparr>color = color e, line = line e, b_x = i, b_y = 0, width = 1\<rparr>])
            [start..stop - 1]))"

text \<open>
  pixi's \<^verbatim>\<open>Rectangle.intersects\<close> (library code): two rectangles intersect when they
  share an area.
\<close>

definition intersects :: "Rectangle \<Rightarrow> Rectangle \<Rightarrow> bool" where
  "intersects r other =
     (max (rect_left r) (rect_left other) < min (rect_right r) (rect_right other) \<and>
      max (rect_top r) (rect_top other) < min (rect_bottom r) (rect_bottom other))"

section \<open>An instance for the examples\<close>

text \<open>
  A sheet with columns 100 wide and rows 20 high, registered under the id \<open>''s''\<close>, and
  the environment with the helpers above, a scale and the visible bounds.
\<close>

definition gridSheet :: Sheet where
  "gridSheet =
     \<lparr>getColumnX = (\<lambda>c. 100 * of_int c),
       getRowY = (\<lambda>r. 20 * of_int r),
       getCellOffsets = (\<lambda>c r. (100 * of_int c, 20 * of_int r))\<rparr>"

definition gridEnv :: "number \<Rightarrow> Rectangle \<Rightarrow> env" where
  "gridEnv scale bounds =
     \<lparr>ext_divideLine = divideLine,
       ext_findPerpendicularVerticalLines = findPerpendicularVerticalLines,
       ext_findPerpendicularHorizontalLines = findPerpendicularHorizontalLines,
       ext_lineLineOneDimension = lineLineOneDimension,
       ext_intersects = intersects,
       getById = (\<lambda>i. if i = ''s'' then Some gridSheet else None),
       getXPlacement = (\<lambda>x. \<lfloor>x / 100\<rfloor>),
       getYPlacement = (\<lambda>y. \<lfloor>y / 20\<rfloor>),
       scale_x = scale,
       getVisibleBounds = bounds\<rparr>"

definition initial :: "string \<Rightarrow> Borders" where
  "initial i =
     \<lparr>sheetId = i, cellLines = [], spriteLines = [], sheetLines = [],
       sheetLines_visible = True, sheetLines_alpha = Finite 1, borders = None,
       dirty = False, viewport_dirty = False\<rparr>"

definition solid :: "int \<Rightarrow> BorderStyleTimestamp" where
  "solid t = \<lparr>color = (0, 0, 0, 255), line = Line ''line1'', timestamp = t\<rparr>"

definition dotted :: "int \<Rightarrow> BorderStyleTimestamp" where
  "dotted t = \<lparr>color = (0, 0, 0, 255), line = Line ''dotted'', timestamp = t\<rparr>"

definition cleared :: "int \<Rightarrow> BorderStyleTimestamp" where
  "cleared t = \<lparr>color = (0, 0, 0, 255), line = Clear, timestamp = t\<rparr>"

definition noEdges :: BorderStyleCell where
  "noEdges = \<lparr>top_edge = None, bottom_edge = None, left_edge = None, right_edge = None\<rparr>"

definition noBorders :: JsBordersSheet where
  "noBorders =
     \<lparr>b_all = None, b_columns = None, b_rows = None, b_horizontal = None, b_vertical = None\<rparr>"

definition exampleBounds :: Rectangle where
  "exampleBounds = \<lparr>rect_x = 0, rect_y = 0, rect_width = 1000, rect_height = 200\<rparr>"

definition exampleColumns :: JsBordersSheet where
  "exampleColumns =
     noBorders\<lparr>b_columns :=
       Some [(5, noEdges\<lparr>right_edge := Some (solid 2)\<rparr>),
             (6, noEdges\<lparr>left_edge := Some (solid 1)\<rparr>)]\<rparr>"

definition exampleRows :: overrides where
  "exampleRows = [(4, noEdges\<lparr>right_edge := Some (solid 1)\<rparr>)]"

definition exampleHorizontal :: JsBordersSheet where
  "exampleHorizontal =
     noBorders\<lparr>b_horizontal :=
       Some [\<lparr>color = (0, 0, 0, 255), line = Line ''line1'', b_x = 2, b_y = 3, width = 3\<rparr>]\<rparr>"

text \<open>
  Explicit segments given out of order: vertical ones on column 3 at the rows 7 and 2 and
  one on column 4, horizontal ones on row 3 at the columns 6 and 1; and a column override
  with a top edge.
\<close>

definition exampleCrossings :: JsBordersSheet where
  "exampleCrossings =
     noBorders\<lparr>
       b_vertical :=
         Some [\<lparr>color = (0, 0, 0, 255), line = Line ''line1'', b_x = 3, b_y = 7, height = 1\<rparr>,
               \<lparr>color = (0, 0, 0, 255), line = Line ''line1'', b_x = 3, b_y = 2, height = 1\<rparr>,
               \<lparr>color = (0, 0, 0, 255), line = Line ''line1'', b_x = 4, b_y = 5, height = 1\<rparr>],
       b_horizontal :=
         Some [\<lparr>color = (0, 0, 0, 255), line = Line ''line1'', b_x = 6, b_y = 3, width = 2\<rparr>,
               \<lparr>color = (0, 0, 0, 255), line = Line ''line1'', b_x = 1, b_y = 3, width = 1\<rparr>]\<rparr>"

definition exampleTops :: overrides where
  "exampleTops = [(4, noEdges\<lparr>top_edge := Some (solid 1)\<rparr>)]"

text \<open>The same segments with an override of column 1 and an override of row 2.\<close>

definition exampleColumn :: BorderStyleCell where
  "exampleColumn = noEdges\<lparr>top_edge := Some (solid 1), bottom_edge := Some (dotted 2)\<rparr>"

definition exampleRow :: BorderStyleCell where
  "exampleRow = noEdges\<lparr>left_edge := Some (solid 3), right_edge := Some (dotted 4)\<rparr>"

definition exampleOverridden :: JsBordersSheet where
  "exampleOverridden =
     exampleCrossings\<lparr>b_columns := Some [(1, exampleColumn)], b_rows := Some [(2, exampleRow)]\<rparr>"

text \<open>
  The state after \<^verbatim>\<open>drawSheetCells\<close> has received the dataset \<open>exampleHorizontal\<close>: the
  sprite of its segment is a child of \<^verbatim>\<open>cellLines\<close> and its \<^verbatim>\<open>BorderCull\<close> is in the pool.
\<close>

definition examplePooled :: Borders where
  "examplePooled =
     (initial ''s'')\<lparr>
       borders := Some exampleHorizontal, dirty := True,
       cellLines :=
         [\<lparr>position = \<lparr>rect_x = 200, rect_y = 60, rect_width = 300, rect_height = 0\<rparr>,
           orientation = Horizontal, style = \<lparr>color = (0, 0, 0, 255), line = Line ''line1''\<rparr>\<rparr>],
       spriteLines :=
         [\<lparr>sprite =
             \<lparr>position = \<lparr>rect_x = 200, rect_y = 60, rect_width = 300, rect_height = 0\<rparr>,
               orientation = Horizontal,
               style = \<lparr>color = (0, 0, 0, 255), line = Line ''line1''\<rparr>\<rparr>,
           rectangle = \<lparr>rect_x = 200, rect_y = 60, rect_width = 300, rect_height = 0\<rparr>,
           visible = True\<rparr>]\<rparr>"

definition exampleDirty :: Borders where
  "exampleDirty = (initial ''s'')\<lparr>borders := Some exampleColumns, dirty := True\<rparr>"

definition exampleDrawn :: Borders where
  "exampleDrawn =
     (initial ''s'')\<lparr>borders := Some exampleColumns, viewport_dirty := True,
        sheetLines :=
          [\<lparr>position = \<lparr>rect_x = 600, rect_y = 0, rect_width = 0, rect_height = 220\<rparr>,
            orientation = Vertical, style = styleOf (solid 2)\<rparr>]\<rparr>"

definition tieColumns :: JsBordersSheet where
  "tieColumns =
     noBorders\<lparr>b_columns :=
       Some [(5, noEdges\<lparr>right_edge := Some (solid 1)\<rparr>),
             (6, noEdges\<lparr>left_edge := Some (solid 1)\<rparr>)]\<rparr>"

definition tieRows :: JsBordersSheet where
  "tieRows =
     noBorders\<lparr>b_rows :=
       Some [(5, noEdges\<lparr>bottom_edge := Some (solid 1)\<rparr>),
             (6, noEdges\<lparr>top_edge := Some (solid 1)\<rparr>)]\<rparr>"

definition clearNeighbour :: JsBordersSheet where
  "clearNeighbour =
     noBorders\<lparr>b_columns :=
       Some [(5, noEdges\<lparr>right_edge := Some (cleared 2)\<rparr>),
             (6, noEdges\<lparr>left_edge := Some (solid 1)\<rparr>)]\<rparr>"

definition loneColumn :: JsBordersSheet where
  "loneColumn = noBorders\<lparr>b_columns := Some [(6, noEdges\<lparr>left_edge := Some (solid 1)\<rparr>)]\<rparr>"

text \<open>
  Clear declarations: a clear top edge of the sheet-wide default, seen through a viewport of
  one cell; and the lone column with a clear explicit vertical segment on the line of its
  left edge, or with a row override whose left edge is clear.
\<close>

definition unitBounds :: Rectangle where
  "unitBounds = \<lparr>rect_x = 0, rect_y = 0, rect_width = 50, rect_height = 10\<rparr>"

definition clearAll :: JsBordersSheet where
  "clearAll = noBorders\<lparr>b_all := Some (noEdges\<lparr>top_edge := Some (cleared 1)\<rparr>)\<rparr>"

definition clearSegment :: JsBordersSheet where
  "clearSegment =
     loneColumn\<lparr>b_vertical :=
       Some [\<lparr>color = (0, 0, 0, 255), line = Clear, b_x = 6, b_y = 2, height = 3\<rparr>]\<rparr>"

definition clearCrossing :: JsBordersSheet where
  "clearCrossing = loneColumn\<lparr>b_rows := Some [(4, noEdges\<lparr>left_edge := Some (cleared 0)\<rparr>)]\<rparr>"

text \<open>The overrides of the examples on column 0 and row 0, for the viewport of one cell.\<close>

definition exampleCorner :: JsBordersSheet where
  "exampleCorner =
     noBorders\<lparr>b_columns := Some [(0, exampleColumn)], b_rows := Some [(0, exampleRow)]\<rparr>"

section \<open>Relations between two runs\<close>

text \<open>
  Two results are related when both are the same error or both are states related by \<open>R\<close>;
  a result satisfies \<open>P\<close> when it is an error or a state that satisfies \<open>P\<close>. The drawing
  functions leave the fields of \<open>frame\<close> alone, and read the fields of \<open>agree\<close> only.
\<close>

definition relE :: "('s \<Rightarrow> 't \<Rightarrow> bool) \<Rightarrow> error + 's \<Rightarrow> error + 't \<Rightarrow> bool" where
  "relE R r1 r2 =
     (case (r1, r2) of
        (Inl e1, Inl e2) \<Rightarrow> e1 = e2
      | (Inr a, Inr b) \<Rightarrow> R a b
      | _ \<Rightarrow> False)"

definition invE :: "('s \<Rightarrow> bool) \<Rightarrow> error + 's \<Rightarrow> bool" where
  "invE P r = (case r of Inl e \<Rightarrow> True | Inr s \<Rightarrow> P s)"

definition frame :: "Borders \<Rightarrow> Borders \<Rightarrow> bool" where
  "frame s0 s =
     (sheetId s = sheetId s0 \<and> borders s = borders s0 \<and>
      sheetLines_visible s = sheetLines_visible s0 \<and> sheetLines_alpha s = sheetLines_alpha s0 \<and>
      dirty s = dirty s0 \<and> viewport_dirty s = viewport_dirty s0)"

definition agree :: "Borders \<Rightarrow> Borders \<Rightarrow> bool" where
  "agree s t =
     (sheetId s = sheetId t \<and> borders s = borders t \<and>
      cellLines s = cellLines t \<and> sheetLines s = sheetLines t)"

section \<open>The coverage property\<close>

text \<open>
  The property of full coverage, for a vertical line of timestamp \<open>t\<close> that is resolved
  against row overrides: the cells the emitted segments cover, together with the rows of the
  span whose override has a \<^verbatim>\<open>left\<close> or \<^verbatim>\<open>right\<close> edge of a timestamp at least \<open>t\<close>, are
  the whole span, and no such row is covered by an emitted segment.
\<close>

definition covered :: "segments \<Rightarrow> int set" where
  "covered segs = (\<Union>seg\<in>set segs. {fst seg..<snd seg})"

definition laterRows :: "overrides option \<Rightarrow> int \<Rightarrow> int \<Rightarrow> int \<Rightarrow> int set" where
  "laterRows rows rowStart rowEnd t =
     {i. rowStart \<le> i \<and> i < rowEnd \<and>
         (\<exists>c e. Option.bind rows (\<lambda>r. map_of r i) = Some c \<and>
                (left_edge c = Some e \<or> right_edge c = Some e) \<and> t \<le> timestamp e)}"

definition fullCoverage ::
  "env \<Rightarrow> JsBordersSheet option \<Rightarrow> int \<Rightarrow> int \<Rightarrow> int \<Rightarrow> overrides option \<Rightarrow> int \<Rightarrow> bool" where
  "fullCoverage ev b rowStart rowEnd column rows t =
     (covered (verticalLines ev b rowStart rowEnd column rows) \<union> laterRows rows rowStart rowEnd t =
        {rowStart..<rowEnd} \<and>
      covered (verticalLines ev b rowStart rowEnd column rows) \<inter> laterRows rows rowStart rowEnd t = {})"

section \<open>Facts about numbers\<close>

text \<open>The binade of a positive rational, and the rounding to it.\<close>

lemma pow2_less_iff: "(2::rat) powi m < 2 powi n \<longleftrightarrow> m < n"
proof
  assume less: "(2::rat) powi m < 2 powi n"
  show "m < n"
  proof (rule ccontr)
    assume "\<not> m < n"
    then have "(2::rat) powi n \<le> 2 powi m" by (intro power_int_increasing) simp_all
    with less show False by simp
  qed
next
  assume "m < n"
  then show "(2::rat) powi m < 2 powi n" by (intro power_int_strict_increasing) simp_all
qed

lemma pow2_le_iff: "(2::rat) powi m \<le> 2 powi n \<longleftrightarrow> m \<le> n"
  using pow2_less_iff [of n m] by (simp add: not_less [symmetric])

lemma binade_bounds:
  assumes "0 < x"
  shows "2 powi binade x \<le> x \<and> x < 2 powi (binade x + 1)"
proof -
  obtain a b where q: "quotient_of x = (a, b)" by (cases "quotient_of x")
  then have b: "0 < b" and x: "x = of_int a / of_int b"
    by (simp_all add: quotient_of_denom_pos quotient_of_div)
  with assms have a: "0 < a" by (simp add: zero_less_divide_iff)
  define d where "d = bitlen a - bitlen b"
  have la: "1 \<le> bitlen a" and lb: "1 \<le> bitlen b"
    using a b by (auto simp: bitlen_alt_def)
  from bitlen_bounds [OF a] have "of_int a < (2::rat) ^ nat (bitlen a)"
    "(2::rat) ^ nat (bitlen a - 1) \<le> of_int a"
    by (metis of_int_less_iff of_int_numeral of_int_power,
        metis of_int_le_iff of_int_numeral of_int_power)
  then have a_bounds: "of_int a < (2::rat) powi bitlen a" "(2::rat) powi (bitlen a - 1) \<le> of_int a"
    using la by (simp_all add: power_int_nonneg_exp)
  from bitlen_bounds [OF b] have "of_int b < (2::rat) ^ nat (bitlen b)"
    "(2::rat) ^ nat (bitlen b - 1) \<le> of_int b"
    by (metis of_int_less_iff of_int_numeral of_int_power,
        metis of_int_le_iff of_int_numeral of_int_power)
  then have b_bounds: "of_int b < (2::rat) powi bitlen b" "(2::rat) powi (bitlen b - 1) \<le> of_int b"
    using lb by (simp_all add: power_int_nonneg_exp)
  have bpos: "(0::rat) < of_int b" using b by simp
  have ppos: "(0::rat) < 2 powi n" for n by simp
  have upper: "x < 2 powi (d + 1)"
  proof -
    have "x < 2 powi bitlen a / of_int b"
      unfolding x using a_bounds(1) bpos by (simp add: divide_strict_right_mono)
    also have "\<dots> \<le> 2 powi bitlen a / 2 powi (bitlen b - 1)"
      by (rule divide_left_mono) (use b_bounds(2) b in \<open>simp_all add: zero_less_mult_iff\<close>)
    also have "\<dots> = 2 powi (bitlen a - (bitlen b - 1))"
      by (simp add: power_int_diff)
    also have "\<dots> = 2 powi (d + 1)"
      by (simp add: d_def algebra_simps)
    finally show ?thesis .
  qed
  have lower: "2 powi (d - 1) \<le> x"
  proof -
    have "2 powi (d - 1) = (2::rat) powi ((bitlen a - 1) - bitlen b)"
      by (simp add: d_def algebra_simps)
    also have "\<dots> = 2 powi (bitlen a - 1) / (2::rat) powi bitlen b"
      by (simp add: power_int_diff)
    also have "\<dots> \<le> of_int a / 2 powi bitlen b"
      using a_bounds(2) by (simp add: divide_right_mono)
    also have "\<dots> \<le> of_int a / of_int b"
      by (rule divide_left_mono) (use b_bounds(1) b a in \<open>simp_all add: zero_less_mult_iff\<close>)
    finally show ?thesis by (simp add: x)
  qed
  show ?thesis
  proof (cases "2 powi d \<le> x")
    case True
    then have "binade x = d" by (simp add: binade_def q d_def Let_def)
    with True upper show ?thesis by simp
  next
    case False
    then have "binade x = d - 1" by (simp add: binade_def q d_def Let_def)
    with False lower show ?thesis by simp
  qed
qed

lemma binade_unique:
  assumes "0 < x" and "2 powi e \<le> x" and "x < 2 powi (e + 1)"
  shows "binade x = e"
proof -
  from binade_bounds [OF assms(1)]
  have b: "2 powi binade x \<le> x" "x < 2 powi (binade x + 1)" by simp_all
  have "(2::rat) powi e < 2 powi (binade x + 1)" using assms(2) b(2) by simp
  then have "e < binade x + 1" by (simp add: pow2_less_iff)
  moreover have "(2::rat) powi binade x < 2 powi (e + 1)" using assms(3) b(1) by simp
  then have "binade x < e + 1" by (simp add: pow2_less_iff)
  ultimately show ?thesis by simp
qed

lemma roundEven_between: "\<lfloor>y\<rfloor> \<le> roundEven y \<and> roundEven y \<le> \<lfloor>y\<rfloor> + 1"
  by (simp add: roundEven_def Let_def)

lemma roundEven_of_int [simp]: "roundEven (of_int n) = n"
  by (simp add: roundEven_def Let_def)

lemma roundEven_le:
  assumes "y \<le> of_int n"
  shows "roundEven y \<le> n"
proof (cases "y = of_int n")
  case True
  then show ?thesis by simp
next
  case False
  with assms have "y < of_int n" by simp
  then have "\<lfloor>y\<rfloor> < n" by (simp add: floor_less_iff)
  with roundEven_between [of y] show ?thesis by simp
qed

lemma roundEven_ge:
  assumes "of_int n \<le> y"
  shows "n \<le> roundEven y"
proof -
  from assms have "n \<le> \<lfloor>y\<rfloor>" by (simp add: le_floor_iff)
  with roundEven_between [of y] show ?thesis by simp
qed

lemma toDouble_pos:
  assumes "0 < x"
  shows "toDouble x =
           of_int (roundEven (x / 2 powi (max (binade x) (- 1022) - 52))) *
             2 powi (max (binade x) (- 1022) - 52)"
  using assms by (simp add: toDouble_def Let_def)

lemma toDouble_nonneg:
  assumes "0 \<le> x"
  shows "0 \<le> toDouble x"
proof (cases "x = 0")
  case True
  then show ?thesis by (simp add: toDouble_def)
next
  case False
  with assms have pos: "0 < x" by simp
  have "0 \<le> roundEven (x / 2 powi (max (binade x) (- 1022) - 52))"
    using pos by (intro roundEven_ge) simp
  then show ?thesis by (simp add: toDouble_pos [OF pos])
qed

lemma toDouble_le_grid:
  assumes "0 < x" and "binade x = e" and "- 1022 \<le> e"
    and "x \<le> of_int m * 2 powi (e - 52)"
  shows "toDouble x \<le> of_int m * 2 powi (e - 52)"
proof -
  have k: "max (binade x) (- 1022) - 52 = e - 52" using assms(2,3) by simp
  have "x / 2 powi (e - 52) \<le> of_int m"
    using assms(4) by (simp add: pos_divide_le_eq)
  then have "roundEven (x / 2 powi (e - 52)) \<le> m" by (rule roundEven_le)
  then have "(of_int (roundEven (x / 2 powi (e - 52))) :: rat) \<le> of_int m" by simp
  then show ?thesis
    unfolding toDouble_pos [OF assms(1)] k by (simp add: mult_right_mono)
qed

lemma toDouble_le_pow:
  assumes "0 < x" and "x \<le> 2 powi n" and "- 1021 \<le> n"
  shows "toDouble x \<le> 2 powi n"
proof -
  define k where "k = max (binade x) (- 1022) - 52"
  from binade_bounds [OF assms(1)] assms(2) have "(2::rat) powi binade x \<le> 2 powi n" by simp
  then have "binade x \<le> n" by (simp add: pow2_le_iff)
  with assms(3) have nk: "0 \<le> n - k" by (simp add: k_def)
  have "x / 2 powi k \<le> 2 powi n / 2 powi k"
    using assms(2) by (simp add: divide_right_mono)
  also have "\<dots> = 2 powi (n - k)" by (simp add: power_int_diff)
  also have "\<dots> = of_int (2 ^ nat (n - k))" using nk by (simp add: power_int_nonneg_exp)
  finally have "roundEven (x / 2 powi k) \<le> 2 ^ nat (n - k)" by (rule roundEven_le)
  then have "(of_int (roundEven (x / 2 powi k)) :: rat) \<le> of_int (2 ^ nat (n - k))"
    by (simp only: of_int_le_iff)
  also have "\<dots> = 2 powi (n - k)" using nk by (simp add: power_int_nonneg_exp)
  finally have "of_int (roundEven (x / 2 powi k)) * 2 powi k \<le> 2 powi (n - k) * (2::rat) powi k"
    by (simp add: mult_right_mono)
  also have "\<dots> = 2 powi n" by (simp add: power_int_add [symmetric])
  finally show ?thesis
    unfolding toDouble_pos [OF assms(1)] k_def .
qed


lemma roundEven_eqI:
  assumes "of_int n - 1 / 2 < y" and "y < of_int n + 1 / 2"
  shows "roundEven y = n"
proof -
  have f: "\<lfloor>y\<rfloor> = n \<or> \<lfloor>y\<rfloor> = n - 1"
  proof -
    have "of_int (n - 1) \<le> y" using assms(1) by simp
    then have "n - 1 \<le> \<lfloor>y\<rfloor>" by (simp only: le_floor_iff)
    moreover have "y < of_int (n + 1)" using assms(2) by simp
    then have "\<lfloor>y\<rfloor> < n + 1" by (simp only: floor_less_iff)
    ultimately show ?thesis by auto
  qed
  then show ?thesis
  proof
    assume e: "\<lfloor>y\<rfloor> = n"
    then have "y - of_int \<lfloor>y\<rfloor> < 1 / 2" using assms(2) by simp
    then show ?thesis by (simp add: roundEven_def Let_def e)
  next
    assume e: "\<lfloor>y\<rfloor> = n - 1"
    then have "1 / 2 < y - of_int \<lfloor>y\<rfloor>" using assms(1) by simp
    then show ?thesis by (simp add: roundEven_def Let_def e)
  qed
qed

lemma toDouble_eqI:
  assumes "0 < x" and "2 powi e \<le> x" and "x < 2 powi (e + 1)" and "- 1022 \<le> e"
    and "(of_int n - 1 / 2) * 2 powi (e - 52) < x" and "x < (of_int n + 1 / 2) * 2 powi (e - 52)"
  shows "toDouble x = of_int n * 2 powi (e - 52)"
proof -
  have b: "binade x = e" by (rule binade_unique [OF assms(1-3)])
  have k: "max (binade x) (- 1022) - 52 = e - 52" using b assms(4) by simp
  have "roundEven (x / 2 powi (e - 52)) = n"
    using assms(5,6) by (intro roundEven_eqI) (simp_all add: pos_less_divide_eq pos_divide_less_eq)
  then show ?thesis unfolding toDouble_pos [OF assms(1)] k by simp
qed

lemma toNumber_finite: "\<bar>toDouble x\<bar> < 2 powi 1024 \<Longrightarrow> toNumber x = Finite (toDouble x)"
  by (simp add: toNumber_def Let_def)

text \<open>Rounding is monotone.\<close>

lemma roundEven_mono:
  assumes "y \<le> y'"
  shows "roundEven y \<le> roundEven y'"
proof -
  have f: "\<lfloor>y\<rfloor> \<le> \<lfloor>y'\<rfloor>" using assms by (rule floor_mono)
  show ?thesis
  proof (cases "\<lfloor>y\<rfloor> = \<lfloor>y'\<rfloor>")
    case True
    have "y - of_int \<lfloor>y'\<rfloor> \<le> y' - of_int \<lfloor>y'\<rfloor>" using assms by simp
    then show ?thesis by (auto simp: roundEven_def Let_def True)
  next
    case False
    with f have "\<lfloor>y\<rfloor> + 1 \<le> \<lfloor>y'\<rfloor>" by simp
    with roundEven_between [of y] roundEven_between [of y'] show ?thesis by simp
  qed
qed

lemma toDouble_ge_binade:
  assumes "0 < x" and "- 1022 \<le> binade x"
  shows "2 powi binade x \<le> toDouble x"
proof -
  let ?P = "(2::rat) powi (binade x - 52)"
  have k: "max (binade x) (- 1022) - 52 = binade x - 52" using assms(2) by simp
  have q: "(2::rat) powi binade x = 4503599627370496 * ?P"
    by (simp add: power_int_diff)
  have "of_int 4503599627370496 \<le> x / ?P"
    using binade_bounds [OF assms(1)] by (simp add: q pos_le_divide_eq)
  then have "4503599627370496 \<le> roundEven (x / ?P)" by (rule roundEven_ge)
  then have "(of_int 4503599627370496 :: rat) \<le> of_int (roundEven (x / ?P))"
    by (simp only: of_int_le_iff)
  then have "of_int 4503599627370496 * ?P \<le> of_int (roundEven (x / ?P)) * ?P"
    by (rule mult_right_mono) simp
  then show ?thesis
    unfolding toDouble_pos [OF assms(1)] k q by simp
qed

lemma toDouble_mono_pos:
  assumes "0 < x" and "x \<le> y"
  shows "toDouble x \<le> toDouble y"
proof -
  have ypos: "0 < y" using assms by simp
  define m where "m = max (binade x) (- 1022)"
  define m' where "m' = max (binade y) (- 1022)"
  from binade_bounds [OF assms(1)] binade_bounds [OF ypos] assms(2)
  have "(2::rat) powi binade x < 2 powi (binade y + 1)" by simp
  then have e: "binade x \<le> binade y" by (simp add: pow2_less_iff)
  then have mm: "m \<le> m'" by (simp add: m_def m'_def)
  show ?thesis
  proof (cases "m = m'")
    case True
    have "x / 2 powi (m - 52) \<le> y / 2 powi (m - 52)"
      using assms(2) by (simp add: divide_right_mono)
    then have "roundEven (x / 2 powi (m - 52)) \<le> roundEven (y / 2 powi (m - 52))"
      by (rule roundEven_mono)
    then have "(of_int (roundEven (x / 2 powi (m - 52))) :: rat) \<le>
               of_int (roundEven (y / 2 powi (m - 52)))"
      by (simp only: of_int_le_iff)
    then show ?thesis
      unfolding toDouble_pos [OF assms(1)] toDouble_pos [OF ypos] m_def [symmetric]
        m'_def [symmetric] True [symmetric]
      by (simp add: mult_right_mono)
  next
    case False
    with mm have less: "m + 1 \<le> m'" by simp
    then have m': "m' = binade y" and big: "- 1022 \<le> binade y"
      by (simp_all add: m_def m'_def)
    have "x \<le> 2 powi (m + 1)"
    proof -
      have "x < 2 powi (binade x + 1)" using binade_bounds [OF assms(1)] by simp
      also have "\<dots> \<le> 2 powi (m + 1)" by (simp add: pow2_le_iff m_def)
      finally show ?thesis by simp
    qed
    then have "toDouble x \<le> 2 powi (m + 1)"
      by (intro toDouble_le_pow [OF assms(1)]) (simp_all add: m_def)
    also have "\<dots> \<le> 2 powi binade y" using less by (simp add: pow2_le_iff m')
    also have "\<dots> \<le> toDouble y"
      using big by (rule toDouble_ge_binade [OF ypos])
    finally show ?thesis .
  qed
qed

lemma toDouble_mono:
  assumes "0 \<le> x" and "x \<le> y"
  shows "toDouble x \<le> toDouble y"
proof (cases "x = 0")
  case True
  with assms toDouble_nonneg [of y] show ?thesis by (simp add: toDouble_def)
next
  case False
  with assms show ?thesis by (intro toDouble_mono_pos) simp_all
qed

text \<open>
  The values of the two constants and of their binary64 sum, which is exactly 1/4; and the
  alpha of the fade band: the difference is at most the fade width and the quotient at most
  1, and the alpha does not decrease when the scale increases.
\<close>

lemma SCALE_TO_SHOW_SHEET_BORDERS_value:
  "SCALE_TO_SHOW_SHEET_BORDERS = Finite (5404319552844595 / 36028797018963968)"
proof -
  have "toDouble (15 / 100) = 5404319552844595 / 36028797018963968"
    using toDouble_eqI [of "15 / 100" "- 3" 5404319552844595] by (simp add: power_int_minus)
  then show ?thesis
    unfolding SCALE_TO_SHOW_SHEET_BORDERS_def using toNumber_finite [of "15 / 100"] by simp
qed

lemma FADE_SCALE_value: "FADE_SCALE = Finite (3602879701896397 / 36028797018963968)"
proof -
  have "toDouble (1 / 10) = 3602879701896397 / 36028797018963968"
    using toDouble_eqI [of "1 / 10" "- 4" 7205759403792794] by (simp add: power_int_minus)
  then show ?thesis
    unfolding FADE_SCALE_def using toNumber_finite [of "1 / 10"] by simp
qed

lemma toDouble_quarter: "toDouble (1 / 4) = 1 / 4"
  using toDouble_eqI [of "1 / 4" "- 2" 4503599627370496]
  by (simp add: power_int_minus)

lemma band_value: "num_add SCALE_TO_SHOW_SHEET_BORDERS FADE_SCALE = Finite (1 / 4)"
  using toNumber_finite [of "1 / 4"] by (simp add: SCALE_TO_SHOW_SHEET_BORDERS_value FADE_SCALE_value toDouble_quarter)

lemma toDouble_unit:
  assumes "0 \<le> x" and "x \<le> 1"
  shows "0 \<le> toDouble x \<and> toDouble x \<le> 1"
proof (cases "x = 0")
  case True
  then show ?thesis by (simp add: toDouble_def)
next
  case False
  with assms have "0 < x" by simp
  from toDouble_le_pow [OF this, of 0] assms toDouble_nonneg [of x] show ?thesis by simp
qed

lemma toDouble_below_fade:
  assumes "0 \<le> x" and "x < 3602879701896397 / 36028797018963968"
  shows "0 \<le> toDouble x \<and> toDouble x \<le> 3602879701896397 / 36028797018963968"
proof (cases "x = 0")
  case True
  then show ?thesis by (simp add: toDouble_def)
next
  case False
  with assms have pos: "0 < x" by simp
  have nonneg: "0 \<le> toDouble x" using assms(1) by (rule toDouble_nonneg)
  show ?thesis
  proof (cases "x < 2 powi (- 4)")
    case True
    from toDouble_le_pow [OF pos, of "- 4"] True have "toDouble x \<le> 2 powi (- 4)" by simp
    then have "toDouble x \<le> 3602879701896397 / 36028797018963968" by (simp add: power_int_minus)
    with nonneg show ?thesis by simp
  next
    case False
    then have low: "2 powi (- 4) \<le> x" by simp
    have "x < 2 powi (- 4 + 1)" using assms(2) by (simp add: power_int_minus)
    with pos low have b: "binade x = - 4" by (intro binade_unique)
    have "x \<le> of_int 7205759403792794 * 2 powi (- 4 - 52)"
      using assms(2) by (simp add: power_int_minus)
    from toDouble_le_grid [OF pos b _ this]
    have "toDouble x \<le> 3602879701896397 / 36028797018963968" by (simp add: power_int_minus)
    with nonneg show ?thesis by simp
  qed
qed

lemma fade_alpha:
  assumes "\<not> num_less x SCALE_TO_SHOW_SHEET_BORDERS"
    and "num_less x (num_add SCALE_TO_SHOW_SHEET_BORDERS FADE_SCALE)"
  shows "\<exists>a. num_div (num_sub x SCALE_TO_SHOW_SHEET_BORDERS) FADE_SCALE = Finite a \<and>
             0 \<le> a \<and> a \<le> 1"
proof (cases x)
  case (Finite s)
  let ?S = "5404319552844595 / 36028797018963968 :: rat"
  let ?F = "3602879701896397 / 36028797018963968 :: rat"
  from assms Finite have s: "?S \<le> s" "s < 1 / 4"
    by (simp_all add: band_value) (simp add: SCALE_TO_SHOW_SHEET_BORDERS_value)
  define d where "d = toDouble (s - ?S)"
  have d: "0 \<le> d \<and> d \<le> ?F"
    unfolding d_def using s by (intro toDouble_below_fade) simp_all
  then have "\<bar>d\<bar> < 2 powi 1024" by simp
  then have sub: "num_sub x SCALE_TO_SHOW_SHEET_BORDERS = Finite d"
    unfolding d_def Finite SCALE_TO_SHOW_SHEET_BORDERS_value num_sub_def
    using toNumber_finite [of "s - ?S"] by simp
  define a where "a = toDouble (d / ?F)"
  have a: "0 \<le> a \<and> a \<le> 1"
    unfolding a_def using d by (intro toDouble_unit) simp_all
  then have "\<bar>a\<bar> < 2 powi 1024" by simp
  then have "num_div (Finite d) FADE_SCALE = Finite a"
    unfolding a_def FADE_SCALE_value using toNumber_finite [of "d / ?F"] by simp
  with sub a show ?thesis by simp
next
  case NaN
  with assms show ?thesis by simp
next
  case Infinity
  with assms show ?thesis by (simp add: band_value)
next
  case NegInfinity
  with assms show ?thesis by (simp add: SCALE_TO_SHOW_SHEET_BORDERS_value)
qed

lemma fade_alpha_mono:
  assumes "\<not> num_less x SCALE_TO_SHOW_SHEET_BORDERS"
    and "num_less x y"
    and "num_less y (num_add SCALE_TO_SHOW_SHEET_BORDERS FADE_SCALE)"
  shows "\<not> num_less (num_div (num_sub y SCALE_TO_SHOW_SHEET_BORDERS) FADE_SCALE)
            (num_div (num_sub x SCALE_TO_SHOW_SHEET_BORDERS) FADE_SCALE)"
proof -
  let ?S = "5404319552844595 / 36028797018963968 :: rat"
  let ?F = "3602879701896397 / 36028797018963968 :: rat"
  from assms(2,3) obtain t where y: "y = Finite t"
    by (cases y; cases x) (simp_all add: band_value)
  from assms(1,2) obtain s where x: "x = Finite s"
    by (cases x) (simp_all add: y SCALE_TO_SHOW_SHEET_BORDERS_value)
  from assms(3) have "t < 1 / 4" by (simp add: y band_value)
  with assms(1,2) have st: "?S \<le> s" "s < t" "t < 1 / 4"
    by (simp_all add: x y SCALE_TO_SHOW_SHEET_BORDERS_value)
  have quotient: "num_div (num_sub (Finite u) SCALE_TO_SHOW_SHEET_BORDERS) FADE_SCALE =
                 Finite (toDouble (toDouble (u - ?S) / ?F))"
    if "?S \<le> u" and "u < 1 / 4" for u
  proof -
    have d: "0 \<le> toDouble (u - ?S) \<and> toDouble (u - ?S) \<le> ?F"
      using that by (intro toDouble_below_fade) simp_all
    then have "\<bar>toDouble (u - ?S)\<bar> < 2 powi 1024" by simp
    then have sub: "num_sub (Finite u) SCALE_TO_SHOW_SHEET_BORDERS = Finite (toDouble (u - ?S))"
      unfolding SCALE_TO_SHOW_SHEET_BORDERS_value num_sub_def
      using toNumber_finite [of "u - ?S"] by simp
    have "0 \<le> toDouble (toDouble (u - ?S) / ?F) \<and> toDouble (toDouble (u - ?S) / ?F) \<le> 1"
      using d by (intro toDouble_unit) simp_all
    then have "\<bar>toDouble (toDouble (u - ?S) / ?F)\<bar> < 2 powi 1024" by simp
    then show ?thesis
      unfolding sub FADE_SCALE_value using toNumber_finite [of "toDouble (u - ?S) / ?F"] by simp
  qed
  have "toDouble (s - ?S) \<le> toDouble (t - ?S)"
    using st by (intro toDouble_mono) simp_all
  then have "toDouble (s - ?S) / ?F \<le> toDouble (t - ?S) / ?F"
    by (simp add: divide_right_mono)
  moreover have "0 \<le> toDouble (s - ?S) / ?F"
    using toDouble_nonneg [of "s - ?S"] st by simp
  ultimately have "toDouble (toDouble (s - ?S) / ?F) \<le> toDouble (toDouble (t - ?S) / ?F)"
    by (rule toDouble_mono [rotated])
  then show ?thesis
    using st by (simp add: x y quotient)
qed

lemma alpha_02:
  "num_div (num_sub (toNumber (1 / 5)) SCALE_TO_SHOW_SHEET_BORDERS) FADE_SCALE =
     Finite (4503599627370497 / 9007199254740992)"
proof -
  have a: "toDouble (1 / 5) = 3602879701896397 / 18014398509481984"
    using toDouble_eqI [of "1 / 5" "- 3" 7205759403792794] by (simp add: power_int_minus)
  have b: "toNumber (1 / 5) = Finite (3602879701896397 / 18014398509481984)"
    using toNumber_finite [of "1 / 5"] a by simp
  have c: "toDouble (3602879701896397 / 18014398509481984 - 5404319552844595 / 36028797018963968) =
             1801439850948199 / 36028797018963968"
    using toDouble_eqI [of "3602879701896397 / 18014398509481984 - 5404319552844595 / 36028797018963968"
        "- 5" 7205759403792796]
    by (simp add: power_int_minus)
  have d: "toDouble (1801439850948199 / 36028797018963968 / (3602879701896397 / 36028797018963968)) =
             4503599627370497 / 9007199254740992"
    using toDouble_eqI [of "1801439850948199 / 36028797018963968 / (3602879701896397 / 36028797018963968)"
        "- 1" 4503599627370497]
    by (simp add: power_int_minus)
  have e: "num_sub (toNumber (1 / 5)) SCALE_TO_SHOW_SHEET_BORDERS =
             Finite (1801439850948199 / 36028797018963968)"
    unfolding b SCALE_TO_SHOW_SHEET_BORDERS_value num_sub_def
    using toNumber_finite
      [of "3602879701896397 / 18014398509481984 - 5404319552844595 / 36028797018963968"] c
    by simp
  show ?thesis
    unfolding e FADE_SCALE_value
    using toNumber_finite
      [of "1801439850948199 / 36028797018963968 / (3602879701896397 / 36028797018963968)"] d
    by simp
qed


section \<open>Basic facts\<close>

lemma bindE_simps [simp]: "bindE (Inl e) f = Inl e" "bindE (Inr a) f = f a"
  by (simp_all add: bindE_def)

lemma forEachE_Inr: "forEachE (\<lambda>a s. Inr (g a s)) as s = Inr (fold g as s)"
  by (induction as arbitrary: s) simp_all

lemma overlapLoop_fold:
  "overlapLoop dl pos len start stop overlaps lines current =
     fold (\<lambda>overlap (lines', current'). dl lines' current' start stop (pos overlap) (len overlap))
       (rev overlaps) (lines, current)"
proof (induction overlaps arbitrary: lines current rule: rev_induct)
  case Nil
  show ?case by (simp add: overlapLoop.simps)
next
  case (snoc x xs)
  show ?case
    by (subst overlapLoop.simps) (simp add: snoc.IH split: prod.splits)
qed

lemma relE_simps [simp]:
  "relE R (Inl e1) (Inl e2) = (e1 = e2)"
  "relE R (Inr a) (Inr b) = R a b"
  "relE R (Inl e1) (Inr b) = False"
  "relE R (Inr a) (Inl e2) = False"
  by (simp_all add: relE_def)

lemma relE_bindE:
  assumes "relE R r1 r2" and "\<And>a b. R a b \<Longrightarrow> relE Q (f a) (g b)"
  shows "relE Q (bindE r1 f) (bindE r2 g)"
  using assms by (cases r1; cases r2) simp_all

lemma relE_forEachE:
  assumes "\<And>a s t. R s t \<Longrightarrow> relE R (f a s) (g a t)" and "R s t"
  shows "relE R (forEachE f as s) (forEachE g as t)"
  using assms(2)
proof (induction as arbitrary: s t)
  case Nil
  then show ?case by simp
next
  case (Cons a as)
  show ?case
    unfolding forEachE.simps
    by (rule relE_bindE [OF assms(1) [OF Cons.prems]]) (rule Cons.IH)
qed

lemma invE_simps [simp]: "invE P (Inl e) = True" "invE P (Inr s) = P s"
  by (simp_all add: invE_def)

lemma invE_bindE:
  assumes "invE P r" and "\<And>a. P a \<Longrightarrow> invE Q (f a)"
  shows "invE Q (bindE r f)"
  using assms by (cases r) simp_all

lemma invE_forEachE:
  assumes "\<And>a s. P s \<Longrightarrow> invE P (f a s)" and "P s"
  shows "invE P (forEachE f as s)"
  using assms(2)
proof (induction as arbitrary: s)
  case Nil
  then show ?case by simp
next
  case (Cons a as)
  show ?case
    unfolding forEachE.simps
    by (rule invE_bindE [OF assms(1) [OF Cons.prems]]) (rule Cons.IH)
qed

lemma frame_refl [simp]: "frame s s"
  by (simp add: frame_def)

lemma sheet_agree: "agree s t \<Longrightarrow> sheet ev s = sheet ev t"
  by (simp add: agree_def sheet_def)

lemma verticalSegment_frame:
  "frame s0 s \<Longrightarrow> invE (frame s0) (verticalSegment ev x bd seg s)"
  by (cases "sheet ev s") (simp_all add: verticalSegment_def split_def Let_def frame_def getSpriteSheet_def)

lemma horizontalSegment_frame:
  "frame s0 s \<Longrightarrow> invE (frame s0) (horizontalSegment ev y bd seg s)"
  by (cases "sheet ev s") (simp_all add: horizontalSegment_def split_def Let_def frame_def getSpriteSheet_def)

lemma verticalSegment_agree:
  "agree s t \<Longrightarrow> relE agree (verticalSegment ev x bd seg s) (verticalSegment ev x bd seg t)"
  by (cases "sheet ev t")
     (simp_all add: verticalSegment_def split_def Let_def sheet_agree, simp add: agree_def getSpriteSheet_def Let_def)

lemma horizontalSegment_agree:
  "agree s t \<Longrightarrow> relE agree (horizontalSegment ev y bd seg s) (horizontalSegment ev y bd seg t)"
  by (cases "sheet ev t")
     (simp_all add: horizontalSegment_def split_def Let_def sheet_agree, simp add: agree_def getSpriteSheet_def Let_def)

lemma drawScreenVerticalLine_frame:
  assumes "frame s0 s"
  shows "invE (frame s0) (drawScreenVerticalLine ev rs re c bd rows s)"
  unfolding drawScreenVerticalLine_def Let_def
  by (cases "sheet ev s") (simp_all add: invE_forEachE [OF verticalSegment_frame assms])

lemma drawScreenHorizontalLine_frame:
  assumes "frame s0 s"
  shows "invE (frame s0) (drawScreenHorizontalLine ev cs ce r bd cols s)"
  unfolding drawScreenHorizontalLine_def Let_def
  by (cases "sheet ev s") (simp_all add: invE_forEachE [OF horizontalSegment_frame assms])

lemma drawScreenVerticalLine_agree:
  assumes "agree s t"
  shows "relE agree (drawScreenVerticalLine ev rs re c bd rows s)
           (drawScreenVerticalLine ev rs re c bd rows t)"
proof -
  have b: "borders s = borders t" and sh: "sheet ev s = sheet ev t"
    using assms by (simp_all add: agree_def sheet_def)
  show ?thesis
    unfolding drawScreenVerticalLine_def Let_def b sh
    by (cases "sheet ev t") (simp_all add: relE_forEachE [OF verticalSegment_agree assms])
qed

lemma drawScreenHorizontalLine_agree:
  assumes "agree s t"
  shows "relE agree (drawScreenHorizontalLine ev cs ce r bd cols s)
           (drawScreenHorizontalLine ev cs ce r bd cols t)"
proof -
  have b: "borders s = borders t" and sh: "sheet ev s = sheet ev t"
    using assms by (simp_all add: agree_def sheet_def)
  show ?thesis
    unfolding drawScreenHorizontalLine_def Let_def b sh
    by (cases "sheet ev t") (simp_all add: relE_forEachE [OF horizontalSegment_agree assms])
qed

lemma horizontalBorder_frame:
  "frame s0 s \<Longrightarrow> invE (frame s0) (horizontalBorder ev bd s)"
  by (cases "sheet ev s") (simp_all add: horizontalBorder_def Let_def frame_def getSprite_def)

lemma verticalBorder_frame:
  "frame s0 s \<Longrightarrow> invE (frame s0) (verticalBorder ev bd s)"
  by (cases "sheet ev s") (simp_all add: verticalBorder_def Let_def frame_def getSprite_def)

lemma horizontalBorder_agree:
  "agree s t \<Longrightarrow> relE agree (horizontalBorder ev bd s) (horizontalBorder ev bd t)"
  by (cases "sheet ev t")
     (simp_all add: horizontalBorder_def Let_def sheet_agree, simp_all add: agree_def getSprite_def)

lemma verticalBorder_agree:
  "agree s t \<Longrightarrow> relE agree (verticalBorder ev bd s) (verticalBorder ev bd t)"
  by (cases "sheet ev t")
     (simp_all add: verticalBorder_def Let_def sheet_agree, simp_all add: agree_def getSprite_def)

lemma drawHorizontal_frame:
  assumes "frame s0 s"
  shows "invE (frame s0) (drawHorizontal ev s)"
  unfolding drawHorizontal_def
  by (cases "Option.bind (borders s) b_horizontal")
     (simp_all add: assms invE_forEachE [OF horizontalBorder_frame assms])

lemma drawVertical_frame:
  assumes "frame s0 s"
  shows "invE (frame s0) (drawVertical ev s)"
  unfolding drawVertical_def
  by (cases "Option.bind (borders s) b_vertical")
     (simp_all add: assms invE_forEachE [OF verticalBorder_frame assms])

lemma drawHorizontal_agree:
  assumes "agree s t"
  shows "relE agree (drawHorizontal ev s) (drawHorizontal ev t)"
proof -
  have b: "borders s = borders t" using assms by (simp add: agree_def)
  show ?thesis
    unfolding drawHorizontal_def b
    by (cases "Option.bind (borders t) b_horizontal")
       (simp_all add: assms relE_forEachE [OF horizontalBorder_agree assms])
qed

lemma drawVertical_agree:
  assumes "agree s t"
  shows "relE agree (drawVertical ev s) (drawVertical ev t)"
proof -
  have b: "borders s = borders t" using assms by (simp add: agree_def)
  show ?thesis
    unfolding drawVertical_def b
    by (cases "Option.bind (borders t) b_vertical")
       (simp_all add: assms relE_forEachE [OF verticalBorder_agree assms])
qed

lemma drawAll_frame:
  assumes "frame s0 s"
  shows "invE (frame s0) (drawAll ev s)"
  unfolding drawAll_def Let_def
  by (auto split: option.splits
           intro!: assms invE_bindE [where P = "frame s0"] invE_forEachE [where P = "frame s0"]
                   drawScreenHorizontalLine_frame drawScreenVerticalLine_frame)

lemma drawAll_agree:
  assumes "agree s t"
  shows "relE agree (drawAll ev s) (drawAll ev t)"
proof -
  have b: "borders s = borders t" using assms by (simp add: agree_def)
  show ?thesis
    unfolding drawAll_def Let_def b
    by (auto split: option.splits
             intro!: assms relE_bindE [where R = agree] relE_forEachE [where R = agree]
                     drawScreenHorizontalLine_agree drawScreenVerticalLine_agree)
qed

lemma columnLeft_frame:
  "frame s0 s \<Longrightarrow> invE (frame s0) (columnLeft ev b cols rs re x column s)"
  by (auto simp: columnLeft_def drawScreenVerticalLine_frame split: option.splits)

lemma columnRight_frame:
  "frame s0 s \<Longrightarrow> invE (frame s0) (columnRight ev b cols rs re x column s)"
  by (auto simp: columnRight_def drawScreenVerticalLine_frame split: option.splits)

lemma columnTop_frame:
  "frame s0 s \<Longrightarrow> invE (frame s0) (columnTop ev rs re x column s)"
  by (auto simp: columnTop_def split: option.splits
           intro!: invE_forEachE [where P = "frame s0"] drawScreenHorizontalLine_frame)

lemma columnBottom_frame:
  "frame s0 s \<Longrightarrow> invE (frame s0) (columnBottom ev rs re x column s)"
  by (auto simp: columnBottom_def split: option.splits
           intro!: invE_forEachE [where P = "frame s0"] drawScreenHorizontalLine_frame)

lemma rowTop_frame:
  "frame s0 s \<Longrightarrow> invE (frame s0) (rowTop ev b rws cs ce y row s)"
  by (auto simp: rowTop_def drawScreenHorizontalLine_frame split: option.splits)

lemma rowBottom_frame:
  "frame s0 s \<Longrightarrow> invE (frame s0) (rowBottom ev b rws cs ce y row s)"
  by (auto simp: rowBottom_def drawScreenHorizontalLine_frame split: option.splits)

lemma rowLeft_frame:
  "frame s0 s \<Longrightarrow> invE (frame s0) (rowLeft ev cs ce y row s)"
  by (auto simp: rowLeft_def split: option.splits
           intro!: invE_forEachE [where P = "frame s0"] drawScreenVerticalLine_frame)

lemma rowRight_frame:
  "frame s0 s \<Longrightarrow> invE (frame s0) (rowRight ev cs ce y row s)"
  by (auto simp: rowRight_def split: option.splits
           intro!: invE_forEachE [where P = "frame s0"] drawScreenVerticalLine_frame)

lemma drawColumn_frame:
  "frame s0 s \<Longrightarrow> invE (frame s0) (drawColumn ev b cols cs ce rs re x s)"
  by (auto simp: drawColumn_def split: option.splits
           intro!: invE_bindE [where P = "frame s0"] columnLeft_frame columnRight_frame
                   columnTop_frame columnBottom_frame)

lemma drawRow_frame:
  "frame s0 s \<Longrightarrow> invE (frame s0) (drawRow ev b rws cs ce rs re y s)"
  by (auto simp: drawRow_def split: option.splits
           intro!: invE_bindE [where P = "frame s0"] rowTop_frame rowBottom_frame
                   rowLeft_frame rowRight_frame)

lemma columnLeft_agree:
  "agree s t \<Longrightarrow>
   relE agree (columnLeft ev b cols rs re x column s) (columnLeft ev b cols rs re x column t)"
  by (auto simp: columnLeft_def drawScreenVerticalLine_agree split: option.splits)

lemma columnRight_agree:
  "agree s t \<Longrightarrow>
   relE agree (columnRight ev b cols rs re x column s) (columnRight ev b cols rs re x column t)"
  by (auto simp: columnRight_def drawScreenVerticalLine_agree split: option.splits)

lemma columnTop_agree:
  "agree s t \<Longrightarrow> relE agree (columnTop ev rs re x column s) (columnTop ev rs re x column t)"
  by (auto simp: columnTop_def split: option.splits
           intro!: relE_forEachE [where R = agree] drawScreenHorizontalLine_agree)

lemma columnBottom_agree:
  "agree s t \<Longrightarrow> relE agree (columnBottom ev rs re x column s) (columnBottom ev rs re x column t)"
  by (auto simp: columnBottom_def split: option.splits
           intro!: relE_forEachE [where R = agree] drawScreenHorizontalLine_agree)

lemma rowTop_agree:
  "agree s t \<Longrightarrow> relE agree (rowTop ev b rws cs ce y row s) (rowTop ev b rws cs ce y row t)"
  by (auto simp: rowTop_def drawScreenHorizontalLine_agree split: option.splits)

lemma rowBottom_agree:
  "agree s t \<Longrightarrow> relE agree (rowBottom ev b rws cs ce y row s) (rowBottom ev b rws cs ce y row t)"
  by (auto simp: rowBottom_def drawScreenHorizontalLine_agree split: option.splits)

lemma rowLeft_agree:
  "agree s t \<Longrightarrow> relE agree (rowLeft ev cs ce y row s) (rowLeft ev cs ce y row t)"
  by (auto simp: rowLeft_def split: option.splits
           intro!: relE_forEachE [where R = agree] drawScreenVerticalLine_agree)

lemma rowRight_agree:
  "agree s t \<Longrightarrow> relE agree (rowRight ev cs ce y row s) (rowRight ev cs ce y row t)"
  by (auto simp: rowRight_def split: option.splits
           intro!: relE_forEachE [where R = agree] drawScreenVerticalLine_agree)

lemma drawColumn_agree:
  "agree s t \<Longrightarrow>
   relE agree (drawColumn ev b cols cs ce rs re x s) (drawColumn ev b cols cs ce rs re x t)"
  by (auto simp: drawColumn_def split: option.splits
           intro!: relE_bindE [where R = agree] columnLeft_agree columnRight_agree
                   columnTop_agree columnBottom_agree)

lemma drawRow_agree:
  "agree s t \<Longrightarrow>
   relE agree (drawRow ev b rws cs ce rs re y s) (drawRow ev b rws cs ce rs re y t)"
  by (auto simp: drawRow_def split: option.splits
           intro!: relE_bindE [where R = agree] rowTop_agree rowBottom_agree
                   rowLeft_agree rowRight_agree)

lemma drawSheetBorders_frame:
  "invE (frame (s\<lparr>viewport_dirty := True\<rparr>)) (drawSheetBorders ev s)"
proof -
  let ?s0 = "s\<lparr>viewport_dirty := True\<rparr>"
  have start: "frame ?s0 (s\<lparr>cellLines := [], sheetLines := [], viewport_dirty := True\<rparr>)"
    by (simp add: frame_def)
  show ?thesis
    unfolding drawSheetBorders_def Let_def
    by (auto split: option.splits
             intro!: start invE_bindE [where P = "frame ?s0"] invE_forEachE [where P = "frame ?s0"]
                     drawAll_frame drawHorizontal_frame drawVertical_frame
                     drawColumn_frame drawRow_frame)
qed

lemma drawSheetBorders_agree:
  assumes "sheetId s = sheetId t" and "borders s = borders t"
  shows "relE agree (drawSheetBorders ev s) (drawSheetBorders ev t)"
proof -
  have start: "agree (s\<lparr>cellLines := [], sheetLines := [], viewport_dirty := True\<rparr>)
                     (t\<lparr>cellLines := [], sheetLines := [], viewport_dirty := True\<rparr>)"
    using assms by (simp add: agree_def)
  show ?thesis
    unfolding drawSheetBorders_def Let_def
    using assms(2)
    by (auto split: option.splits
             intro!: start relE_bindE [where R = agree] relE_forEachE [where R = agree]
                     drawAll_agree drawHorizontal_agree drawVertical_agree
                     drawColumn_agree drawRow_agree)
qed

text \<open>A line function with no override map reads the explicit segments only.\<close>

lemma horizontalLines_explicit_only:
  "Option.bind b1 b_horizontal = Option.bind b2 b_horizontal \<Longrightarrow>
   horizontalLines ev b1 cs ce r None = horizontalLines ev b2 cs ce r None"
  by (simp add: horizontalLines_def horizontalOverlaps_def)

lemma verticalLines_explicit_only:
  "Option.bind b1 b_vertical = Option.bind b2 b_vertical \<Longrightarrow>
   verticalLines ev b1 rs re c None = verticalLines ev b2 rs re c None"
  by (simp add: verticalLines_def verticalOverlaps_def)

text \<open>
  With the owning sheet in the registry a line function returns, and appends one primitive
  for each pair of its lines, in their order, to \<^verbatim>\<open>sheetLines\<close>.
\<close>

lemma forEachE_verticalSegment:
  "getById ev (sheetId st) = Some sh \<Longrightarrow>
   forEachE (verticalSegment ev (getColumnX sh c) bd) segs st =
     Inr (st\<lparr>sheetLines := sheetLines st @ map (verticalPrimitive sh c bd) segs\<rparr>)"
proof (induction segs arbitrary: st)
  case Nil
  then show ?case by simp
next
  case (Cons seg segs)
  let ?st1 = "st\<lparr>sheetLines := sheetLines st @ [verticalPrimitive sh c bd seg]\<rparr>"
  have step: "verticalSegment ev (getColumnX sh c) bd seg st = Inr ?st1"
    using Cons.prems
    by (cases seg)
       (simp add: verticalSegment_def sheet_def getSpriteSheet_def drawCellBorder_def
          verticalPrimitive_def Let_def)
  have "getById ev (sheetId ?st1) = Some sh" using Cons.prems by simp
  from Cons.IH [OF this] show ?case by (simp add: step)
qed

lemma forEachE_horizontalSegment:
  "getById ev (sheetId st) = Some sh \<Longrightarrow>
   forEachE (horizontalSegment ev (getRowY sh r) bd) segs st =
     Inr (st\<lparr>sheetLines := sheetLines st @ map (horizontalPrimitive sh r bd) segs\<rparr>)"
proof (induction segs arbitrary: st)
  case Nil
  then show ?case by simp
next
  case (Cons seg segs)
  let ?st1 = "st\<lparr>sheetLines := sheetLines st @ [horizontalPrimitive sh r bd seg]\<rparr>"
  have step: "horizontalSegment ev (getRowY sh r) bd seg st = Inr ?st1"
    using Cons.prems
    by (cases seg)
       (simp add: horizontalSegment_def sheet_def getSpriteSheet_def drawCellBorder_def
          horizontalPrimitive_def Let_def)
  have "getById ev (sheetId ?st1) = Some sh" using Cons.prems by simp
  from Cons.IH [OF this] show ?case by (simp add: step)
qed

lemma drawScreenVerticalLine_emits:
  "getById ev (sheetId st) = Some sh \<Longrightarrow>
   drawScreenVerticalLine ev rs re c bd rows st =
     Inr (st\<lparr>sheetLines := sheetLines st @
            map (verticalPrimitive sh c bd) (verticalLines ev (borders st) rs re c rows)\<rparr>)"
  by (simp add: drawScreenVerticalLine_def sheet_def forEachE_verticalSegment)

lemma drawScreenHorizontalLine_emits:
  "getById ev (sheetId st) = Some sh \<Longrightarrow>
   drawScreenHorizontalLine ev cs ce r bd cols st =
     Inr (st\<lparr>sheetLines := sheetLines st @
            map (horizontalPrimitive sh r bd) (horizontalLines ev (borders st) cs ce r cols)\<rparr>)"
  by (simp add: drawScreenHorizontalLine_def sheet_def forEachE_horizontalSegment)

lemma forEachE_drawScreenVerticalLine:
  "getById ev (sheetId st) = Some sh \<Longrightarrow>
   forEachE (\<lambda>x. drawScreenVerticalLine ev rs re x bd rows) xs st =
     Inr (st\<lparr>sheetLines := sheetLines st @
            concat (map (\<lambda>x. map (verticalPrimitive sh x bd)
                                (verticalLines ev (borders st) rs re x rows)) xs)\<rparr>)"
proof (induction xs arbitrary: st)
  case Nil
  then show ?case by simp
next
  case (Cons x xs)
  let ?st1 = "st\<lparr>sheetLines := sheetLines st @
                 map (verticalPrimitive sh x bd) (verticalLines ev (borders st) rs re x rows)\<rparr>"
  have "getById ev (sheetId ?st1) = Some sh" using Cons.prems by simp
  from Cons.IH [OF this] show ?case
    by (simp add: drawScreenVerticalLine_emits [OF Cons.prems])
qed

lemma forEachE_drawScreenHorizontalLine:
  "getById ev (sheetId st) = Some sh \<Longrightarrow>
   forEachE (\<lambda>y. drawScreenHorizontalLine ev cs ce y bd cols) ys st =
     Inr (st\<lparr>sheetLines := sheetLines st @
            concat (map (\<lambda>y. map (horizontalPrimitive sh y bd)
                                (horizontalLines ev (borders st) cs ce y cols)) ys)\<rparr>)"
proof (induction ys arbitrary: st)
  case Nil
  then show ?case by simp
next
  case (Cons y ys)
  let ?st1 = "st\<lparr>sheetLines := sheetLines st @
                 map (horizontalPrimitive sh y bd) (horizontalLines ev (borders st) cs ce y cols)\<rparr>"
  have "getById ev (sheetId ?st1) = Some sh" using Cons.prems by simp
  from Cons.IH [OF this] show ?case
    by (simp add: drawScreenHorizontalLine_emits [OF Cons.prems])
qed

text \<open>
  Of an obstruction a line function reads the position and the size only: the loop over the
  sorted obstructions is a fold over their positions and sizes, so the line kinds of the
  explicit segments do not change what is emitted. A loop over the explicit segments does
  nothing for a clear segment.
\<close>

lemma map_insort_key:
  assumes "\<And>y. f' (g y) = f y"
  shows "map g (insort_key f x xs) = insort_key f' (g x) (map g xs)"
  by (induction xs) (simp_all add: assms)

lemma map_sort_key:
  assumes "\<And>y. f' (g y) = f y"
  shows "map g (sort_key f xs) = sort_key f' (map g xs)"
  by (induction xs) (simp_all add: map_insort_key [where f' = f' and g = g and f = f, OF assms])

lemma overlapLoop_positions:
  "overlapLoop dl pos len start stop (sort_key pos overlaps) lines current =
     fold (\<lambda>(p, n) (lines', current'). dl lines' current' start stop p n)
       (rev (sort_key fst (map (\<lambda>v. (pos v, len v)) overlaps))) (lines, current)"
proof -
  let ?g = "\<lambda>v. (pos v, len v)"
  let ?F = "\<lambda>(p, n) (lines', current'). dl lines' current' start stop p n"
  have "overlapLoop dl pos len start stop (sort_key pos overlaps) lines current =
          fold (?F \<circ> ?g) (rev (sort_key pos overlaps)) (lines, current)"
    by (simp add: overlapLoop_fold comp_def)
  also have "\<dots> = fold ?F (map ?g (rev (sort_key pos overlaps))) (lines, current)"
    by (simp only: fold_map)
  also have "map ?g (rev (sort_key pos overlaps)) = rev (sort_key fst (map ?g overlaps))"
    by (simp add: rev_map [symmetric] map_sort_key [where f' = fst])
  finally show ?thesis .
qed

lemma overlapLoop_same_positions:
  assumes "map (\<lambda>v. (pos v, len v)) xs = map (\<lambda>v. (pos' v, len' v)) ys"
  shows "overlapLoop dl pos len start stop (sort_key pos xs) lines current =
           overlapLoop dl pos' len' start stop (sort_key pos' ys) lines current"
  unfolding overlapLoop_positions assms ..

lemma verticalLines_kinds:
  "verticalLines ev (Some (b\<lparr>b_vertical := Some (map (\<lambda>v. v\<lparr>line := k v\<rparr>) vs)\<rparr>))
     rowStart rowEnd column rows =
   verticalLines ev (Some (b\<lparr>b_vertical := Some vs\<rparr>)) rowStart rowEnd column rows"
proof -
  have "overlapLoop (ext_divideLine ev) b_y height rowStart rowEnd
          (sort_key b_y (verticalOverlaps ev
             (Some (b\<lparr>b_vertical := Some (map (\<lambda>v. v\<lparr>line := k v\<rparr>) vs)\<rparr>))
             rowStart rowEnd column rows)) [] None =
        overlapLoop (ext_divideLine ev) b_y height rowStart rowEnd
          (sort_key b_y (verticalOverlaps ev (Some (b\<lparr>b_vertical := Some vs\<rparr>))
             rowStart rowEnd column rows)) [] None"
    by (rule overlapLoop_same_positions) (simp add: verticalOverlaps_def filter_map comp_def)
  then show ?thesis by (simp add: verticalLines_def)
qed

lemma horizontalLines_kinds:
  "horizontalLines ev (Some (b\<lparr>b_horizontal := Some (map (\<lambda>h. h\<lparr>line := k h\<rparr>) hs)\<rparr>))
     columnStart columnEnd row columns =
   horizontalLines ev (Some (b\<lparr>b_horizontal := Some hs\<rparr>)) columnStart columnEnd row columns"
proof -
  have "overlapLoop (ext_divideLine ev) b_x width columnStart columnEnd
          (sort_key b_x (horizontalOverlaps ev
             (Some (b\<lparr>b_horizontal := Some (map (\<lambda>h. h\<lparr>line := k h\<rparr>) hs)\<rparr>))
             columnStart columnEnd row columns)) [] None =
        overlapLoop (ext_divideLine ev) b_x width columnStart columnEnd
          (sort_key b_x (horizontalOverlaps ev (Some (b\<lparr>b_horizontal := Some hs\<rparr>))
             columnStart columnEnd row columns)) [] None"
    by (rule overlapLoop_same_positions) (simp add: horizontalOverlaps_def filter_map comp_def)
  then show ?thesis by (simp add: horizontalLines_def)
qed

lemma bindE_cong: "(\<And>a. f a = g a) \<Longrightarrow> bindE r f = bindE r g"
  by (cases r) simp_all

lemma forEachE_horizontalBorder_clear:
  "forEachE (horizontalBorder ev) hs st =
     forEachE (horizontalBorder ev) (filter (\<lambda>h. line h \<noteq> Clear) hs) st"
proof (induction hs arbitrary: st)
  case Nil
  show ?case by simp
next
  case (Cons h hs)
  show ?case
  proof (cases "line h = Clear")
    case True
    then have "horizontalBorder ev h st = Inr st" by (simp add: horizontalBorder_def)
    with True show ?thesis by (simp add: Cons.IH)
  next
    case False
    then show ?thesis by (simp add: bindE_cong [OF Cons.IH])
  qed
qed

lemma forEachE_verticalBorder_clear:
  "forEachE (verticalBorder ev) vs st =
     forEachE (verticalBorder ev) (filter (\<lambda>v. line v \<noteq> Clear) vs) st"
proof (induction vs arbitrary: st)
  case Nil
  show ?case by simp
next
  case (Cons v vs)
  show ?case
  proof (cases "line v = Clear")
    case True
    then have "verticalBorder ev v st = Inr st" by (simp add: verticalBorder_def)
    with True show ?thesis by (simp add: Cons.IH)
  next
    case False
    then show ?thesis by (simp add: bindE_cong [OF Cons.IH])
  qed
qed

lemma drawScreenVerticalLine_missing:
  "getById ev (sheetId st) = None \<Longrightarrow>
   drawScreenVerticalLine ev rs re c bd rows st = Inl sheetError"
  by (simp add: drawScreenVerticalLine_def sheet_def)

lemma drawScreenHorizontalLine_missing:
  "getById ev (sheetId st) = None \<Longrightarrow>
   drawScreenHorizontalLine ev cs ce r bd cols st = Inl sheetError"
  by (simp add: drawScreenHorizontalLine_def sheet_def)

lemma drawScreenVerticalLine_kinds:
  "map_sum id sheetLines
     (drawScreenVerticalLine ev rowStart rowEnd column border rows
        (st\<lparr>borders := Some (b\<lparr>b_vertical := Some (map (\<lambda>v. v\<lparr>line := k v\<rparr>) vs)\<rparr>)\<rparr>)) =
   map_sum id sheetLines
     (drawScreenVerticalLine ev rowStart rowEnd column border rows
        (st\<lparr>borders := Some (b\<lparr>b_vertical := Some vs\<rparr>)\<rparr>))"
proof (cases "getById ev (sheetId st)")
  case None
  then show ?thesis by (simp add: drawScreenVerticalLine_missing)
next
  case (Some sh)
  then show ?thesis by (simp add: drawScreenVerticalLine_emits verticalLines_kinds)
qed

lemma drawScreenHorizontalLine_kinds:
  "map_sum id sheetLines
     (drawScreenHorizontalLine ev columnStart columnEnd row border columns
        (st\<lparr>borders := Some (b\<lparr>b_horizontal := Some (map (\<lambda>h. h\<lparr>line := k h\<rparr>) hs)\<rparr>)\<rparr>)) =
   map_sum id sheetLines
     (drawScreenHorizontalLine ev columnStart columnEnd row border columns
        (st\<lparr>borders := Some (b\<lparr>b_horizontal := Some hs\<rparr>)\<rparr>))"
proof (cases "getById ev (sheetId st)")
  case None
  then show ?thesis by (simp add: drawScreenHorizontalLine_missing)
next
  case (Some sh)
  then show ?thesis by (simp add: drawScreenHorizontalLine_emits horizontalLines_kinds)
qed

text \<open>
  \<^verbatim>\<open>drawSheetCells\<close> with the id of another sheet returns the state it was given; and
  while no dataset is stored, \<^verbatim>\<open>drawSheetBorders\<close> returns with both containers empty.
\<close>

lemma drawSheetCells_foreign_sheet:
  "sheetId' \<noteq> sheetId st \<Longrightarrow> drawSheetCells ev sheetId' borders' st = Inr st"
  by (simp add: drawSheetCells_def)

lemma drawSheetBorders_no_dataset:
  "borders st = None \<Longrightarrow>
   drawSheetBorders ev st = Inr (st\<lparr>cellLines := [], sheetLines := [], viewport_dirty := True\<rparr>)"
  by (simp add: drawSheetBorders_def)

text \<open>Without the owning sheet, the first explicit segment that is not clear throws.\<close>

lemma horizontalBorder_missing:
  assumes "getById ev (sheetId st) = None" and "\<exists>border\<in>set hs. line border \<noteq> Clear"
  shows "forEachE (horizontalBorder ev) hs st = Inl sheetError"
  using assms(2)
proof (induction hs)
  case Nil
  then show ?case by simp
next
  case (Cons h hs)
  show ?case
  proof (cases "line h = Clear")
    case True
    with Cons show ?thesis by (simp add: horizontalBorder_def)
  next
    case False
    with assms(1) show ?thesis by (simp add: horizontalBorder_def sheet_def sheetError_def)
  qed
qed

lemma verticalBorder_missing:
  assumes "getById ev (sheetId st) = None" and "\<exists>border\<in>set vs. line border \<noteq> Clear"
  shows "forEachE (verticalBorder ev) vs st = Inl sheetError"
  using assms(2)
proof (induction vs)
  case Nil
  then show ?case by simp
next
  case (Cons v vs)
  show ?case
  proof (cases "line v = Clear")
    case True
    with Cons show ?thesis by (simp add: verticalBorder_def)
  next
    case False
    with assms(1) show ?thesis by (simp add: verticalBorder_def sheet_def sheetError_def)
  qed
qed

text \<open>The line functions read the style of the border they draw, never its timestamp.\<close>

lemma timestamp_not_read:
  "drawScreenVerticalLine ev rowStart rowEnd column (border\<lparr>timestamp := t\<rparr>) rows st =
     drawScreenVerticalLine ev rowStart rowEnd column border rows st \<and>
   drawScreenHorizontalLine ev columnStart columnEnd row (border\<lparr>timestamp := t\<rparr>) columns st =
     drawScreenHorizontalLine ev columnStart columnEnd row border columns st"
  by (simp add: drawScreenVerticalLine_def drawScreenHorizontalLine_def verticalSegment_def [abs_def]
        horizontalSegment_def [abs_def] styleOf_def)

lemma laterRows_example:
  "laterRows (Some exampleRows) 0 10 0 = {4}" "laterRows (Some exampleRows) 0 10 5 = {}"
  by (auto simp: laterRows_def exampleRows_def noEdges_def solid_def split: if_splits)

section \<open>Claims\<close>

text \<open>
  C1. With the owning sheet in the registry, a line function whose branch for explicit
  segments or an override map is taken returns, and what it appends to \<^verbatim>\<open>sheetLines\<close> is
  determined as follows. Let \<open>ordered\<close> be the collected obstructions sorted ascending by
  their position: a permutation of them that is sorted by the position and keeps obstructions
  of the same position in the order of their collection. The obstructions are handed to
  \<^verbatim>\<open>divideLine\<close> one at a time from the last of \<open>ordered\<close> to the first, so from the
  greatest position downward, each call receiving the lines and the cursor of the call
  before; after the last one the whole span is pushed if the cursor is undefined, and the
  rest from the cursor to the end of the span iff the cursor is below the end. One primitive
  is emitted for each of the resulting pairs.
\<close>

theorem resolve_screen_line:
  assumes "getById ev (sheetId st) = Some sh"
  shows
    "((Option.bind (borders st) b_vertical \<noteq> None \<or> rows \<noteq> None) \<and>
      sorted (map b_y ordered) \<and>
      mset ordered = mset (verticalOverlaps ev (borders st) rowStart rowEnd column rows) \<and>
      (\<forall>k\<in>set ordered.
         filter (\<lambda>v. b_y k = b_y v) ordered =
           filter (\<lambda>v. b_y k = b_y v) (verticalOverlaps ev (borders st) rowStart rowEnd column rows)) \<longrightarrow>
        drawScreenVerticalLine ev rowStart rowEnd column border rows st =
          Inr (st\<lparr>sheetLines := sheetLines st @
                 map (verticalPrimitive sh column border)
                   (case fold (\<lambda>overlap (lines, current).
                                 ext_divideLine ev lines current rowStart rowEnd
                                   (b_y overlap) (height overlap))
                           (rev ordered) ([], None) of
                      (lines, None) \<Rightarrow> lines @ [(rowStart, rowEnd)]
                    | (lines, Some current) \<Rightarrow>
                        if current < rowEnd then lines @ [(current, rowEnd)] else lines)\<rparr>)) \<and>
     ((Option.bind (borders st) b_horizontal \<noteq> None \<or> columns \<noteq> None) \<and>
      sorted (map b_x ordered') \<and>
      mset ordered' = mset (horizontalOverlaps ev (borders st) columnStart columnEnd row columns) \<and>
      (\<forall>k\<in>set ordered'.
         filter (\<lambda>h. b_x k = b_x h) ordered' =
           filter (\<lambda>h. b_x k = b_x h)
             (horizontalOverlaps ev (borders st) columnStart columnEnd row columns)) \<longrightarrow>
        drawScreenHorizontalLine ev columnStart columnEnd row border' columns st =
          Inr (st\<lparr>sheetLines := sheetLines st @
                 map (horizontalPrimitive sh row border')
                   (case fold (\<lambda>overlap (lines, current).
                                 ext_divideLine ev lines current columnStart columnEnd
                                   (b_x overlap) (width overlap))
                           (rev ordered') ([], None) of
                      (lines, None) \<Rightarrow> lines @ [(columnStart, columnEnd)]
                    | (lines, Some current) \<Rightarrow>
                        if current < columnEnd then lines @ [(current, columnEnd)] else lines)\<rparr>))"
proof (intro conjI impI)
  assume h: "(Option.bind (borders st) b_vertical \<noteq> None \<or> rows \<noteq> None) \<and>
      sorted (map b_y ordered) \<and>
      mset ordered = mset (verticalOverlaps ev (borders st) rowStart rowEnd column rows) \<and>
      (\<forall>k\<in>set ordered.
         filter (\<lambda>v. b_y k = b_y v) ordered =
           filter (\<lambda>v. b_y k = b_y v) (verticalOverlaps ev (borders st) rowStart rowEnd column rows))"
  then have "sort_key b_y (verticalOverlaps ev (borders st) rowStart rowEnd column rows) = ordered"
    by (intro properties_for_sort_key) simp_all
  with h show "drawScreenVerticalLine ev rowStart rowEnd column border rows st =
          Inr (st\<lparr>sheetLines := sheetLines st @
                 map (verticalPrimitive sh column border)
                   (case fold (\<lambda>overlap (lines, current).
                                 ext_divideLine ev lines current rowStart rowEnd
                                   (b_y overlap) (height overlap))
                           (rev ordered) ([], None) of
                      (lines, None) \<Rightarrow> lines @ [(rowStart, rowEnd)]
                    | (lines, Some current) \<Rightarrow>
                        if current < rowEnd then lines @ [(current, rowEnd)] else lines)\<rparr>)"
    by (simp add: drawScreenVerticalLine_emits [OF assms] verticalLines_def overlapLoop_fold
          remainder_def)
next
  assume h: "(Option.bind (borders st) b_horizontal \<noteq> None \<or> columns \<noteq> None) \<and>
      sorted (map b_x ordered') \<and>
      mset ordered' = mset (horizontalOverlaps ev (borders st) columnStart columnEnd row columns) \<and>
      (\<forall>k\<in>set ordered'.
         filter (\<lambda>h. b_x k = b_x h) ordered' =
           filter (\<lambda>h. b_x k = b_x h)
             (horizontalOverlaps ev (borders st) columnStart columnEnd row columns))"
  then have "sort_key b_x (horizontalOverlaps ev (borders st) columnStart columnEnd row columns) =
               ordered'"
    by (intro properties_for_sort_key) simp_all
  with h show "drawScreenHorizontalLine ev columnStart columnEnd row border' columns st =
          Inr (st\<lparr>sheetLines := sheetLines st @
                 map (horizontalPrimitive sh row border')
                   (case fold (\<lambda>overlap (lines, current).
                                 ext_divideLine ev lines current columnStart columnEnd
                                   (b_x overlap) (width overlap))
                           (rev ordered') ([], None) of
                      (lines, None) \<Rightarrow> lines @ [(columnStart, columnEnd)]
                    | (lines, Some current) \<Rightarrow>
                        if current < columnEnd then lines @ [(current, columnEnd)] else lines)\<rparr>)"
    by (simp add: drawScreenHorizontalLine_emits [OF assms] horizontalLines_def overlapLoop_fold
          remainder_def)
qed

theorem resolve_screen_line_witness:
  "getById (gridEnv (Finite 1) exampleBounds)
     (sheetId ((initial ''s'')\<lparr>borders := Some exampleCrossings\<rparr>)) = Some gridSheet \<and>
   Option.bind (borders ((initial ''s'')\<lparr>borders := Some exampleCrossings\<rparr>)) b_vertical \<noteq> None \<and>
   verticalOverlaps (gridEnv (Finite 1) exampleBounds) (Some exampleCrossings) 0 10 3
       (Some exampleRows) =
     [\<lparr>color = (0, 0, 0, 255), line = Line ''line1'', b_x = 3, b_y = 7, height = 1\<rparr>,
      \<lparr>color = (0, 0, 0, 255), line = Line ''line1'', b_x = 3, b_y = 2, height = 1\<rparr>,
      \<lparr>color = (0, 0, 0, 255), line = Line ''line1'', b_x = 0, b_y = 4, height = 1\<rparr>] \<and>
   sorted (map b_y
     [\<lparr>color = (0, 0, 0, 255), line = Line ''line1'', b_x = 3, b_y = 2, height = 1\<rparr>,
      \<lparr>color = (0, 0, 0, 255), line = Line ''line1'', b_x = 0, b_y = 4, height = 1\<rparr>,
      \<lparr>color = (0, 0, 0, 255), line = Line ''line1'', b_x = 3, b_y = 7, height = 1\<rparr>]) \<and>
   drawScreenVerticalLine (gridEnv (Finite 1) exampleBounds) 0 10 3 (solid 5) (Some exampleRows)
       ((initial ''s'')\<lparr>borders := Some exampleCrossings\<rparr>) =
     Inr ((initial ''s'')\<lparr>borders := Some exampleCrossings,
            sheetLines :=
              [\<lparr>position = \<lparr>rect_x = 300, rect_y = 0, rect_width = 0, rect_height = 140\<rparr>,
                orientation = Vertical, style = styleOf (solid 5)\<rparr>,
               \<lparr>position = \<lparr>rect_x = 300, rect_y = 160, rect_width = 0, rect_height = 40\<rparr>,
                orientation = Vertical, style = styleOf (solid 5)\<rparr>]\<rparr>) \<and>
   drawScreenVerticalLine (gridEnv (Finite 1) exampleBounds) 0 8 3 (solid 5) (Some exampleRows)
       ((initial ''s'')\<lparr>borders := Some exampleCrossings\<rparr>) =
     Inr ((initial ''s'')\<lparr>borders := Some exampleCrossings,
            sheetLines :=
              [\<lparr>position = \<lparr>rect_x = 300, rect_y = 0, rect_width = 0, rect_height = 140\<rparr>,
                orientation = Vertical, style = styleOf (solid 5)\<rparr>]\<rparr>) \<and>
   verticalOverlaps (gridEnv (Finite 1) exampleBounds) (Some exampleCrossings) 0 10 5 None = [] \<and>
   drawScreenVerticalLine (gridEnv (Finite 1) exampleBounds) 0 10 5 (solid 5) None
       ((initial ''s'')\<lparr>borders := Some exampleCrossings\<rparr>) =
     Inr ((initial ''s'')\<lparr>borders := Some exampleCrossings,
            sheetLines :=
              [\<lparr>position = \<lparr>rect_x = 500, rect_y = 0, rect_width = 0, rect_height = 200\<rparr>,
                orientation = Vertical, style = styleOf (solid 5)\<rparr>]\<rparr>) \<and>
   Option.bind (borders ((initial ''s'')\<lparr>borders := Some exampleCrossings\<rparr>)) b_horizontal \<noteq> None \<and>
   horizontalOverlaps (gridEnv (Finite 1) exampleBounds) (Some exampleCrossings) 0 10 3
       (Some exampleTops) =
     [\<lparr>color = (0, 0, 0, 255), line = Line ''line1'', b_x = 6, b_y = 3, width = 2\<rparr>,
      \<lparr>color = (0, 0, 0, 255), line = Line ''line1'', b_x = 1, b_y = 3, width = 1\<rparr>,
      \<lparr>color = (0, 0, 0, 255), line = Line ''line1'', b_x = 4, b_y = 0, width = 1\<rparr>] \<and>
   sorted (map b_x
     [\<lparr>color = (0, 0, 0, 255), line = Line ''line1'', b_x = 1, b_y = 3, width = 1\<rparr>,
      \<lparr>color = (0, 0, 0, 255), line = Line ''line1'', b_x = 4, b_y = 0, width = 1\<rparr>,
      \<lparr>color = (0, 0, 0, 255), line = Line ''line1'', b_x = 6, b_y = 3, width = 2\<rparr>]) \<and>
   drawScreenHorizontalLine (gridEnv (Finite 1) exampleBounds) 0 10 3 (solid 5) (Some exampleTops)
       ((initial ''s'')\<lparr>borders := Some exampleCrossings\<rparr>) =
     Inr ((initial ''s'')\<lparr>borders := Some exampleCrossings,
            sheetLines :=
              [\<lparr>position = \<lparr>rect_x = 0, rect_y = 60, rect_width = 600, rect_height = 0\<rparr>,
                orientation = Horizontal, style = styleOf (solid 5)\<rparr>,
               \<lparr>position = \<lparr>rect_x = 800, rect_y = 60, rect_width = 200, rect_height = 0\<rparr>,
                orientation = Horizontal, style = styleOf (solid 5)\<rparr>]\<rparr>)"
proof -
  let ?ev = "gridEnv (Finite 1) exampleBounds"
  let ?st = "(initial ''s'')\<lparr>borders := Some exampleCrossings\<rparr>"
  let ?v7 = "\<lparr>color = (0, 0, 0, 255), line = Line ''line1'', b_x = 3, b_y = 7, height = 1\<rparr>"
  let ?v2 = "\<lparr>color = (0, 0, 0, 255), line = Line ''line1'', b_x = 3, b_y = 2, height = 1\<rparr>"
  let ?r4 = "\<lparr>color = (0, 0, 0, 255), line = Line ''line1'', b_x = 0, b_y = 4, height = 1\<rparr>"
  let ?h6 = "\<lparr>color = (0, 0, 0, 255), line = Line ''line1'', b_x = 6, b_y = 3, width = 2\<rparr>"
  let ?h1 = "\<lparr>color = (0, 0, 0, 255), line = Line ''line1'', b_x = 1, b_y = 3, width = 1\<rparr>"
  let ?c4 = "\<lparr>color = (0, 0, 0, 255), line = Line ''line1'', b_x = 4, b_y = 0, width = 1\<rparr>"
  have sh: "getById ?ev (sheetId ?st) = Some gridSheet"
    by (simp add: gridEnv_def initial_def)
  have bv: "Option.bind (borders ?st) b_vertical \<noteq> None"
    and bh: "Option.bind (borders ?st) b_horizontal \<noteq> None"
    by (simp_all add: exampleCrossings_def)
  have ov: "verticalOverlaps ?ev (Some exampleCrossings) 0 10 3 (Some exampleRows) = [?v7, ?v2, ?r4]"
    by code_simp
  have oh: "horizontalOverlaps ?ev (Some exampleCrossings) 0 10 3 (Some exampleTops) = [?h6, ?h1, ?c4]"
    by code_simp
  have dl: "ext_divideLine ?ev = divideLine"
    by (simp add: gridEnv_def)
  have v: "drawScreenVerticalLine ?ev 0 10 3 (solid 5) (Some exampleRows) ?st =
     Inr ((initial ''s'')\<lparr>borders := Some exampleCrossings,
            sheetLines :=
              [\<lparr>position = \<lparr>rect_x = 300, rect_y = 0, rect_width = 0, rect_height = 140\<rparr>,
                orientation = Vertical, style = styleOf (solid 5)\<rparr>,
               \<lparr>position = \<lparr>rect_x = 300, rect_y = 160, rect_width = 0, rect_height = 40\<rparr>,
                orientation = Vertical, style = styleOf (solid 5)\<rparr>]\<rparr>)"
    using resolve_screen_line [OF sh, where ordered = "[?v2, ?r4, ?v7]" and rowStart = 0
        and rowEnd = 10 and column = 3 and rows = "Some exampleRows" and border = "solid 5"]
    by (simp add: ov dl divideLine_def verticalPrimitive_def gridSheet_def initial_def)
  have ov8: "verticalOverlaps ?ev (Some exampleCrossings) 0 8 3 (Some exampleRows) = [?v7, ?v2, ?r4]"
    by code_simp
  have v8: "drawScreenVerticalLine ?ev 0 8 3 (solid 5) (Some exampleRows) ?st =
     Inr ((initial ''s'')\<lparr>borders := Some exampleCrossings,
            sheetLines :=
              [\<lparr>position = \<lparr>rect_x = 300, rect_y = 0, rect_width = 0, rect_height = 140\<rparr>,
                orientation = Vertical, style = styleOf (solid 5)\<rparr>]\<rparr>)"
    using resolve_screen_line [OF sh, where ordered = "[?v2, ?r4, ?v7]" and rowStart = 0
        and rowEnd = 8 and column = 3 and rows = "Some exampleRows" and border = "solid 5"]
    by (simp add: ov8 dl divideLine_def verticalPrimitive_def gridSheet_def initial_def)
  have ov5: "verticalOverlaps ?ev (Some exampleCrossings) 0 10 5 None = []"
    by code_simp
  have v5: "drawScreenVerticalLine ?ev 0 10 5 (solid 5) None ?st =
     Inr ((initial ''s'')\<lparr>borders := Some exampleCrossings,
            sheetLines :=
              [\<lparr>position = \<lparr>rect_x = 500, rect_y = 0, rect_width = 0, rect_height = 200\<rparr>,
                orientation = Vertical, style = styleOf (solid 5)\<rparr>]\<rparr>)"
    using resolve_screen_line [OF sh, where ordered = "[]" and rowStart = 0
        and rowEnd = 10 and column = 5 and rows = None and border = "solid 5"] bv
    by (simp add: ov5 verticalPrimitive_def gridSheet_def initial_def)
  have h: "drawScreenHorizontalLine ?ev 0 10 3 (solid 5) (Some exampleTops) ?st =
     Inr ((initial ''s'')\<lparr>borders := Some exampleCrossings,
            sheetLines :=
              [\<lparr>position = \<lparr>rect_x = 0, rect_y = 60, rect_width = 600, rect_height = 0\<rparr>,
                orientation = Horizontal, style = styleOf (solid 5)\<rparr>,
               \<lparr>position = \<lparr>rect_x = 800, rect_y = 60, rect_width = 200, rect_height = 0\<rparr>,
                orientation = Horizontal, style = styleOf (solid 5)\<rparr>]\<rparr>)"
    using resolve_screen_line [OF sh, where ordered' = "[?h1, ?c4, ?h6]" and columnStart = 0
        and columnEnd = 10 and row = 3 and columns = "Some exampleTops" and border' = "solid 5"]
    by (simp add: oh dl divideLine_def horizontalPrimitive_def gridSheet_def initial_def)
  from sh bv ov v v8 ov5 v5 bh oh h show ?thesis by simp
qed


text \<open>
  C2. The coverage property cannot hold for a line whatever its timestamp, with any
  \<^verbatim>\<open>divideLine\<close> and any finder: the segments of a vertical line over the rows 0 to 9, with
  the row override at 4 whose right edge has timestamp 1, are the same for a line of
  timestamp 0 and for one of timestamp 5, while the property asks the first to leave row 4
  out and the second to cover it.
\<close>

theorem coverage_ignores_timestamps:
  "\<not> (fullCoverage ev (Some noBorders) 0 10 3 (Some exampleRows) 0 \<and>
      fullCoverage ev (Some noBorders) 0 10 3 (Some exampleRows) 5)"
proof
  assume both: "fullCoverage ev (Some noBorders) 0 10 3 (Some exampleRows) 0 \<and>
                fullCoverage ev (Some noBorders) 0 10 3 (Some exampleRows) 5"
  define drawn where "drawn = covered (verticalLines ev (Some noBorders) 0 10 3 (Some exampleRows))"
  from both have earlier: "drawn \<inter> {4} = {}" and later: "drawn \<union> {} = {0..<10}"
    unfolding fullCoverage_def laterRows_example drawn_def by blast+
  from later have "(4::int) \<in> drawn" by simp
  with earlier show False by blast
qed

text \<open>
  C3. Column 5 with a right edge and column 6 with a left edge of the same timestamp: each
  of the two edges is skipped for the other, and \<^verbatim>\<open>drawSheetBorders\<close> leaves both
  containers empty, in every environment. The same for row 5 with a bottom edge and row 6
  with a top edge of the same timestamp.
\<close>

theorem tie_draws_neither_edge:
  "drawSheetBorders ev (st\<lparr>borders := Some tieColumns\<rparr>) =
     Inr (st\<lparr>borders := Some tieColumns, cellLines := [], sheetLines := [], viewport_dirty := True\<rparr>) \<and>
   drawSheetBorders ev (st\<lparr>borders := Some tieRows\<rparr>) =
     Inr (st\<lparr>borders := Some tieRows, cellLines := [], sheetLines := [], viewport_dirty := True\<rparr>)"
  by (simp add: drawSheetBorders_def drawAll_def drawHorizontal_def drawVertical_def tieColumns_def
        tieRows_def noBorders_def Let_def drawColumn_def columnLeft_def columnRight_def
        columnTop_def columnBottom_def drawRow_def rowTop_def rowBottom_def rowLeft_def
        rowRight_def neighbour_def noEdges_def solid_def)

text \<open>
  C4, as stated, fails in each part. The left edge of column 6 (timestamp 1) is drawn when
  it stands alone, and is not drawn when column 5 has a clear right edge of timestamp 2: a
  clear neighbour suppresses. A clear top edge of the sheet-wide default is handed to
  \<^verbatim>\<open>drawCellBorder\<close> like any other: a clear declaration is drawn. And the left edge of
  column 6 is cut at the rows 2 to 4 by a clear explicit vertical segment on its line, and
  at row 4 by the clear left edge of a row override (with the finder as the spec describes
  it): a clear declaration is an obstruction.
\<close>

theorem clear_neighbour_suppresses:
  "drawSheetBorders (gridEnv (Finite 1) exampleBounds) ((initial ''s'')\<lparr>borders := Some loneColumn\<rparr>) =
     Inr ((initial ''s'')\<lparr>borders := Some loneColumn, viewport_dirty := True,
            sheetLines :=
              [\<lparr>position = \<lparr>rect_x = 600, rect_y = 0, rect_width = 0, rect_height = 220\<rparr>,
                orientation = Vertical, style = styleOf (solid 1)\<rparr>]\<rparr>) \<and>
   drawSheetBorders (gridEnv (Finite 1) exampleBounds)
       ((initial ''s'')\<lparr>borders := Some clearNeighbour\<rparr>) =
     Inr ((initial ''s'')\<lparr>borders := Some clearNeighbour, viewport_dirty := True\<rparr>) \<and>
   drawSheetBorders (gridEnv (Finite 1) unitBounds) ((initial ''s'')\<lparr>borders := Some clearAll\<rparr>) =
     Inr ((initial ''s'')\<lparr>borders := Some clearAll, viewport_dirty := True,
            sheetLines :=
              [\<lparr>position = \<lparr>rect_x = 0, rect_y = 0, rect_width = 100, rect_height = 0\<rparr>,
                orientation = Horizontal, style = styleOf (cleared 1)\<rparr>]\<rparr>) \<and>
   drawSheetBorders (gridEnv (Finite 1) exampleBounds)
       ((initial ''s'')\<lparr>borders := Some clearSegment\<rparr>) =
     Inr ((initial ''s'')\<lparr>borders := Some clearSegment, viewport_dirty := True,
            sheetLines :=
              [\<lparr>position = \<lparr>rect_x = 600, rect_y = 0, rect_width = 0, rect_height = 40\<rparr>,
                orientation = Vertical, style = styleOf (solid 1)\<rparr>,
               \<lparr>position = \<lparr>rect_x = 600, rect_y = 100, rect_width = 0, rect_height = 120\<rparr>,
                orientation = Vertical, style = styleOf (solid 1)\<rparr>]\<rparr>) \<and>
   drawSheetBorders (gridEnv (Finite 1) exampleBounds)
       ((initial ''s'')\<lparr>borders := Some clearCrossing\<rparr>) =
     Inr ((initial ''s'')\<lparr>borders := Some clearCrossing, viewport_dirty := True,
            sheetLines :=
              [\<lparr>position = \<lparr>rect_x = 600, rect_y = 0, rect_width = 0, rect_height = 80\<rparr>,
                orientation = Vertical, style = styleOf (solid 1)\<rparr>,
               \<lparr>position = \<lparr>rect_x = 600, rect_y = 100, rect_width = 0, rect_height = 120\<rparr>,
                orientation = Vertical, style = styleOf (solid 1)\<rparr>]\<rparr>)"
  by code_simp

text \<open>
  C4, amended. In the explicit-segment tier, the column tier and the row tier a declaration
  of kind clear is never drawn: each of the eight blocks of the two tiers does nothing for a
  clear edge, and each loop over the explicit segments does what it does on the segments
  that are not clear. The comparison with the facing edge of the neighbouring column or row
  reads only whether that edge is present and its timestamp, never its line kind: a block
  does the same for any two override maps in which the facing edge is present or absent
  alike and has the same timestamp; an edge is skipped when the facing edge has a strictly
  later timestamp, and an edge that is not clear is handed to the line function when there
  is no facing edge or the facing edge has a strictly earlier timestamp. The line kinds of
  the explicit segments are not read when a line is resolved: with any other kinds, clear
  among them, on the explicit segments of its axis a line function emits the same.
\<close>

theorem clear_in_tiers:
  "(line e = Clear \<longrightarrow>
      columnLeft ev b cols rowStart rowEnd xNumber (column\<lparr>left_edge := Some e\<rparr>) st = Inr st \<and>
      columnRight ev b cols rowStart rowEnd xNumber (column\<lparr>right_edge := Some e\<rparr>) st = Inr st \<and>
      columnTop ev rowStart rowEnd xNumber (column\<lparr>top_edge := Some e\<rparr>) st = Inr st \<and>
      columnBottom ev rowStart rowEnd xNumber (column\<lparr>bottom_edge := Some e\<rparr>) st = Inr st \<and>
      rowTop ev b rws columnStart columnEnd yNumber (row\<lparr>top_edge := Some e\<rparr>) st = Inr st \<and>
      rowBottom ev b rws columnStart columnEnd yNumber (row\<lparr>bottom_edge := Some e\<rparr>) st = Inr st \<and>
      rowLeft ev columnStart columnEnd yNumber (row\<lparr>left_edge := Some e\<rparr>) st = Inr st \<and>
      rowRight ev columnStart columnEnd yNumber (row\<lparr>right_edge := Some e\<rparr>) st = Inr st) \<and>
   (Option.bind (borders st) b_horizontal = Some hs \<longrightarrow>
      drawHorizontal ev st = forEachE (horizontalBorder ev) (filter (\<lambda>h. line h \<noteq> Clear) hs) st) \<and>
   (Option.bind (borders st) b_vertical = Some vs \<longrightarrow>
      drawVertical ev st = forEachE (verticalBorder ev) (filter (\<lambda>v. line v \<noteq> Clear) vs) st) \<and>
   (map_option timestamp (neighbour cols (xNumber - 1) right_edge) =
      map_option timestamp (neighbour cols' (xNumber - 1) right_edge) \<longrightarrow>
      columnLeft ev b cols rowStart rowEnd xNumber column st =
        columnLeft ev b cols' rowStart rowEnd xNumber column st) \<and>
   (map_option timestamp (neighbour cols (xNumber + 1) left_edge) =
      map_option timestamp (neighbour cols' (xNumber + 1) left_edge) \<longrightarrow>
      columnRight ev b cols rowStart rowEnd xNumber column st =
        columnRight ev b cols' rowStart rowEnd xNumber column st) \<and>
   (map_option timestamp (neighbour rws (yNumber - 1) bottom_edge) =
      map_option timestamp (neighbour rws' (yNumber - 1) bottom_edge) \<longrightarrow>
      rowTop ev b rws columnStart columnEnd yNumber row st =
        rowTop ev b rws' columnStart columnEnd yNumber row st) \<and>
   (map_option timestamp (neighbour rws (yNumber + 1) top_edge) =
      map_option timestamp (neighbour rws' (yNumber + 1) top_edge) \<longrightarrow>
      rowBottom ev b rws columnStart columnEnd yNumber row st =
        rowBottom ev b rws' columnStart columnEnd yNumber row st) \<and>
   (left_edge column = Some own \<and> neighbour cols (xNumber - 1) right_edge = Some other \<and>
    timestamp own < timestamp other \<longrightarrow>
      columnLeft ev b cols rowStart rowEnd xNumber column st = Inr st) \<and>
   (right_edge column = Some own \<and> neighbour cols (xNumber + 1) left_edge = Some other \<and>
    timestamp own < timestamp other \<longrightarrow>
      columnRight ev b cols rowStart rowEnd xNumber column st = Inr st) \<and>
   (top_edge row = Some own \<and> neighbour rws (yNumber - 1) bottom_edge = Some other \<and>
    timestamp own < timestamp other \<longrightarrow>
      rowTop ev b rws columnStart columnEnd yNumber row st = Inr st) \<and>
   (bottom_edge row = Some own \<and> neighbour rws (yNumber + 1) top_edge = Some other \<and>
    timestamp own < timestamp other \<longrightarrow>
      rowBottom ev b rws columnStart columnEnd yNumber row st = Inr st) \<and>
   (left_edge column = Some own \<and> line own \<noteq> Clear \<and>
    (neighbour cols (xNumber - 1) right_edge = None \<or>
     (\<exists>other. neighbour cols (xNumber - 1) right_edge = Some other \<and>
              timestamp other < timestamp own)) \<longrightarrow>
      columnLeft ev b cols rowStart rowEnd xNumber column st =
        drawScreenVerticalLine ev rowStart (rowEnd + 1) xNumber own (b_rows b) st) \<and>
   (right_edge column = Some own \<and> line own \<noteq> Clear \<and>
    (neighbour cols (xNumber + 1) left_edge = None \<or>
     (\<exists>other. neighbour cols (xNumber + 1) left_edge = Some other \<and>
              timestamp other < timestamp own)) \<longrightarrow>
      columnRight ev b cols rowStart rowEnd xNumber column st =
        drawScreenVerticalLine ev rowStart (rowEnd + 1) (xNumber + 1) own (b_rows b) st) \<and>
   (top_edge row = Some own \<and> line own \<noteq> Clear \<and>
    (neighbour rws (yNumber - 1) bottom_edge = None \<or>
     (\<exists>other. neighbour rws (yNumber - 1) bottom_edge = Some other \<and>
              timestamp other < timestamp own)) \<longrightarrow>
      rowTop ev b rws columnStart columnEnd yNumber row st =
        drawScreenHorizontalLine ev columnStart (columnEnd + 1) yNumber own (b_columns b) st) \<and>
   (bottom_edge row = Some own \<and> line own \<noteq> Clear \<and>
    (neighbour rws (yNumber + 1) top_edge = None \<or>
     (\<exists>other. neighbour rws (yNumber + 1) top_edge = Some other \<and>
              timestamp other < timestamp own)) \<longrightarrow>
      rowBottom ev b rws columnStart columnEnd yNumber row st =
        drawScreenHorizontalLine ev columnStart (columnEnd + 1) (yNumber + 1) own (b_columns b) st) \<and>
   map_sum id sheetLines
     (drawScreenVerticalLine ev rowStart rowEnd xNumber own rows
        (st\<lparr>borders := Some (b\<lparr>b_vertical := Some (map (\<lambda>v. v\<lparr>line := kind v\<rparr>) vs')\<rparr>)\<rparr>)) =
   map_sum id sheetLines
     (drawScreenVerticalLine ev rowStart rowEnd xNumber own rows
        (st\<lparr>borders := Some (b\<lparr>b_vertical := Some vs'\<rparr>)\<rparr>)) \<and>
   map_sum id sheetLines
     (drawScreenHorizontalLine ev columnStart columnEnd yNumber own columns
        (st\<lparr>borders := Some (b\<lparr>b_horizontal := Some (map (\<lambda>h. h\<lparr>line := kind' h\<rparr>) hs')\<rparr>)\<rparr>)) =
   map_sum id sheetLines
     (drawScreenHorizontalLine ev columnStart columnEnd yNumber own columns
        (st\<lparr>borders := Some (b\<lparr>b_horizontal := Some hs'\<rparr>)\<rparr>))"
proof -
  have own_clear: "line e = Clear \<longrightarrow>
      columnLeft ev b cols rowStart rowEnd xNumber (column\<lparr>left_edge := Some e\<rparr>) st = Inr st \<and>
      columnRight ev b cols rowStart rowEnd xNumber (column\<lparr>right_edge := Some e\<rparr>) st = Inr st \<and>
      columnTop ev rowStart rowEnd xNumber (column\<lparr>top_edge := Some e\<rparr>) st = Inr st \<and>
      columnBottom ev rowStart rowEnd xNumber (column\<lparr>bottom_edge := Some e\<rparr>) st = Inr st \<and>
      rowTop ev b rws columnStart columnEnd yNumber (row\<lparr>top_edge := Some e\<rparr>) st = Inr st \<and>
      rowBottom ev b rws columnStart columnEnd yNumber (row\<lparr>bottom_edge := Some e\<rparr>) st = Inr st \<and>
      rowLeft ev columnStart columnEnd yNumber (row\<lparr>left_edge := Some e\<rparr>) st = Inr st \<and>
      rowRight ev columnStart columnEnd yNumber (row\<lparr>right_edge := Some e\<rparr>) st = Inr st"
    by (simp add: columnLeft_def columnRight_def columnTop_def columnBottom_def
          rowTop_def rowBottom_def rowLeft_def rowRight_def)
  have segments:
    "Option.bind (borders st) b_horizontal = Some hs \<longrightarrow>
       drawHorizontal ev st = forEachE (horizontalBorder ev) (filter (\<lambda>h. line h \<noteq> Clear) hs) st"
    "Option.bind (borders st) b_vertical = Some vs \<longrightarrow>
       drawVertical ev st = forEachE (verticalBorder ev) (filter (\<lambda>v. line v \<noteq> Clear) vs) st"
    using forEachE_horizontalBorder_clear [of ev hs st] forEachE_verticalBorder_clear [of ev vs st]
    by (simp_all add: drawHorizontal_def drawVertical_def)
  have reads:
    "map_option timestamp (neighbour cols (xNumber - 1) right_edge) =
       map_option timestamp (neighbour cols' (xNumber - 1) right_edge) \<longrightarrow>
       columnLeft ev b cols rowStart rowEnd xNumber column st =
         columnLeft ev b cols' rowStart rowEnd xNumber column st"
    "map_option timestamp (neighbour cols (xNumber + 1) left_edge) =
       map_option timestamp (neighbour cols' (xNumber + 1) left_edge) \<longrightarrow>
       columnRight ev b cols rowStart rowEnd xNumber column st =
         columnRight ev b cols' rowStart rowEnd xNumber column st"
    "map_option timestamp (neighbour rws (yNumber - 1) bottom_edge) =
       map_option timestamp (neighbour rws' (yNumber - 1) bottom_edge) \<longrightarrow>
       rowTop ev b rws columnStart columnEnd yNumber row st =
         rowTop ev b rws' columnStart columnEnd yNumber row st"
    "map_option timestamp (neighbour rws (yNumber + 1) top_edge) =
       map_option timestamp (neighbour rws' (yNumber + 1) top_edge) \<longrightarrow>
       rowBottom ev b rws columnStart columnEnd yNumber row st =
         rowBottom ev b rws' columnStart columnEnd yNumber row st"
    by (auto simp: columnLeft_def columnRight_def rowTop_def rowBottom_def split: option.splits)
  have later:
    "left_edge column = Some own \<and> neighbour cols (xNumber - 1) right_edge = Some other \<and>
     timestamp own < timestamp other \<longrightarrow>
       columnLeft ev b cols rowStart rowEnd xNumber column st = Inr st"
    "right_edge column = Some own \<and> neighbour cols (xNumber + 1) left_edge = Some other \<and>
     timestamp own < timestamp other \<longrightarrow>
       columnRight ev b cols rowStart rowEnd xNumber column st = Inr st"
    "top_edge row = Some own \<and> neighbour rws (yNumber - 1) bottom_edge = Some other \<and>
     timestamp own < timestamp other \<longrightarrow>
       rowTop ev b rws columnStart columnEnd yNumber row st = Inr st"
    "bottom_edge row = Some own \<and> neighbour rws (yNumber + 1) top_edge = Some other \<and>
     timestamp own < timestamp other \<longrightarrow>
       rowBottom ev b rws columnStart columnEnd yNumber row st = Inr st"
    by (simp_all add: columnLeft_def columnRight_def rowTop_def rowBottom_def)
  have earlier:
    "left_edge column = Some own \<and> line own \<noteq> Clear \<and>
     (neighbour cols (xNumber - 1) right_edge = None \<or>
      (\<exists>other. neighbour cols (xNumber - 1) right_edge = Some other \<and>
               timestamp other < timestamp own)) \<longrightarrow>
       columnLeft ev b cols rowStart rowEnd xNumber column st =
         drawScreenVerticalLine ev rowStart (rowEnd + 1) xNumber own (b_rows b) st"
    "right_edge column = Some own \<and> line own \<noteq> Clear \<and>
     (neighbour cols (xNumber + 1) left_edge = None \<or>
      (\<exists>other. neighbour cols (xNumber + 1) left_edge = Some other \<and>
               timestamp other < timestamp own)) \<longrightarrow>
       columnRight ev b cols rowStart rowEnd xNumber column st =
         drawScreenVerticalLine ev rowStart (rowEnd + 1) (xNumber + 1) own (b_rows b) st"
    "top_edge row = Some own \<and> line own \<noteq> Clear \<and>
     (neighbour rws (yNumber - 1) bottom_edge = None \<or>
      (\<exists>other. neighbour rws (yNumber - 1) bottom_edge = Some other \<and>
               timestamp other < timestamp own)) \<longrightarrow>
       rowTop ev b rws columnStart columnEnd yNumber row st =
         drawScreenHorizontalLine ev columnStart (columnEnd + 1) yNumber own (b_columns b) st"
    "bottom_edge row = Some own \<and> line own \<noteq> Clear \<and>
     (neighbour rws (yNumber + 1) top_edge = None \<or>
      (\<exists>other. neighbour rws (yNumber + 1) top_edge = Some other \<and>
               timestamp other < timestamp own)) \<longrightarrow>
       rowBottom ev b rws columnStart columnEnd yNumber row st =
         drawScreenHorizontalLine ev columnStart (columnEnd + 1) (yNumber + 1) own (b_columns b) st"
    by (auto simp: columnLeft_def columnRight_def rowTop_def rowBottom_def)
  note kinds =
    drawScreenVerticalLine_kinds [where ev = ev and rowStart = rowStart and rowEnd = rowEnd
      and column = xNumber and border = own and rows = rows and st = st and b = b and k = kind
      and vs = vs']
    drawScreenHorizontalLine_kinds [where ev = ev and columnStart = columnStart
      and columnEnd = columnEnd and row = yNumber and border = own and columns = columns
      and st = st and b = b and k = kind' and hs = hs']
  from own_clear segments reads later earlier kinds show ?thesis
    by (intro conjI)
qed

theorem clear_in_tiers_witness:
  "line (cleared 3) = Clear \<and>
   columnLeft (gridEnv (Finite 1) exampleBounds) noBorders [] 0 10 6
       (noEdges\<lparr>left_edge := Some (cleared 3)\<rparr>) (initial ''s'') = Inr (initial ''s'') \<and>
   rowRight (gridEnv (Finite 1) exampleBounds) 0 10 6 (noEdges\<lparr>right_edge := Some (cleared 3)\<rparr>)
       (initial ''s'') = Inr (initial ''s'') \<and>
   Option.bind (borders ((initial ''s'')\<lparr>borders := Some clearSegment\<rparr>)) b_vertical =
     Some [\<lparr>color = (0, 0, 0, 255), line = Clear, b_x = 6, b_y = 2, height = 3\<rparr>] \<and>
   drawVertical (gridEnv (Finite 1) exampleBounds) ((initial ''s'')\<lparr>borders := Some clearSegment\<rparr>) =
     Inr ((initial ''s'')\<lparr>borders := Some clearSegment\<rparr>) \<and>
   map_option timestamp (neighbour [(5, noEdges\<lparr>right_edge := Some (cleared 0)\<rparr>)] (6 - 1) right_edge) =
     map_option timestamp (neighbour [(5, noEdges\<lparr>right_edge := Some (solid 0)\<rparr>)] (6 - 1) right_edge) \<and>
   columnLeft (gridEnv (Finite 1) exampleBounds) noBorders
       [(5, noEdges\<lparr>right_edge := Some (cleared 0)\<rparr>)] 0 10 6
       (noEdges\<lparr>left_edge := Some (solid 1)\<rparr>) (initial ''s'') =
     columnLeft (gridEnv (Finite 1) exampleBounds) noBorders
       [(5, noEdges\<lparr>right_edge := Some (solid 0)\<rparr>)] 0 10 6
       (noEdges\<lparr>left_edge := Some (solid 1)\<rparr>) (initial ''s'') \<and>
   neighbour [(5, noEdges\<lparr>right_edge := Some (cleared 2)\<rparr>)] (6 - 1) right_edge = Some (cleared 2) \<and>
   timestamp (solid 1) < timestamp (cleared 2) \<and>
   columnLeft (gridEnv (Finite 1) exampleBounds) noBorders
       [(5, noEdges\<lparr>right_edge := Some (cleared 2)\<rparr>)] 0 10 6
       (noEdges\<lparr>left_edge := Some (solid 1)\<rparr>) (initial ''s'') = Inr (initial ''s'') \<and>
   neighbour [(7, noEdges\<lparr>top_edge := Some (cleared 2)\<rparr>)] (6 + 1) top_edge = Some (cleared 2) \<and>
   rowBottom (gridEnv (Finite 1) exampleBounds) noBorders
       [(7, noEdges\<lparr>top_edge := Some (cleared 2)\<rparr>)] 0 10 6
       (noEdges\<lparr>bottom_edge := Some (solid 1)\<rparr>) (initial ''s'') = Inr (initial ''s'') \<and>
   line (solid 1) \<noteq> Clear \<and>
   neighbour [(5, noEdges\<lparr>right_edge := Some (cleared 0)\<rparr>)] (6 - 1) right_edge = Some (cleared 0) \<and>
   timestamp (cleared 0) < timestamp (solid 1) \<and>
   columnLeft (gridEnv (Finite 1) exampleBounds) noBorders
       [(5, noEdges\<lparr>right_edge := Some (cleared 0)\<rparr>)] 0 10 6
       (noEdges\<lparr>left_edge := Some (solid 1)\<rparr>) (initial ''s'') =
     Inr ((initial ''s'')\<lparr>sheetLines :=
            [\<lparr>position = \<lparr>rect_x = 600, rect_y = 0, rect_width = 0, rect_height = 220\<rparr>,
              orientation = Vertical, style = styleOf (solid 1)\<rparr>]\<rparr>) \<and>
   map_sum id sheetLines
       (drawScreenVerticalLine (gridEnv (Finite 1) exampleBounds) 0 11 6 (solid 1) None
          ((initial ''s'')\<lparr>borders := Some clearSegment\<rparr>)) =
     Inr [\<lparr>position = \<lparr>rect_x = 600, rect_y = 0, rect_width = 0, rect_height = 40\<rparr>,
           orientation = Vertical, style = styleOf (solid 1)\<rparr>,
          \<lparr>position = \<lparr>rect_x = 600, rect_y = 100, rect_width = 0, rect_height = 120\<rparr>,
           orientation = Vertical, style = styleOf (solid 1)\<rparr>]"
proof -
  let ?ev = "gridEnv (Finite 1) exampleBounds"
  let ?st = "initial ''s''"
  let ?own = "noEdges\<lparr>left_edge := Some (solid 1)\<rparr>"
  let ?seg = "\<lparr>color = (0, 0, 0, 255), line = Line ''line1'', b_x = 6, b_y = 2, height = 3\<rparr>"
  have c: "line (cleared 3) = Clear" and s: "line (solid 1) \<noteq> Clear"
    by (simp_all add: cleared_def solid_def)
  have n0: "neighbour [(5, noEdges\<lparr>right_edge := Some (cleared 0)\<rparr>)] (6 - 1) right_edge =
              Some (cleared 0)"
    and n0': "neighbour [(5, noEdges\<lparr>right_edge := Some (solid 0)\<rparr>)] (6 - 1) right_edge =
              Some (solid 0)"
    and n1: "neighbour [(5, noEdges\<lparr>right_edge := Some (cleared 2)\<rparr>)] (6 - 1) right_edge =
              Some (cleared 2)"
    and n2: "neighbour [(7, noEdges\<lparr>top_edge := Some (cleared 2)\<rparr>)] (6 + 1) top_edge =
              Some (cleared 2)"
    by (simp_all add: neighbour_def noEdges_def)
  have t: "timestamp (solid 1) < timestamp (cleared 2)"
    and t0: "timestamp (cleared 0) < timestamp (solid 1)"
    and t00: "timestamp (cleared 0) = timestamp (solid 0)"
    by (simp_all add: solid_def cleared_def)
  have e1: "left_edge ?own = Some (solid 1)"
    and e2: "bottom_edge (noEdges\<lparr>bottom_edge := Some (solid 1)\<rparr>) = Some (solid 1)"
    by simp_all
  have bv: "Option.bind (borders (?st\<lparr>borders := Some clearSegment\<rparr>)) b_vertical =
              Some [\<lparr>color = (0, 0, 0, 255), line = Clear, b_x = 6, b_y = 2, height = 3\<rparr>]"
    by (simp add: clearSegment_def)
  have own_clear:
    "columnLeft ?ev noBorders [] 0 10 6 (noEdges\<lparr>left_edge := Some (cleared 3)\<rparr>) ?st = Inr ?st"
    "rowRight ?ev 0 10 6 (noEdges\<lparr>right_edge := Some (cleared 3)\<rparr>) ?st = Inr ?st"
    using c clear_in_tiers [where e = "cleared 3" and ev = ?ev and b = noBorders and cols = "[]"
        and rowStart = 0 and rowEnd = 10 and xNumber = 6 and column = noEdges
        and columnStart = 0 and columnEnd = 10 and yNumber = 6 and row = noEdges and st = ?st]
    by simp_all
  have segment: "drawVertical ?ev (?st\<lparr>borders := Some clearSegment\<rparr>) =
                   Inr (?st\<lparr>borders := Some clearSegment\<rparr>)"
    using bv clear_in_tiers [where ev = ?ev and st = "?st\<lparr>borders := Some clearSegment\<rparr>"
        and vs = "[\<lparr>color = (0, 0, 0, 255), line = Clear, b_x = 6, b_y = 2, height = 3\<rparr>]"]
    by simp
  have reads: "columnLeft ?ev noBorders [(5, noEdges\<lparr>right_edge := Some (cleared 0)\<rparr>)] 0 10 6
                 ?own ?st =
               columnLeft ?ev noBorders [(5, noEdges\<lparr>right_edge := Some (solid 0)\<rparr>)] 0 10 6
                 ?own ?st"
    using n0 n0' t00
      clear_in_tiers [where ev = ?ev and b = noBorders
        and cols = "[(5, noEdges\<lparr>right_edge := Some (cleared 0)\<rparr>)]"
        and cols' = "[(5, noEdges\<lparr>right_edge := Some (solid 0)\<rparr>)]"
        and rowStart = 0 and rowEnd = 10 and xNumber = 6 and column = ?own and st = ?st]
    by simp
  have later:
    "columnLeft ?ev noBorders [(5, noEdges\<lparr>right_edge := Some (cleared 2)\<rparr>)] 0 10 6 ?own ?st =
       Inr ?st"
    "rowBottom ?ev noBorders [(7, noEdges\<lparr>top_edge := Some (cleared 2)\<rparr>)] 0 10 6
       (noEdges\<lparr>bottom_edge := Some (solid 1)\<rparr>) ?st = Inr ?st"
    using n1 n2 t
      clear_in_tiers [where ev = ?ev and b = noBorders
        and cols = "[(5, noEdges\<lparr>right_edge := Some (cleared 2)\<rparr>)]"
        and rws = "[(7, noEdges\<lparr>top_edge := Some (cleared 2)\<rparr>)]"
        and rowStart = 0 and rowEnd = 10 and xNumber = 6 and column = ?own
        and columnStart = 0 and columnEnd = 10 and yNumber = 6
        and row = "noEdges\<lparr>bottom_edge := Some (solid 1)\<rparr>"
        and own = "solid 1" and other = "cleared 2" and st = ?st]
    by (simp_all add: e1 e2)
  have line: "drawScreenVerticalLine ?ev 0 (10 + 1) 6 (solid 1) (b_rows noBorders) ?st =
     Inr (?st\<lparr>sheetLines :=
            [\<lparr>position = \<lparr>rect_x = 600, rect_y = 0, rect_width = 0, rect_height = 220\<rparr>,
              orientation = Vertical, style = styleOf (solid 1)\<rparr>]\<rparr>)"
    by code_simp
  have earlier:
    "columnLeft ?ev noBorders [(5, noEdges\<lparr>right_edge := Some (cleared 0)\<rparr>)] 0 10 6 ?own ?st =
       Inr (?st\<lparr>sheetLines :=
              [\<lparr>position = \<lparr>rect_x = 600, rect_y = 0, rect_width = 0, rect_height = 220\<rparr>,
                orientation = Vertical, style = styleOf (solid 1)\<rparr>]\<rparr>)"
    using n0 t0 s e1
      clear_in_tiers [where ev = ?ev and b = noBorders
        and cols = "[(5, noEdges\<lparr>right_edge := Some (cleared 0)\<rparr>)]"
        and rowStart = 0 and rowEnd = 10 and xNumber = 6 and column = ?own
        and own = "solid 1" and st = ?st]
    unfolding line [symmetric] by simp
  have cut: "map_sum id sheetLines
       (drawScreenVerticalLine ?ev 0 11 6 (solid 1) None
          (?st\<lparr>borders := Some (loneColumn\<lparr>b_vertical := Some [?seg]\<rparr>)\<rparr>)) =
     Inr [\<lparr>position = \<lparr>rect_x = 600, rect_y = 0, rect_width = 0, rect_height = 40\<rparr>,
           orientation = Vertical, style = styleOf (solid 1)\<rparr>,
          \<lparr>position = \<lparr>rect_x = 600, rect_y = 100, rect_width = 0, rect_height = 120\<rparr>,
           orientation = Vertical, style = styleOf (solid 1)\<rparr>]"
    by code_simp
  have kinds: "map_sum id sheetLines
       (drawScreenVerticalLine ?ev 0 11 6 (solid 1) None (?st\<lparr>borders := Some clearSegment\<rparr>)) =
     Inr [\<lparr>position = \<lparr>rect_x = 600, rect_y = 0, rect_width = 0, rect_height = 40\<rparr>,
           orientation = Vertical, style = styleOf (solid 1)\<rparr>,
          \<lparr>position = \<lparr>rect_x = 600, rect_y = 100, rect_width = 0, rect_height = 120\<rparr>,
           orientation = Vertical, style = styleOf (solid 1)\<rparr>]"
    using clear_in_tiers [where ev = ?ev and rowStart = 0 and rowEnd = 11 and xNumber = 6
        and own = "solid 1" and rows = None and st = ?st and b = loneColumn
        and kind = "\<lambda>v. Clear" and vs' = "[?seg]"]
    unfolding cut by (simp add: clearSegment_def)
  have same: "map_option timestamp
                (neighbour [(5, noEdges\<lparr>right_edge := Some (cleared 0)\<rparr>)] (6 - 1) right_edge) =
              map_option timestamp
                (neighbour [(5, noEdges\<lparr>right_edge := Some (solid 0)\<rparr>)] (6 - 1) right_edge)"
    unfolding n0 n0' by (simp add: t00)
  from c own_clear bv segment same reads n1 t later n2 s n0 t0 earlier kinds show ?thesis
    by blast
qed

text \<open>
  C5. When \<^verbatim>\<open>drawSheetBorders\<close> has returned, a second call on the state it left (the
  dataset and the environment are the same) returns as well, and leaves the same children,
  in the same order, in both containers.
\<close>

theorem drawSheetBorders_idempotent:
  assumes "drawSheetBorders ev st = Inr st1"
  shows "\<exists>st2. drawSheetBorders ev st1 = Inr st2 \<and>
               sheetLines st2 = sheetLines st1 \<and> cellLines st2 = cellLines st1"
proof -
  have "frame (st\<lparr>viewport_dirty := True\<rparr>) st1"
    using drawSheetBorders_frame [of st ev] assms by simp
  then have same: "sheetId st = sheetId st1" "borders st = borders st1"
    by (simp_all add: frame_def)
  have "relE agree (drawSheetBorders ev st) (drawSheetBorders ev st1)"
    by (rule drawSheetBorders_agree [OF same])
  with assms obtain st2 where "drawSheetBorders ev st1 = Inr st2" and "agree st1 st2"
    by (cases "drawSheetBorders ev st1") simp_all
  then show ?thesis by (auto simp: agree_def)
qed

theorem drawSheetBorders_idempotent_witness:
  "drawSheetBorders (gridEnv (Finite 1) exampleBounds) ((initial ''s'')\<lparr>borders := Some exampleColumns\<rparr>) =
     Inr ((initial ''s'')\<lparr>borders := Some exampleColumns, viewport_dirty := True,
            sheetLines :=
              [\<lparr>position = \<lparr>rect_x = 600, rect_y = 0, rect_width = 0, rect_height = 220\<rparr>,
                orientation = Vertical, style = styleOf (solid 2)\<rparr>]\<rparr>) \<and>
   (\<exists>st2. drawSheetBorders (gridEnv (Finite 1) exampleBounds)
            ((initial ''s'')\<lparr>borders := Some exampleColumns, viewport_dirty := True,
              sheetLines :=
                [\<lparr>position = \<lparr>rect_x = 600, rect_y = 0, rect_width = 0, rect_height = 220\<rparr>,
                  orientation = Vertical, style = styleOf (solid 2)\<rparr>]\<rparr>) = Inr st2 \<and>
          sheetLines st2 =
            [\<lparr>position = \<lparr>rect_x = 600, rect_y = 0, rect_width = 0, rect_height = 220\<rparr>,
              orientation = Vertical, style = styleOf (solid 2)\<rparr>] \<and>
          cellLines st2 = [])"
proof -
  have run: "drawSheetBorders (gridEnv (Finite 1) exampleBounds)
               ((initial ''s'')\<lparr>borders := Some exampleColumns\<rparr>) =
     Inr ((initial ''s'')\<lparr>borders := Some exampleColumns, viewport_dirty := True,
            sheetLines :=
              [\<lparr>position = \<lparr>rect_x = 600, rect_y = 0, rect_width = 0, rect_height = 220\<rparr>,
                orientation = Vertical, style = styleOf (solid 2)\<rparr>]\<rparr>)"
    by code_simp
  show ?thesis
    using drawSheetBorders_idempotent [OF run] run by (simp add: initial_def)
qed

text \<open>
  C6. A redraw in \<^verbatim>\<open>update\<close> (the renderer or the viewport is dirty), with the scale, the
  constants and the alpha as binary64 numbers and the comparisons, the sum, the difference
  and the quotient of the code. Below the threshold the call returns with \<^verbatim>\<open>sheetLines\<close>
  hidden, and the children of both containers, the alpha and \<^verbatim>\<open>viewport.dirty\<close> are as
  before, so \<^verbatim>\<open>drawSheetBorders\<close> has not run. From the threshold on the call returns
  exactly when \<^verbatim>\<open>drawSheetBorders\<close> does, and leaves \<^verbatim>\<open>sheetLines\<close> visible: below the
  threshold plus the fade width with the alpha (scale - threshold) / fade width, which is a
  finite number from 0 to 1 and does not decrease when the scale increases, and otherwise
  with the alpha 1.
\<close>

theorem update_zoom:
  assumes "dirty st \<or> viewport_dirty st"
  shows "(num_less (scale_x ev) SCALE_TO_SHOW_SHEET_BORDERS \<longrightarrow>
            (\<exists>st'. update ev st = Inr st' \<and> \<not> sheetLines_visible st' \<and>
                   sheetLines st' = sheetLines st \<and> cellLines st' = cellLines st \<and>
                   sheetLines_alpha st' = sheetLines_alpha st \<and>
                   viewport_dirty st' = viewport_dirty st)) \<and>
         (\<not> num_less (scale_x ev) SCALE_TO_SHOW_SHEET_BORDERS \<longrightarrow>
            (\<exists>st'. update ev st = Inr st') =
              (\<exists>st1. drawSheetBorders ev (st\<lparr>sheetLines_visible := True\<rparr>) = Inr st1)) \<and>
         (\<not> num_less (scale_x ev) SCALE_TO_SHOW_SHEET_BORDERS \<and>
          num_less (scale_x ev) (num_add SCALE_TO_SHOW_SHEET_BORDERS FADE_SCALE) \<longrightarrow>
            (\<exists>a. num_div (num_sub (scale_x ev) SCALE_TO_SHOW_SHEET_BORDERS) FADE_SCALE = Finite a \<and>
                 0 \<le> a \<and> a \<le> 1) \<and>
            (\<forall>st'. update ev st = Inr st' \<longrightarrow>
               sheetLines_visible st' \<and>
               sheetLines_alpha st' =
                 num_div (num_sub (scale_x ev) SCALE_TO_SHOW_SHEET_BORDERS) FADE_SCALE)) \<and>
         (\<not> num_less (scale_x ev) SCALE_TO_SHOW_SHEET_BORDERS \<and>
          num_less (scale_x ev) (scale_x ev') \<and>
          num_less (scale_x ev') (num_add SCALE_TO_SHOW_SHEET_BORDERS FADE_SCALE) \<longrightarrow>
            (\<forall>st1 st2. update ev st = Inr st1 \<and> update ev' st = Inr st2 \<longrightarrow>
               \<not> num_less (sheetLines_alpha st2) (sheetLines_alpha st1))) \<and>
         (\<not> num_less (scale_x ev) SCALE_TO_SHOW_SHEET_BORDERS \<and>
          \<not> num_less (scale_x ev) (num_add SCALE_TO_SHOW_SHEET_BORDERS FADE_SCALE) \<longrightarrow>
            (\<forall>st'. update ev st = Inr st' \<longrightarrow>
               sheetLines_visible st' \<and> sheetLines_alpha st' = Finite 1))"
proof -
  let ?alpha = "\<lambda>ev. if num_less (scale_x ev) (num_add SCALE_TO_SHOW_SHEET_BORDERS FADE_SCALE)
                then num_div (num_sub (scale_x ev) SCALE_TO_SHOW_SHEET_BORDERS) FADE_SCALE
                else Finite 1"
  have below: "\<exists>st'. update ev st = Inr st' \<and> \<not> sheetLines_visible st' \<and>
                   sheetLines st' = sheetLines st \<and> cellLines st' = cellLines st \<and>
                   sheetLines_alpha st' = sheetLines_alpha st \<and>
                   viewport_dirty st' = viewport_dirty st"
    if "num_less (scale_x ev) SCALE_TO_SHOW_SHEET_BORDERS"
  proof -
    from that assms
    have "update ev st = Inr (cull ev (st\<lparr>sheetLines_visible := False, dirty := False\<rparr>))"
      by (auto simp: update_def)
    then show ?thesis by (simp add: cull_def)
  qed
  have run: "update ev st =
               bindE (drawSheetBorders ev (st\<lparr>sheetLines_visible := True\<rparr>))
                 (\<lambda>st1. Inr (cull ev (st1\<lparr>sheetLines_alpha := ?alpha ev, dirty := False\<rparr>)))"
    if "\<not> num_less (scale_x ev) SCALE_TO_SHOW_SHEET_BORDERS" for ev
    using that assms
    by (cases "drawSheetBorders ev (st\<lparr>sheetLines_visible := True\<rparr>)") (auto simp: update_def)
  have returns: "(\<exists>st'. update ev st = Inr st') =
                   (\<exists>st1. drawSheetBorders ev (st\<lparr>sheetLines_visible := True\<rparr>) = Inr st1)"
    if "\<not> num_less (scale_x ev) SCALE_TO_SHOW_SHEET_BORDERS"
    unfolding run [OF that]
    by (cases "drawSheetBorders ev (st\<lparr>sheetLines_visible := True\<rparr>)") simp_all
  have drawn: "sheetLines_visible st' \<and> sheetLines_alpha st' = ?alpha ev"
    if "\<not> num_less (scale_x ev) SCALE_TO_SHOW_SHEET_BORDERS" and "update ev st = Inr st'"
    for ev st'
  proof (cases "drawSheetBorders ev (st\<lparr>sheetLines_visible := True\<rparr>)")
    case (Inl e)
    with that(2) show ?thesis unfolding run [OF that(1)] by simp
  next
    case (Inr st1)
    have "sheetLines_visible st1"
      using drawSheetBorders_frame [of "st\<lparr>sheetLines_visible := True\<rparr>" ev] Inr
      by (simp add: frame_def)
    with Inr that(2) show ?thesis unfolding run [OF that(1)] by (auto simp: cull_def)
  qed
  have fading: "sheetLines_visible st' \<and>
        sheetLines_alpha st' = num_div (num_sub (scale_x ev) SCALE_TO_SHOW_SHEET_BORDERS) FADE_SCALE"
    if "\<not> num_less (scale_x ev) SCALE_TO_SHOW_SHEET_BORDERS"
      and "num_less (scale_x ev) (num_add SCALE_TO_SHOW_SHEET_BORDERS FADE_SCALE)"
      and "update ev st = Inr st'" for ev st'
    using drawn [OF that(1,3)] that(2) by simp
  have rising: "\<not> num_less (sheetLines_alpha st2) (sheetLines_alpha st1)"
    if "\<not> num_less (scale_x ev) SCALE_TO_SHOW_SHEET_BORDERS"
      and "num_less (scale_x ev) (scale_x ev')"
      and "num_less (scale_x ev') (num_add SCALE_TO_SHOW_SHEET_BORDERS FADE_SCALE)"
      and "update ev st = Inr st1" and "update ev' st = Inr st2" for st1 st2
  proof -
    have above: "\<not> num_less (scale_x ev') SCALE_TO_SHOW_SHEET_BORDERS"
      using that(1,2)
      by (cases "scale_x ev"; cases "scale_x ev'")
         (simp_all add: SCALE_TO_SHOW_SHEET_BORDERS_value)
    have below: "num_less (scale_x ev) (num_add SCALE_TO_SHOW_SHEET_BORDERS FADE_SCALE)"
      using that(2,3)
      by (cases "scale_x ev"; cases "scale_x ev'") (simp_all add: band_value)
    from fading [OF that(1) below that(4)] fading [OF above that(3,5)]
      fade_alpha_mono [OF that(1-3)]
    show ?thesis by simp
  qed
  have full: "sheetLines_visible st' \<and> sheetLines_alpha st' = Finite 1"
    if "\<not> num_less (scale_x ev) SCALE_TO_SHOW_SHEET_BORDERS"
      and "\<not> num_less (scale_x ev) (num_add SCALE_TO_SHOW_SHEET_BORDERS FADE_SCALE)"
      and "update ev st = Inr st'" for st'
    using drawn [OF that(1,3)] that(2) by simp
  from below returns fading [of ev] rising full fade_alpha [of "scale_x ev"]
  show ?thesis by blast
qed

theorem update_zoom_witness:
  "(dirty exampleDirty \<or> viewport_dirty exampleDirty) \<and>
   num_less (scale_x (gridEnv FADE_SCALE exampleBounds)) SCALE_TO_SHOW_SHEET_BORDERS \<and>
   update (gridEnv FADE_SCALE exampleBounds) exampleDirty =
     Inr ((initial ''s'')\<lparr>borders := Some exampleColumns, sheetLines_visible := False\<rparr>) \<and>
   \<not> num_less (scale_x (gridEnv SCALE_TO_SHOW_SHEET_BORDERS exampleBounds)) SCALE_TO_SHOW_SHEET_BORDERS \<and>
   num_less (scale_x (gridEnv SCALE_TO_SHOW_SHEET_BORDERS exampleBounds))
     (num_add SCALE_TO_SHOW_SHEET_BORDERS FADE_SCALE) \<and>
   update (gridEnv SCALE_TO_SHOW_SHEET_BORDERS exampleBounds) exampleDirty =
     Inr (exampleDrawn\<lparr>sheetLines_alpha := Finite 0\<rparr>) \<and>
   \<not> num_less (scale_x (gridEnv (toNumber (1 / 5)) exampleBounds)) SCALE_TO_SHOW_SHEET_BORDERS \<and>
   num_less (scale_x (gridEnv (toNumber (1 / 5)) exampleBounds))
     (num_add SCALE_TO_SHOW_SHEET_BORDERS FADE_SCALE) \<and>
   update (gridEnv (toNumber (1 / 5)) exampleBounds) exampleDirty =
     Inr (exampleDrawn\<lparr>sheetLines_alpha := Finite (4503599627370497 / 9007199254740992)\<rparr>) \<and>
   sheetLines_alpha (exampleDrawn\<lparr>sheetLines_alpha := Finite (4503599627370497 / 9007199254740992)\<rparr>) =
     num_div (num_sub (scale_x (gridEnv (toNumber (1 / 5)) exampleBounds))
       SCALE_TO_SHOW_SHEET_BORDERS) FADE_SCALE \<and>
   num_less (scale_x (gridEnv SCALE_TO_SHOW_SHEET_BORDERS exampleBounds))
     (scale_x (gridEnv (toNumber (1 / 5)) exampleBounds)) \<and>
   \<not> num_less
       (sheetLines_alpha
          (exampleDrawn\<lparr>sheetLines_alpha := Finite (4503599627370497 / 9007199254740992)\<rparr>))
       (sheetLines_alpha (exampleDrawn\<lparr>sheetLines_alpha := Finite 0\<rparr>)) \<and>
   \<not> num_less (scale_x (gridEnv (Finite (1 / 4)) exampleBounds))
       (num_add SCALE_TO_SHOW_SHEET_BORDERS FADE_SCALE) \<and>
   update (gridEnv (Finite (1 / 4)) exampleBounds) exampleDirty = Inr exampleDrawn \<and>
   sheetLines_alpha exampleDrawn = Finite 1"
proof -
  let ?S = "SCALE_TO_SHOW_SHEET_BORDERS"
  let ?B = "num_add SCALE_TO_SHOW_SHEET_BORDERS FADE_SCALE"
  have d: "dirty exampleDirty \<or> viewport_dirty exampleDirty"
    by (simp add: exampleDirty_def)
  have dd: "dirty exampleDirty"
    by (simp add: exampleDirty_def)
  have scale: "scale_x (gridEnv s exampleBounds) = s" for s
    by (simp add: gridEnv_def)
  have fifth: "toNumber (1 / 5) = Finite (3602879701896397 / 18014398509481984)"
  proof -
    have "toDouble (1 / 5) = 3602879701896397 / 18014398509481984"
      using toDouble_eqI [of "1 / 5" "- 3" 7205759403792794] by (simp add: power_int_minus)
    then show ?thesis using toNumber_finite [of "1 / 5"] by simp
  qed
  have zero: "num_div (num_sub ?S ?S) FADE_SCALE = Finite 0"
    by (simp add: SCALE_TO_SHOW_SHEET_BORDERS_value FADE_SCALE_value num_sub_def toNumber_def
          toDouble_def)
  have r10: "num_less (scale_x (gridEnv FADE_SCALE exampleBounds)) ?S"
    unfolding scale by (simp add: SCALE_TO_SHOW_SHEET_BORDERS_value FADE_SCALE_value)
  have r15: "\<not> num_less (scale_x (gridEnv SCALE_TO_SHOW_SHEET_BORDERS exampleBounds)) ?S"
    and b15: "num_less (scale_x (gridEnv SCALE_TO_SHOW_SHEET_BORDERS exampleBounds)) ?B"
    unfolding scale band_value by (simp_all add: SCALE_TO_SHOW_SHEET_BORDERS_value)
  have r5: "\<not> num_less (scale_x (gridEnv (toNumber (1 / 5)) exampleBounds)) ?S"
    and b5: "num_less (scale_x (gridEnv (toNumber (1 / 5)) exampleBounds)) ?B"
    unfolding scale fifth band_value
    by (simp_all add: SCALE_TO_SHOW_SHEET_BORDERS_value)
  have r4: "\<not> num_less (scale_x (gridEnv (Finite (1 / 4)) exampleBounds)) ?S"
    and b4: "\<not> num_less (scale_x (gridEnv (Finite (1 / 4)) exampleBounds)) ?B"
    unfolding scale band_value
    by (simp_all add: SCALE_TO_SHOW_SHEET_BORDERS_value)
  have draw10: "drawSheetBorders (gridEnv SCALE_TO_SHOW_SHEET_BORDERS exampleBounds)
                  (exampleDirty\<lparr>sheetLines_visible := True\<rparr>) = Inr (exampleDrawn\<lparr>dirty := True\<rparr>)"
    unfolding SCALE_TO_SHOW_SHEET_BORDERS_value by code_simp
  have draw5: "drawSheetBorders (gridEnv (toNumber (1 / 5)) exampleBounds)
                 (exampleDirty\<lparr>sheetLines_visible := True\<rparr>) = Inr (exampleDrawn\<lparr>dirty := True\<rparr>)"
    unfolding fifth by code_simp
  have draw4: "drawSheetBorders (gridEnv (Finite (1 / 4)) exampleBounds)
                 (exampleDirty\<lparr>sheetLines_visible := True\<rparr>) = Inr (exampleDrawn\<lparr>dirty := True\<rparr>)"
    by code_simp
  have upd: "update ev exampleDirty = Inr (exampleDrawn\<lparr>sheetLines_alpha := al\<rparr>)"
    if "\<not> num_less (scale_x ev) ?S"
      and "drawSheetBorders ev (exampleDirty\<lparr>sheetLines_visible := True\<rparr>) =
             Inr (exampleDrawn\<lparr>dirty := True\<rparr>)"
      and "al = (if num_less (scale_x ev) ?B
                 then num_div (num_sub (scale_x ev) ?S) FADE_SCALE else Finite 1)"
    for ev al
    using that dd by (simp add: update_def cull_def exampleDrawn_def initial_def)
  have low: "update (gridEnv FADE_SCALE exampleBounds) exampleDirty =
     Inr ((initial ''s'')\<lparr>borders := Some exampleColumns, sheetLines_visible := False\<rparr>)"
    using dd r10 by (simp add: update_def cull_def) (simp add: exampleDirty_def initial_def)
  have edge: "update (gridEnv SCALE_TO_SHOW_SHEET_BORDERS exampleBounds) exampleDirty =
                Inr (exampleDrawn\<lparr>sheetLines_alpha := Finite 0\<rparr>)"
    using upd [OF r15 draw10, of "Finite 0"] b15 zero by (simp add: scale)
  have mid: "update (gridEnv (toNumber (1 / 5)) exampleBounds) exampleDirty =
               Inr (exampleDrawn\<lparr>sheetLines_alpha := Finite (4503599627370497 / 9007199254740992)\<rparr>)"
    using upd [OF r5 draw5, of "Finite (4503599627370497 / 9007199254740992)"] b5 alpha_02
    by (simp add: scale)
  have high: "update (gridEnv (Finite (1 / 4)) exampleBounds) exampleDirty = Inr exampleDrawn"
    using upd [OF r4 draw4, of "Finite 1"] b4 by (simp add: exampleDrawn_def initial_def)
  from update_zoom [OF d, of "gridEnv (toNumber (1 / 5)) exampleBounds"] r5 b5 mid
  have a5: "sheetLines_alpha
              (exampleDrawn\<lparr>sheetLines_alpha := Finite (4503599627370497 / 9007199254740992)\<rparr>) =
            num_div (num_sub (scale_x (gridEnv (toNumber (1 / 5)) exampleBounds)) ?S) FADE_SCALE"
    by blast
  have up: "num_less (scale_x (gridEnv SCALE_TO_SHOW_SHEET_BORDERS exampleBounds))
              (scale_x (gridEnv (toNumber (1 / 5)) exampleBounds))"
    unfolding scale fifth by (simp add: SCALE_TO_SHOW_SHEET_BORDERS_value)
  from update_zoom [OF d, of "gridEnv SCALE_TO_SHOW_SHEET_BORDERS exampleBounds"
      "gridEnv (toNumber (1 / 5)) exampleBounds"] r15 up b5 edge mid
  have rise: "\<not> num_less
       (sheetLines_alpha
          (exampleDrawn\<lparr>sheetLines_alpha := Finite (4503599627370497 / 9007199254740992)\<rparr>))
       (sheetLines_alpha (exampleDrawn\<lparr>sheetLines_alpha := Finite 0\<rparr>))"
    by blast
  from update_zoom [OF d, of "gridEnv (Finite (1 / 4)) exampleBounds"] r4 b4 high
  have a1: "sheetLines_alpha exampleDrawn = Finite 1"
    by blast
  from d r10 low r15 b15 edge r5 b5 mid a5 up rise b4 high a1 show ?thesis
    by blast
qed

text \<open>
  C7. The pool \<^verbatim>\<open>spriteLines\<close> of the segment-tier drawables is never emptied.
  \<^verbatim>\<open>drawSheetCells\<close> with the owned id and no dataset stores none, removes the children
  of \<^verbatim>\<open>cellLines\<close> and sets the dirty flag, and leaves the pool as it was, in every
  environment. So when a dataset with one explicit segment has been received, the call with
  no dataset leaves the \<^verbatim>\<open>BorderCull\<close> of that segment in the pool.
\<close>

theorem drawSheetCells_keeps_pool:
  "drawSheetCells ev (sheetId st) None st =
     Inr (st\<lparr>borders := None, cellLines := [], dirty := True\<rparr>) \<and>
   drawSheetCells (gridEnv (Finite 1) exampleBounds) ''s'' (Some exampleHorizontal) (initial ''s'') =
     Inr examplePooled \<and>
   drawSheetCells (gridEnv (Finite 1) exampleBounds) ''s'' None examplePooled =
     Inr (examplePooled\<lparr>borders := None, cellLines := [], dirty := True\<rparr>) \<and>
   spriteLines (examplePooled\<lparr>borders := None, cellLines := [], dirty := True\<rparr>) =
     [\<lparr>sprite =
         \<lparr>position = \<lparr>rect_x = 200, rect_y = 60, rect_width = 300, rect_height = 0\<rparr>,
           orientation = Horizontal, style = \<lparr>color = (0, 0, 0, 255), line = Line ''line1''\<rparr>\<rparr>,
       rectangle = \<lparr>rect_x = 200, rect_y = 60, rect_width = 300, rect_height = 0\<rparr>,
       visible = True\<rparr>]"
proof -
  have general: "drawSheetCells ev (sheetId st) None st =
                   Inr (st\<lparr>borders := None, cellLines := [], dirty := True\<rparr>)" for ev st
    by (simp add: drawSheetCells_def drawHorizontal_def drawVertical_def)
  have received: "drawSheetCells (gridEnv (Finite 1) exampleBounds) ''s'' (Some exampleHorizontal)
                    (initial ''s'') = Inr examplePooled"
    by code_simp
  have own: "sheetId examplePooled = ''s''"
    by (simp add: examplePooled_def initial_def)
  have pool: "spriteLines (examplePooled\<lparr>borders := None, cellLines := [], dirty := True\<rparr>) =
     [\<lparr>sprite =
         \<lparr>position = \<lparr>rect_x = 200, rect_y = 60, rect_width = 300, rect_height = 0\<rparr>,
           orientation = Horizontal, style = \<lparr>color = (0, 0, 0, 255), line = Line ''line1''\<rparr>\<rparr>,
       rectangle = \<lparr>rect_x = 200, rect_y = 60, rect_width = 300, rect_height = 0\<rparr>,
       visible = True\<rparr>]"
    by (simp add: examplePooled_def)
  from general [of ev st] received general [of "gridEnv (Finite 1) exampleBounds" examplePooled] pool
  show ?thesis by (simp only: own)
qed

text \<open>
  C8. When the registry has no sheet of the owned id, the getter \<^verbatim>\<open>sheet\<close> throws, and so
  does every function that reads it: each of the two line functions, whatever the segments,
  and each of the two loops over the explicit segments as soon as a segment is not clear.
\<close>

theorem missing_sheet_throws:
  assumes "getById ev (sheetId st) = None"
  shows "sheet ev st = Inl sheetError \<and>
         drawScreenVerticalLine ev rowStart rowEnd column border rows st = Inl sheetError \<and>
         drawScreenHorizontalLine ev columnStart columnEnd row border columns st = Inl sheetError \<and>
         (Option.bind (borders st) b_horizontal = Some hs \<and> (\<exists>h\<in>set hs. line h \<noteq> Clear) \<longrightarrow>
            drawHorizontal ev st = Inl sheetError) \<and>
         (Option.bind (borders st) b_vertical = Some vs \<and> (\<exists>v\<in>set vs. line v \<noteq> Clear) \<longrightarrow>
            drawVertical ev st = Inl sheetError)"
proof -
  have s: "sheet ev st = Inl sheetError"
    using assms by (simp add: sheet_def sheetError_def)
  then show ?thesis
    by (simp add: drawScreenVerticalLine_def drawScreenHorizontalLine_def drawHorizontal_def
          drawVertical_def Let_def horizontalBorder_missing [OF assms]
          verticalBorder_missing [OF assms])
qed

theorem missing_sheet_throws_witness:
  "getById (gridEnv (Finite 1) exampleBounds) (sheetId ((initial ''t'')\<lparr>borders := Some exampleHorizontal\<rparr>)) =
     None \<and>
   drawScreenVerticalLine (gridEnv (Finite 1) exampleBounds) 0 10 3 (solid 1) None
     ((initial ''t'')\<lparr>borders := Some exampleHorizontal\<rparr>) = Inl sheetError \<and>
   drawHorizontal (gridEnv (Finite 1) exampleBounds) ((initial ''t'')\<lparr>borders := Some exampleHorizontal\<rparr>) =
     Inl sheetError"
proof -
  let ?st = "(initial ''t'')\<lparr>borders := Some exampleHorizontal\<rparr>"
  have h: "getById (gridEnv (Finite 1) exampleBounds) (sheetId ?st) = None"
    by (simp add: gridEnv_def initial_def)
  show ?thesis
    using h missing_sheet_throws [OF h, where rowStart = 0 and rowEnd = 10 and column = 3
        and border = "solid 1" and rows = None
        and hs = "[\<lparr>color = (0, 0, 0, 255), line = Line ''line1'', b_x = 2, b_y = 3, width = 3\<rparr>]"]
    by (simp add: exampleHorizontal_def noBorders_def)
qed

text \<open>
  C9. When neither the renderer nor the viewport is dirty, \<^verbatim>\<open>update\<close> returns the state
  it was given: nothing is redrawn, no visibility or alpha changes, and no sprite is culled.
\<close>

theorem update_clean:
  assumes "\<not> dirty st" and "\<not> viewport_dirty st"
  shows "update ev st = Inr st"
  using assms by (simp add: update_def)

theorem update_clean_witness:
  "\<not> dirty (initial ''s'') \<and> \<not> viewport_dirty (initial ''s'') \<and>
   update (gridEnv (Finite 1) exampleBounds) (initial ''s'') = Inr (initial ''s'')"
proof -
  have d: "\<not> dirty (initial ''s'')" and v: "\<not> viewport_dirty (initial ''s'')"
    by (simp_all add: initial_def)
  show ?thesis
    using d v update_clean [OF d v, of "gridEnv (Finite 1) exampleBounds"] by simp
qed

text \<open>
  C10. With the owning sheet in the registry, the block for the top edge of a column
  override whose kind is not clear returns, and appends to \<^verbatim>\<open>sheetLines\<close>, for each row
  from the first visible one to the one after the last, the primitives of the line of
  length one from the column to the next, resolved without an override map: the lines are
  those of any dataset \<open>b\<close> with the same explicit horizontal segments, whatever its column
  and row overrides and its sheet-wide default. The block for the bottom edge does the same
  with the bottom edge, and the blocks for the left and the right edge of a row override do
  it with the columns, the vertical lines of length one and the explicit vertical segments.
\<close>

theorem perpendicular_edges_unit_lines:
  assumes "getById ev (sheetId st) = Some sh"
  shows
    "(top_edge column = Some e \<and> line e \<noteq> Clear \<and>
      Option.bind b b_horizontal = Option.bind (borders st) b_horizontal \<longrightarrow>
        columnTop ev rowStart rowEnd xNumber column st =
          Inr (st\<lparr>sheetLines := sheetLines st @
                 concat (map (\<lambda>y. map (horizontalPrimitive sh y e)
                                     (horizontalLines ev b xNumber (xNumber + 1) y None))
                           [rowStart..rowEnd + 1])\<rparr>)) \<and>
     (bottom_edge column = Some e \<and> line e \<noteq> Clear \<and>
      Option.bind b b_horizontal = Option.bind (borders st) b_horizontal \<longrightarrow>
        columnBottom ev rowStart rowEnd xNumber column st =
          Inr (st\<lparr>sheetLines := sheetLines st @
                 concat (map (\<lambda>y. map (horizontalPrimitive sh y e)
                                     (horizontalLines ev b xNumber (xNumber + 1) y None))
                           [rowStart..rowEnd + 1])\<rparr>)) \<and>
     (left_edge row = Some e \<and> line e \<noteq> Clear \<and>
      Option.bind b b_vertical = Option.bind (borders st) b_vertical \<longrightarrow>
        rowLeft ev columnStart columnEnd yNumber row st =
          Inr (st\<lparr>sheetLines := sheetLines st @
                 concat (map (\<lambda>x. map (verticalPrimitive sh x e)
                                     (verticalLines ev b yNumber (yNumber + 1) x None))
                           [columnStart..columnEnd + 1])\<rparr>)) \<and>
     (right_edge row = Some e \<and> line e \<noteq> Clear \<and>
      Option.bind b b_vertical = Option.bind (borders st) b_vertical \<longrightarrow>
        rowRight ev columnStart columnEnd yNumber row st =
          Inr (st\<lparr>sheetLines := sheetLines st @
                 concat (map (\<lambda>x. map (verticalPrimitive sh x e)
                                     (verticalLines ev b yNumber (yNumber + 1) x None))
                           [columnStart..columnEnd + 1])\<rparr>))"
proof -
  have horizontal: "horizontalLines ev (borders st) cs ce r None = horizontalLines ev b cs ce r None"
    if "Option.bind b b_horizontal = Option.bind (borders st) b_horizontal" for cs ce r
    by (rule horizontalLines_explicit_only) (simp add: that)
  have vertical: "verticalLines ev (borders st) rs re c None = verticalLines ev b rs re c None"
    if "Option.bind b b_vertical = Option.bind (borders st) b_vertical" for rs re c
    by (rule verticalLines_explicit_only) (simp add: that)
  show ?thesis
    by (simp add: columnTop_def columnBottom_def rowLeft_def rowRight_def
          forEachE_drawScreenHorizontalLine [OF assms] forEachE_drawScreenVerticalLine [OF assms]
          horizontal vertical)
qed

theorem perpendicular_edges_unit_lines_witness:
  "getById (gridEnv (Finite 1) exampleBounds)
     (sheetId ((initial ''s'')\<lparr>borders := Some exampleOverridden\<rparr>)) = Some gridSheet \<and>
   top_edge exampleColumn = Some (solid 1) \<and> line (solid 1) \<noteq> Clear \<and>
   bottom_edge exampleColumn = Some (dotted 2) \<and> line (dotted 2) \<noteq> Clear \<and>
   left_edge exampleRow = Some (solid 3) \<and> line (solid 3) \<noteq> Clear \<and>
   right_edge exampleRow = Some (dotted 4) \<and> line (dotted 4) \<noteq> Clear \<and>
   Option.bind (Some exampleCrossings) b_horizontal =
     Option.bind (borders ((initial ''s'')\<lparr>borders := Some exampleOverridden\<rparr>)) b_horizontal \<and>
   Option.bind (Some exampleCrossings) b_vertical =
     Option.bind (borders ((initial ''s'')\<lparr>borders := Some exampleOverridden\<rparr>)) b_vertical \<and>
   horizontalLines (gridEnv (Finite 1) exampleBounds) (Some exampleCrossings) 1 2 3 None = [] \<and>
   horizontalLines (gridEnv (Finite 1) exampleBounds) (Some exampleCrossings) 1 2 4 None = [(1, 2)] \<and>
   verticalLines (gridEnv (Finite 1) exampleBounds) (Some exampleCrossings) 2 3 3 None = [] \<and>
   verticalLines (gridEnv (Finite 1) exampleBounds) (Some exampleCrossings) 2 3 4 None = [(2, 3)] \<and>
   columnTop (gridEnv (Finite 1) exampleBounds) 3 3 1 exampleColumn
       ((initial ''s'')\<lparr>borders := Some exampleOverridden\<rparr>) =
     Inr ((initial ''s'')\<lparr>borders := Some exampleOverridden,
            sheetLines :=
              [\<lparr>position = \<lparr>rect_x = 100, rect_y = 80, rect_width = 100, rect_height = 0\<rparr>,
                orientation = Horizontal, style = styleOf (solid 1)\<rparr>]\<rparr>) \<and>
   columnBottom (gridEnv (Finite 1) exampleBounds) 3 3 1 exampleColumn
       ((initial ''s'')\<lparr>borders := Some exampleOverridden\<rparr>) =
     Inr ((initial ''s'')\<lparr>borders := Some exampleOverridden,
            sheetLines :=
              [\<lparr>position = \<lparr>rect_x = 100, rect_y = 80, rect_width = 100, rect_height = 0\<rparr>,
                orientation = Horizontal, style = styleOf (dotted 2)\<rparr>]\<rparr>) \<and>
   rowLeft (gridEnv (Finite 1) exampleBounds) 3 3 2 exampleRow
       ((initial ''s'')\<lparr>borders := Some exampleOverridden\<rparr>) =
     Inr ((initial ''s'')\<lparr>borders := Some exampleOverridden,
            sheetLines :=
              [\<lparr>position = \<lparr>rect_x = 400, rect_y = 40, rect_width = 0, rect_height = 20\<rparr>,
                orientation = Vertical, style = styleOf (solid 3)\<rparr>]\<rparr>) \<and>
   rowRight (gridEnv (Finite 1) exampleBounds) 3 3 2 exampleRow
       ((initial ''s'')\<lparr>borders := Some exampleOverridden\<rparr>) =
     Inr ((initial ''s'')\<lparr>borders := Some exampleOverridden,
            sheetLines :=
              [\<lparr>position = \<lparr>rect_x = 400, rect_y = 40, rect_width = 0, rect_height = 20\<rparr>,
                orientation = Vertical, style = styleOf (dotted 4)\<rparr>]\<rparr>) \<and>
   drawSheetBorders (gridEnv (Finite 1) unitBounds) ((initial ''s'')\<lparr>borders := Some exampleCorner\<rparr>) =
     Inr ((initial ''s'')\<lparr>borders := Some exampleCorner, viewport_dirty := True,
            sheetLines :=
              [\<lparr>position = \<lparr>rect_x = 0, rect_y = 0, rect_width = 100, rect_height = 0\<rparr>,
                orientation = Horizontal, style = styleOf (solid 1)\<rparr>,
               \<lparr>position = \<lparr>rect_x = 0, rect_y = 20, rect_width = 100, rect_height = 0\<rparr>,
                orientation = Horizontal, style = styleOf (solid 1)\<rparr>,
               \<lparr>position = \<lparr>rect_x = 0, rect_y = 0, rect_width = 100, rect_height = 0\<rparr>,
                orientation = Horizontal, style = styleOf (dotted 2)\<rparr>,
               \<lparr>position = \<lparr>rect_x = 0, rect_y = 20, rect_width = 100, rect_height = 0\<rparr>,
                orientation = Horizontal, style = styleOf (dotted 2)\<rparr>,
               \<lparr>position = \<lparr>rect_x = 0, rect_y = 0, rect_width = 0, rect_height = 20\<rparr>,
                orientation = Vertical, style = styleOf (solid 3)\<rparr>,
               \<lparr>position = \<lparr>rect_x = 100, rect_y = 0, rect_width = 0, rect_height = 20\<rparr>,
                orientation = Vertical, style = styleOf (solid 3)\<rparr>,
               \<lparr>position = \<lparr>rect_x = 0, rect_y = 0, rect_width = 0, rect_height = 20\<rparr>,
                orientation = Vertical, style = styleOf (dotted 4)\<rparr>,
               \<lparr>position = \<lparr>rect_x = 100, rect_y = 0, rect_width = 0, rect_height = 20\<rparr>,
                orientation = Vertical, style = styleOf (dotted 4)\<rparr>]\<rparr>)"
proof -
  let ?ev = "gridEnv (Finite 1) exampleBounds"
  let ?st = "(initial ''s'')\<lparr>borders := Some exampleOverridden\<rparr>"
  have sh: "getById ?ev (sheetId ?st) = Some gridSheet"
    by (simp add: gridEnv_def initial_def)
  have edges: "top_edge exampleColumn = Some (solid 1)" "bottom_edge exampleColumn = Some (dotted 2)"
    "left_edge exampleRow = Some (solid 3)" "right_edge exampleRow = Some (dotted 4)"
    by (simp_all add: exampleColumn_def exampleRow_def)
  have kinds: "line (solid 1) \<noteq> Clear" "line (dotted 2) \<noteq> Clear" "line (solid 3) \<noteq> Clear"
    "line (dotted 4) \<noteq> Clear"
    by (simp_all add: solid_def dotted_def)
  have same: "Option.bind (Some exampleCrossings) b_horizontal = Option.bind (borders ?st) b_horizontal"
    "Option.bind (Some exampleCrossings) b_vertical = Option.bind (borders ?st) b_vertical"
    by (simp_all add: exampleOverridden_def)
  have hl: "horizontalLines ?ev (Some exampleCrossings) 1 2 3 None = []"
    "horizontalLines ?ev (Some exampleCrossings) 1 2 4 None = [(1, 2)]"
    by code_simp+
  have vl: "verticalLines ?ev (Some exampleCrossings) 2 3 3 None = []"
    "verticalLines ?ev (Some exampleCrossings) 2 3 4 None = [(2, 3)]"
    by code_simp+
  have rows: "[3..3 + 1] = [3, 4::int]"
    by (simp add: upto.simps)
  note inst = perpendicular_edges_unit_lines [OF sh, where b = "Some exampleCrossings"
      and column = exampleColumn and row = exampleRow and rowStart = 3 and rowEnd = 3
      and xNumber = 1 and columnStart = 3 and columnEnd = 3 and yNumber = 2]
  have top: "columnTop ?ev 3 3 1 exampleColumn ?st =
     Inr ((initial ''s'')\<lparr>borders := Some exampleOverridden,
            sheetLines :=
              [\<lparr>position = \<lparr>rect_x = 100, rect_y = 80, rect_width = 100, rect_height = 0\<rparr>,
                orientation = Horizontal, style = styleOf (solid 1)\<rparr>]\<rparr>)"
    using inst [where e = "solid 1"] edges(1) kinds(1) same(1)
    by (simp add: rows hl horizontalPrimitive_def gridSheet_def initial_def)
  have bottom: "columnBottom ?ev 3 3 1 exampleColumn ?st =
     Inr ((initial ''s'')\<lparr>borders := Some exampleOverridden,
            sheetLines :=
              [\<lparr>position = \<lparr>rect_x = 100, rect_y = 80, rect_width = 100, rect_height = 0\<rparr>,
                orientation = Horizontal, style = styleOf (dotted 2)\<rparr>]\<rparr>)"
    using inst [where e = "dotted 2"] edges(2) kinds(2) same(1)
    by (simp add: rows hl horizontalPrimitive_def gridSheet_def initial_def)
  have left: "rowLeft ?ev 3 3 2 exampleRow ?st =
     Inr ((initial ''s'')\<lparr>borders := Some exampleOverridden,
            sheetLines :=
              [\<lparr>position = \<lparr>rect_x = 400, rect_y = 40, rect_width = 0, rect_height = 20\<rparr>,
                orientation = Vertical, style = styleOf (solid 3)\<rparr>]\<rparr>)"
    using inst [where e = "solid 3"] edges(3) kinds(3) same(2)
    by (simp add: rows vl verticalPrimitive_def gridSheet_def initial_def)
  have right: "rowRight ?ev 3 3 2 exampleRow ?st =
     Inr ((initial ''s'')\<lparr>borders := Some exampleOverridden,
            sheetLines :=
              [\<lparr>position = \<lparr>rect_x = 400, rect_y = 40, rect_width = 0, rect_height = 20\<rparr>,
                orientation = Vertical, style = styleOf (dotted 4)\<rparr>]\<rparr>)"
    using inst [where e = "dotted 4"] edges(4) kinds(4) same(2)
    by (simp add: rows vl verticalPrimitive_def gridSheet_def initial_def)
  have corner: "drawSheetBorders (gridEnv (Finite 1) unitBounds)
                  ((initial ''s'')\<lparr>borders := Some exampleCorner\<rparr>) =
     Inr ((initial ''s'')\<lparr>borders := Some exampleCorner, viewport_dirty := True,
            sheetLines :=
              [\<lparr>position = \<lparr>rect_x = 0, rect_y = 0, rect_width = 100, rect_height = 0\<rparr>,
                orientation = Horizontal, style = styleOf (solid 1)\<rparr>,
               \<lparr>position = \<lparr>rect_x = 0, rect_y = 20, rect_width = 100, rect_height = 0\<rparr>,
                orientation = Horizontal, style = styleOf (solid 1)\<rparr>,
               \<lparr>position = \<lparr>rect_x = 0, rect_y = 0, rect_width = 100, rect_height = 0\<rparr>,
                orientation = Horizontal, style = styleOf (dotted 2)\<rparr>,
               \<lparr>position = \<lparr>rect_x = 0, rect_y = 20, rect_width = 100, rect_height = 0\<rparr>,
                orientation = Horizontal, style = styleOf (dotted 2)\<rparr>,
               \<lparr>position = \<lparr>rect_x = 0, rect_y = 0, rect_width = 0, rect_height = 20\<rparr>,
                orientation = Vertical, style = styleOf (solid 3)\<rparr>,
               \<lparr>position = \<lparr>rect_x = 100, rect_y = 0, rect_width = 0, rect_height = 20\<rparr>,
                orientation = Vertical, style = styleOf (solid 3)\<rparr>,
               \<lparr>position = \<lparr>rect_x = 0, rect_y = 0, rect_width = 0, rect_height = 20\<rparr>,
                orientation = Vertical, style = styleOf (dotted 4)\<rparr>,
               \<lparr>position = \<lparr>rect_x = 100, rect_y = 0, rect_width = 0, rect_height = 20\<rparr>,
                orientation = Vertical, style = styleOf (dotted 4)\<rparr>]\<rparr>)"
    by code_simp
  from sh edges kinds same hl vl top bottom left right corner show ?thesis by simp
qed


end
